theory Spec2Isabelle
  imports Main "HOL-Library.Word"
begin

section \<open>IPv6 Neighbour Discovery (net/ipv6/ndisc.c): option codec\<close>

text \<open>
  Bytes are 8-bit words. A buffer is a list of bytes; a pointer into the option area is
  the offset of the byte it points at, and a NULL pointer is \<open>None\<close>.
\<close>

type_synonym u8 = "8 word"

definition u8_at :: "u8 list \<Rightarrow> nat \<Rightarrow> u8" where
  \<comment> \<open>the byte at an offset; the code reads only below the length it has checked\<close>
  "u8_at buf i = (if i < length buf then buf ! i else 0)"

text \<open>
  Option type numbers of RFC 4861, RFC 4191 and RFC 6106 (\<open>include/net/ndisc.h\<close>
  is not part of the source under study; the numbers are the protocol's).
\<close>

definition ND_OPT_SOURCE_LL_ADDR :: u8 where "ND_OPT_SOURCE_LL_ADDR = 1"
definition ND_OPT_TARGET_LL_ADDR :: u8 where "ND_OPT_TARGET_LL_ADDR = 2"
definition ND_OPT_PREFIX_INFO :: u8 where "ND_OPT_PREFIX_INFO = 3"
definition ND_OPT_REDIRECT_HDR :: u8 where "ND_OPT_REDIRECT_HDR = 4"
definition ND_OPT_MTU :: u8 where "ND_OPT_MTU = 5"
definition ND_OPT_ROUTE_INFO :: u8 where "ND_OPT_ROUTE_INFO = 24"
definition ND_OPT_RDNSS :: u8 where "ND_OPT_RDNSS = 25"
definition ND_OPT_DNSSL :: u8 where "ND_OPT_DNSSL = 31"

text \<open>
  \<open>struct ndisc_options\<close>: the slots of \<open>nd_opt_array\<close> under the names the code
  uses for them (\<open>nd_opts_src_lladdr\<close>, ...), and the first/last pointers of the
  repeatable options.
\<close>

record ndisc_options =
  nd_opts_src_lladdr :: "nat option"
  nd_opts_tgt_lladdr :: "nat option"
  nd_opts_pi :: "nat option"
  nd_opts_pi_end :: "nat option"
  nd_opts_rh :: "nat option"
  nd_opts_mtu :: "nat option"
  nd_opts_ri :: "nat option"
  nd_opts_ri_end :: "nat option"
  nd_useropts :: "nat option"
  nd_useropts_end :: "nat option"

definition ndopts_zero :: ndisc_options where
  \<comment> \<open>\<open>memset(ndopts, 0, sizeof(*ndopts))\<close>\<close>
  "ndopts_zero =
     \<lparr>nd_opts_src_lladdr = None, nd_opts_tgt_lladdr = None, nd_opts_pi = None,
      nd_opts_pi_end = None, nd_opts_rh = None, nd_opts_mtu = None, nd_opts_ri = None,
      nd_opts_ri_end = None, nd_useropts = None, nd_useropts_end = None\<rparr>"

definition ndisc_is_useropt :: "u8 \<Rightarrow> bool" where
  "ndisc_is_useropt t \<longleftrightarrow> t = ND_OPT_RDNSS \<or> t = ND_OPT_DNSSL"

definition first_wins :: "nat option \<Rightarrow> nat \<Rightarrow> nat option" where
  \<comment> \<open>\<open>if (!slot) slot = nd_opt;\<close>\<close>
  "first_wins slot p = (case slot of None \<Rightarrow> Some p | Some q \<Rightarrow> Some q)"

definition record_option :: "bool \<Rightarrow> u8 \<Rightarrow> nat \<Rightarrow> ndisc_options \<Rightarrow> ndisc_options" where
  \<comment> \<open>the \<open>switch (nd_opt->nd_opt_type)\<close> of \<open>ndisc_parse_options\<close>; the first argument
      is \<open>CONFIG_IPV6_ROUTE_INFO\<close>\<close>
  "record_option route_info t p nd =
     (if t = ND_OPT_SOURCE_LL_ADDR then nd\<lparr>nd_opts_src_lladdr := first_wins (nd_opts_src_lladdr nd) p\<rparr>
      else if t = ND_OPT_TARGET_LL_ADDR then nd\<lparr>nd_opts_tgt_lladdr := first_wins (nd_opts_tgt_lladdr nd) p\<rparr>
      else if t = ND_OPT_MTU then nd\<lparr>nd_opts_mtu := first_wins (nd_opts_mtu nd) p\<rparr>
      else if t = ND_OPT_REDIRECT_HDR then nd\<lparr>nd_opts_rh := first_wins (nd_opts_rh nd) p\<rparr>
      else if t = ND_OPT_PREFIX_INFO
        then nd\<lparr>nd_opts_pi_end := Some p, nd_opts_pi := first_wins (nd_opts_pi nd) p\<rparr>
      else if route_info \<and> t = ND_OPT_ROUTE_INFO
        then nd\<lparr>nd_opts_ri_end := Some p, nd_opts_ri := first_wins (nd_opts_ri nd) p\<rparr>
      else if ndisc_is_useropt t
        then nd\<lparr>nd_useropts_end := Some p, nd_useropts := first_wins (nd_useropts nd) p\<rparr>
      else nd)"

text \<open>
  The \<open>while (opt_len)\<close> loop. \<open>rest\<close> holds the \<open>opt_len\<close> bytes that are left,
  \<open>pos\<close> is the offset of \<open>nd_opt\<close> in the option area.
\<close>

function parse_loop :: "bool \<Rightarrow> nat \<Rightarrow> u8 list \<Rightarrow> ndisc_options \<Rightarrow> ndisc_options option" where
  "parse_loop ri pos rest ndopts =
     (if length rest = 0 then Some ndopts
      else if length rest < 2 then None
      else let l = unat (rest ! 1) * 8 in
        if length rest < l \<or> l = 0 then None
        else parse_loop ri (pos + l) (drop l rest) (record_option ri (rest ! 0) pos ndopts))"
  by pat_completeness auto
termination
  by (relation "measure (\<lambda>(ri, pos, rest, ndopts). length rest)") auto

declare parse_loop.simps [simp del]

definition ndisc_parse_options :: "bool \<Rightarrow> u8 list \<Rightarrow> int \<Rightarrow> ndisc_options option" where
  \<comment> \<open>\<open>opt\<close> is the memory at the pointer (never NULL in a caller), of which the first
      \<open>opt_len\<close> bytes are the option area\<close>
  "ndisc_parse_options ri opt opt_len =
     (if opt_len < 0 then None else parse_loop ri 0 (take (nat opt_len) opt) ndopts_zero)"

subsection \<open>Writing a link-layer address option\<close>

definition memset :: "u8 list \<Rightarrow> nat \<Rightarrow> u8 \<Rightarrow> nat \<Rightarrow> u8 list" where
  "memset buf off v n = take off buf @ replicate n v @ drop (off + n) buf"

definition memcpy :: "u8 list \<Rightarrow> nat \<Rightarrow> u8 list \<Rightarrow> nat \<Rightarrow> u8 list" where
  "memcpy buf off src n = take off buf @ take n src @ drop (off + n) buf"

definition NDISC_OPT_SPACE :: "nat \<Rightarrow> nat" where
  \<comment> \<open>Modelled from the spec: the macro of \<open>include/net/ndisc.h\<close>, absent from the
      source; the option takes \<open>ceil((2 + len) / 8)\<close> units of 8 bytes\<close>
  "NDISC_OPT_SPACE len = ((len + 2 + 7) div 8) * 8"

definition ndisc_opt_addr_space :: "nat \<Rightarrow> nat \<Rightarrow> nat" where
  \<comment> \<open>Modelled from the spec: \<open>ndisc_opt_addr_space(dev)\<close> of the same header, with the
      link-type-specific pad \<open>ndisc_addr_option_pad(dev->type)\<close> taken as a parameter\<close>
  "ndisc_opt_addr_space pad addr_len = NDISC_OPT_SPACE (addr_len + pad)"

definition ndisc_fill_addr_option ::
  "nat \<Rightarrow> nat \<Rightarrow> u8 list \<Rightarrow> int \<Rightarrow> u8 list \<Rightarrow> u8 list" where
  \<comment> \<open>\<open>room\<close> is the uninitialised tail that \<open>skb_put(skb, space)\<close> hands out; the result
      is what it holds when the function returns\<close>
  "ndisc_fill_addr_option pad addr_len room type data =
     (let data_len = addr_len;
          space = ndisc_opt_addr_space pad addr_len;
          opt = room[0 := word_of_int type, 1 := word_of_nat (space div 8)];
          opt = memset opt 2 0 pad;
          opt = memcpy opt (pad + 2) data data_len;
          left = int space - int pad - int (data_len + 2)
      in if left > 0 then memset opt (pad + data_len + 2) 0 (nat left) else opt)"


subsection \<open>Walking the repeatable options\<close>

text \<open>
  The \<open>do ... while\<close> loop shared by \<open>ndisc_next_option\<close> and \<open>ndisc_next_useropt\<close>:
  advance by the declared length until the end pointer or an option of the wanted kind.
  An option of declared length 0 leaves the pointer where it is; when the exit test
  fails there the C loop never exits, which is the value \<open>None\<close>.
\<close>

function next_scan :: "u8 list \<Rightarrow> (u8 \<Rightarrow> bool) \<Rightarrow> nat \<Rightarrow> nat \<Rightarrow> nat option" where
  "next_scan buf wanted end_p cur =
     (let l = unat (u8_at buf (cur + 1)) * 8; cur' = cur + l in
      if cur' < end_p \<and> \<not> wanted (u8_at buf cur')
      then (if l = 0 then None else next_scan buf wanted end_p cur')
      else Some cur')"
  by pat_completeness auto
termination
  by (relation "measure (\<lambda>(buf, wanted, end_p, cur). end_p - cur)") auto

declare next_scan.simps [simp del]

definition ndisc_next_option :: "u8 list \<Rightarrow> nat option \<Rightarrow> nat option \<Rightarrow> nat option option" where
  \<comment> \<open>outer \<open>None\<close>: the call does not return; inner \<open>None\<close>: it returns NULL\<close>
  "ndisc_next_option buf cur end_p =
     (case cur of None \<Rightarrow> Some None | Some c \<Rightarrow>
      (case end_p of None \<Rightarrow> Some None | Some e \<Rightarrow>
        if c \<ge> e then Some None
        else (let type = u8_at buf c in
          case next_scan buf (\<lambda>t. t = type) e c of
            None \<Rightarrow> None
          | Some c' \<Rightarrow> Some (if c' \<le> e \<and> u8_at buf c' = type then Some c' else None))))"

definition ndisc_next_useropt :: "u8 list \<Rightarrow> nat option \<Rightarrow> nat option \<Rightarrow> nat option option" where
  "ndisc_next_useropt buf cur end_p =
     (case cur of None \<Rightarrow> Some None | Some c \<Rightarrow>
      (case end_p of None \<Rightarrow> Some None | Some e \<Rightarrow>
        if c \<ge> e then Some None
        else (case next_scan buf ndisc_is_useropt e c of
            None \<Rightarrow> None
          | Some c' \<Rightarrow> Some (if c' \<le> e \<and> ndisc_is_useropt (u8_at buf c') then Some c' else None))))"

text \<open>
  \<open>for (p = first; p; p = next(p, end))\<close>: the offsets the loop body is run at, or
  \<open>None\<close> when the loop does not end (\<open>next\<close> does not return, or returns \<open>p\<close> itself).
\<close>

function nd_opt_loop :: "bool \<Rightarrow> u8 list \<Rightarrow> nat option \<Rightarrow> nat \<Rightarrow> nat list option" where
  "nd_opt_loop useropt buf end_p p =
     (case (if useropt then ndisc_next_useropt buf (Some p) end_p
            else ndisc_next_option buf (Some p) end_p) of
        None \<Rightarrow> None
      | Some None \<Rightarrow> Some [p]
      | Some (Some q) \<Rightarrow>
          if q \<le> p then None else map_option ((#) p) (nd_opt_loop useropt buf end_p q))"
  by pat_completeness auto
termination
proof (relation "measure (\<lambda>(useropt, buf, end_p, p). (case end_p of None \<Rightarrow> 0 | Some e \<Rightarrow> e) - p)")
  show "wf (measure (\<lambda>(useropt, buf, end_p, p). (case end_p of None \<Rightarrow> 0 | Some e \<Rightarrow> e) - p))"
    by simp
next
  fix useropt :: bool and buf end_p p x2 q
  assume nx: "(if useropt then ndisc_next_useropt buf (Some p) end_p
               else ndisc_next_option buf (Some p) end_p) = Some x2"
    and q: "x2 = Some q" and lt: "\<not> q \<le> p"
  from nx q have "\<exists>e. end_p = Some e \<and> q \<le> e"
    by (auto simp: ndisc_next_useropt_def ndisc_next_option_def Let_def
             split: option.splits if_splits)
  with lt show "((useropt, buf, end_p, q), (useropt, buf, end_p, p))
        \<in> measure (\<lambda>(useropt, buf, end_p, p). (case end_p of None \<Rightarrow> 0 | Some e \<Rightarrow> e) - p)"
    by auto
qed

declare nd_opt_loop.simps [simp del]

definition for_each_option :: "bool \<Rightarrow> u8 list \<Rightarrow> nat option \<Rightarrow> nat option \<Rightarrow> nat list option" where
  "for_each_option useropt buf first end_p =
     (case first of None \<Rightarrow> Some [] | Some p \<Rightarrow> nd_opt_loop useropt buf end_p p)"


section \<open>Data model\<close>

subsection \<open>Addresses\<close>

text \<open>An IPv6 address is its 16 bytes in network order.\<close>

type_synonym in6_addr = "u8 list"

definition ipv6_addr_any :: "in6_addr \<Rightarrow> bool" where
  "ipv6_addr_any a \<longleftrightarrow> list_all (\<lambda>b. b = 0) a"

definition ipv6_addr_is_multicast :: "in6_addr \<Rightarrow> bool" where
  "ipv6_addr_is_multicast a \<longleftrightarrow> u8_at a 0 = 0xff"

definition ipv6_addr_is_solict_mult :: "in6_addr \<Rightarrow> bool" where
  \<comment> \<open>Modelled from the spec: the helper of \<open>include/net/addrconf.h\<close>, absent from the
      source; the solicited-node multicast addresses are \<open>ff02::1:ffxx:xxxx\<close>\<close>
  "ipv6_addr_is_solict_mult a \<longleftrightarrow>
     take 13 a = [0xff, 0x02, 0, 0, 0, 0, 0, 0, 0, 0, 0, 0x01, 0xff]"

definition addrconf_addr_solict_mult :: "in6_addr \<Rightarrow> in6_addr" where
  \<comment> \<open>Modelled from the spec: \<open>ff02::1:ffxx:xxxx\<close> with the low 24 bits of the target\<close>
  "addrconf_addr_solict_mult a =
     [0xff, 0x02, 0, 0, 0, 0, 0, 0, 0, 0, 0, 0x01, 0xff, u8_at a 13, u8_at a 14, u8_at a 15]"

definition ipv6_addr_linklocal :: "in6_addr \<Rightarrow> bool" where
  \<comment> \<open>Modelled from the spec: \<open>ipv6_addr_type(a) & IPV6_ADDR_LINKLOCAL\<close>, whose code is
      absent from the source; link-local is \<open>fe80::/10\<close>\<close>
  "ipv6_addr_linklocal a \<longleftrightarrow> u8_at a 0 = 0xfe \<and> and (u8_at a 1) 0xc0 = 0x80"

definition in6addr_linklocal_allnodes :: in6_addr where
  "in6addr_linklocal_allnodes = [0xff, 0x02, 0, 0, 0, 0, 0, 0, 0, 0, 0, 0, 0, 0, 0, 0x01]"

subsection \<open>Interfaces and their IPv6 configuration\<close>

record net_device =
  ifindex :: nat
  dev_name :: string
  dev_type :: nat
  addr_len :: nat
  dev_addr :: "u8 list"
  dev_mtu :: nat
  header_ops :: bool

record ipv6_devconf =
  forwarding :: int
  accept_ra :: int
  cnf_hop_limit :: int
  mtu6 :: nat
  accept_ra_defrtr :: int
  accept_ra_pinfo :: int
  accept_ra_rtr_pref :: int
  accept_ra_rt_info_max_plen :: int
  proxy_ndp :: int
  force_tllao :: int
  ndisc_notify :: int
  ra_info_flag :: int

record neigh_parms =
  base_reachable_time :: nat
  retrans_time :: nat
  gc_staletime :: nat
  reachable_time :: nat
  proxy_delay :: nat
  ucast_probes :: "32 word"
  app_probes :: "32 word"

datatype ifa_flag = IFA_F_TENTATIVE | IFA_F_OPTIMISTIC

record inet6_ifaddr =
  ifa_addr :: in6_addr
  ifa_flags :: "ifa_flag set"

datatype if_flag = IF_RS_SENT | IF_RA_RCVD | IF_RA_MANAGED | IF_RA_OTHERCONF

text \<open>
  \<open>struct inet6_dev\<close>. Its \<open>nd_parms\<close> are allocated together with it, so the pointer is
  never NULL and the record holds the parameters themselves.
\<close>

record inet6_dev =
  cnf :: ipv6_devconf
  if_flags :: "if_flag set"
  nd_parms :: neigh_parms
  tstamp :: nat
  addr_list :: "inet6_ifaddr list"

subsection \<open>Neighbour cache, proxy entries and default routers\<close>

datatype nud_state =
  NUD_NONE | NUD_INCOMPLETE | NUD_REACHABLE | NUD_STALE | NUD_DELAY | NUD_PROBE
  | NUD_FAILED | NUD_NOARP | NUD_PERMANENT

definition NUD_VALID :: "nud_state \<Rightarrow> bool" where
  "NUD_VALID s \<longleftrightarrow> s \<in> {NUD_PERMANENT, NUD_NOARP, NUD_REACHABLE, NUD_PROBE, NUD_STALE, NUD_DELAY}"

datatype ntf_flag = NTF_ROUTER | NTF_PROXY

datatype neigh_update_flag =
  NEIGH_UPDATE_F_OVERRIDE | NEIGH_UPDATE_F_WEAK_OVERRIDE
  | NEIGH_UPDATE_F_OVERRIDE_ISROUTER | NEIGH_UPDATE_F_ISROUTER

record neighbour =
  primary_key :: in6_addr
  neigh_dev :: net_device
  nud_state :: nud_state
  neigh_flags :: "ntf_flag set"
  ha :: "u8 list"
  probes :: "32 word"
  parms :: neigh_parms

text \<open>
  A default-router entry of the routing table. The preference is the two-bit field
  that \<open>RTF_PREF(pref)\<close> stores in \<open>rt6i_flags\<close>; the two metrics are the ones the
  Router Advertisement handler sets.
\<close>

record rt6_info =
  rt_pref :: "2 word"
  rt_expires :: "nat option"
  rt_hoplimit :: "nat option"
  rt_mtu :: "nat option"

definition ICMPV6_ROUTER_PREF_LOW :: "2 word" where "ICMPV6_ROUTER_PREF_LOW = 3"
definition ICMPV6_ROUTER_PREF_MEDIUM :: "2 word" where "ICMPV6_ROUTER_PREF_MEDIUM = 0"
definition ICMPV6_ROUTER_PREF_HIGH :: "2 word" where "ICMPV6_ROUTER_PREF_HIGH = 1"
definition ICMPV6_ROUTER_PREF_INVALID :: "2 word" where "ICMPV6_ROUTER_PREF_INVALID = 2"

subsection \<open>Packets\<close>

datatype pkt_type =
  PACKET_HOST | PACKET_BROADCAST | PACKET_MULTICAST | PACKET_OTHERHOST
  | PACKET_OUTGOING | PACKET_LOOPBACK

datatype nodetype =
  NDISC_NODETYPE_UNSPEC | NDISC_NODETYPE_HOST | NDISC_NODETYPE_NODEFAULT
  | NDISC_NODETYPE_DEFAULT

definition NDISC_ROUTER_SOLICITATION :: u8 where "NDISC_ROUTER_SOLICITATION = 133"
definition NDISC_ROUTER_ADVERTISEMENT :: u8 where "NDISC_ROUTER_ADVERTISEMENT = 134"
definition NDISC_NEIGHBOUR_SOLICITATION :: u8 where "NDISC_NEIGHBOUR_SOLICITATION = 135"
definition NDISC_NEIGHBOUR_ADVERTISEMENT :: u8 where "NDISC_NEIGHBOUR_ADVERTISEMENT = 136"
definition NDISC_REDIRECT :: u8 where "NDISC_REDIRECT = 137"
definition IPPROTO_ICMPV6 :: u8 where "IPPROTO_ICMPV6 = 58"

text \<open>
  \<open>struct sk_buff\<close> holding one ICMPv6 message, linear, with \<open>skb->data\<close> at the
  transport header. The fields of the IPv6 header and of the 8-byte \<open>struct icmp6hdr\<close>
  are record fields (the flag fields of the Neighbour Advertisement and the fields of
  the Router Advertisement share the header's last four bytes in C; each handler reads
  its own). \<open>body\<close> is everything after the ICMPv6 header up to \<open>skb->tail\<close>: for a
  Neighbour Solicitation or Advertisement the target and then the options, for a Router
  Advertisement the two timers and then the options.
\<close>

record sk_buff =
  skb_dev :: net_device
  pkt_type :: pkt_type
  ndisc_nodetype :: nodetype
  locally_enqueued :: bool
  has_dst :: bool
  hop_limit :: u8
  payload_len :: nat
  nexthdr :: u8
  saddr :: in6_addr
  daddr :: in6_addr
  icmp6_type :: u8
  icmp6_code :: u8
  icmp6_router :: bool
  icmp6_solicited :: bool
  icmp6_override :: bool
  icmp6_hop_limit :: u8
  icmp6_addrconf_managed :: bool
  icmp6_addrconf_other :: bool
  icmp6_router_pref :: "2 word"
  icmp6_rt_lifetime :: "16 word"
  body :: "u8 list"

definition skb_len :: "sk_buff \<Rightarrow> nat" where
  \<comment> \<open>\<open>skb->len\<close>, which for a linear buffer is \<open>skb->tail - skb->transport_header\<close>\<close>
  "skb_len skb = 8 + length (body skb)"

definition be32 :: "u8 list \<Rightarrow> nat" where
  \<comment> \<open>\<open>ntohl\<close> of the four bytes at the head of the list\<close>
  "be32 bs = ((unat (u8_at bs 0) * 256 + unat (u8_at bs 1)) * 256 + unat (u8_at bs 2)) * 256
             + unat (u8_at bs 3)"

subsection \<open>What the handlers do to their collaborators\<close>

datatype event =
    Dst_output sk_buff
  | Stat_inc string
  | Addrconf_dad_failure in6_addr nat
  | Pneigh_enqueue sk_buff
  | Neigh_update "in6_addr \<times> nat" "u8 list option" nud_state "neigh_update_flag set"
  | Inet6_ifinfo_notify nat
  | Addrconf_prefix_rcv nat "u8 list" bool
  | Rt6_route_rcv nat "u8 list" in6_addr
  | Rt6_mtu_change nat nat
  | Rtnl_notify_useropt nat u8 u8 "u8 list" in6_addr
  | Rtnl_set_sk_err string
  | Icmpv6_notify "u8 list"
  | Neigh_app_ns "in6_addr \<times> nat"

record ipv6_pinfo =
  np_hop_limit :: int
  np_mc_loop :: int

text \<open>
  The state the handlers read and write: the per-interface IPv6 configuration, the
  neighbour cache, the proxy entries and the default-router list (each keyed by address
  and interface index), the control socket of the namespace, the clock, and the calls
  made on collaborators whose state is not kept here, in order.
\<close>

record world =
  idevs :: "nat \<Rightarrow> inet6_dev option"
  devconf_all :: ipv6_devconf
  nd_tbl :: "in6_addr \<times> nat \<Rightarrow> neighbour option"
  pneigh :: "in6_addr \<times> nat \<Rightarrow> ntf_flag set option"
  dflt_routers :: "in6_addr \<times> nat \<Rightarrow> rt6_info option"
  ndisc_sk :: ipv6_pinfo
  jiffies :: nat
  trace :: "event list"

text \<open>
  What the source takes from the build configuration and from functions whose code is
  not in \<open>ndisc.c\<close>: constants, configuration switches, queries, and whether an
  allocation succeeds.
\<close>

record env =
  HZ :: nat
  BITS_PER_LONG :: nat
  CONFIG_IPV6_ROUTER_PREF :: bool
  CONFIG_IPV6_ROUTE_INFO :: bool
  CONFIG_IPV6_NDISC_NODETYPE :: bool
  CONFIG_IPV6_OPTIMISTIC_DAD :: bool
  CONFIG_ARPD :: bool
  MTK_DHCPV6C_WIFI :: bool
  ndisc_addr_option_pad :: "nat \<Rightarrow> nat"
  ipv6_accept_ra :: "inet6_dev \<Rightarrow> bool"
  ipv6_chk_addr :: "in6_addr \<Rightarrow> nat option \<Rightarrow> bool"
  ipv6_chk_acast_addr :: "nat \<Rightarrow> in6_addr \<Rightarrow> bool"
  ipv6_dev_get_saddr :: "nat \<Rightarrow> in6_addr \<Rightarrow> in6_addr option"
  ipv6_get_lladdr :: "nat \<Rightarrow> ifa_flag set \<Rightarrow> in6_addr option"
  neigh_update_entry ::
    "neighbour \<Rightarrow> u8 list option \<Rightarrow> nud_state \<Rightarrow> neigh_update_flag set \<Rightarrow> neighbour"
  neigh_create :: "in6_addr \<times> nat \<Rightarrow> neighbour option"
  neigh_rand_reach_time :: "nat \<Rightarrow> nat"
  rt6_add_dflt_router_ok :: bool
  skb_linearize_ok :: bool
  alloc_skb_ok :: bool
  skb_clone_ok :: bool
  icmp6_dst_alloc_ok :: bool
  nf_hook_err :: "sk_buff \<Rightarrow> int"
  nlmsg_new_ok :: bool
  nlmsg_put_ok :: bool
  heap_byte :: "nat \<Rightarrow> u8"
  redirect_route :: "sk_buff \<Rightarrow> bool option"
  inet_peer_xrlim_allow :: "sk_buff \<Rightarrow> bool"
  inet_ctl_sock_create_err :: int

definition log :: "event \<Rightarrow> world \<Rightarrow> world" where
  "log e w = w\<lparr>trace := trace w @ [e]\<rparr>"

definition dev_key :: "in6_addr \<Rightarrow> net_device \<Rightarrow> in6_addr \<times> nat" where
  "dev_key a dev = (a, ifindex dev)"

definition ipv6_get_ifaddr :: "world \<Rightarrow> in6_addr \<Rightarrow> net_device \<Rightarrow> (inet6_ifaddr \<times> inet6_dev) option" where
  \<comment> \<open>Modelled from the spec: \<open>ipv6_get_ifaddr(net, addr, dev, 1)\<close> of the address
      configuration, absent from the source; the lookup of the address among the local
      addresses of the interface, with the \<open>inet6_dev\<close> that \<open>ifp->idev\<close> points to\<close>
  "ipv6_get_ifaddr w a dev =
     (case idevs w (ifindex dev) of
        None \<Rightarrow> None
      | Some idev \<Rightarrow> map_option (\<lambda>ifp. (ifp, idev)) (find (\<lambda>ifp. ifa_addr ifp = a) (addr_list idev)))"

definition neigh_lookup_creat :: "env \<Rightarrow> in6_addr \<times> nat \<Rightarrow> bool \<Rightarrow> world \<Rightarrow> bool \<times> world" where
  \<comment> \<open>Modelled from the spec: \<open>__neigh_lookup(&nd_tbl, addr, dev, creat)\<close> of the generic
      cache, absent from the source; \<open>lookup\<close> and then \<open>create\<close>. The flag returned says
      whether the pointer is non-NULL\<close>
  "neigh_lookup_creat E k creat w =
     (case nd_tbl w k of
        Some n \<Rightarrow> (True, w)
      | None \<Rightarrow>
          if creat then
            (case neigh_create E k of
               None \<Rightarrow> (False, w)
             | Some n \<Rightarrow> (True, w\<lparr>nd_tbl := (nd_tbl w)(k \<mapsto> n)\<rparr>))
          else (False, w))"

definition neigh_update :: "env \<Rightarrow> in6_addr \<times> nat \<Rightarrow> u8 list option \<Rightarrow> nud_state
    \<Rightarrow> neigh_update_flag set \<Rightarrow> world \<Rightarrow> world" where
  \<comment> \<open>Modelled from the spec: \<open>update(entry, lladdr, new_state, flags)\<close> of the generic
      cache, absent from the source; the call is recorded and the entry becomes what the
      cache makes of it\<close>
  "neigh_update E k lladdr new flags w =
     (case nd_tbl w k of
        None \<Rightarrow> w
      | Some n \<Rightarrow>
          log (Neigh_update k lladdr new flags)
            (w\<lparr>nd_tbl := (nd_tbl w)(k \<mapsto> neigh_update_entry E n lladdr new flags)\<rparr>))"

definition rt6_get_dflt_router :: "world \<Rightarrow> in6_addr \<Rightarrow> net_device \<Rightarrow> rt6_info option" where
  \<comment> \<open>Modelled from the spec: \<open>DefaultRouterGet(src, interface)\<close> of the routing table\<close>
  "rt6_get_dflt_router w a dev = dflt_routers w (dev_key a dev)"

definition ip6_del_rt :: "in6_addr \<times> nat \<Rightarrow> world \<Rightarrow> world" where
  \<comment> \<open>Modelled from the spec: \<open>DefaultRouterDel\<close>\<close>
  "ip6_del_rt k w = w\<lparr>dflt_routers := (dflt_routers w)(k := None)\<rparr>"

definition rt6_add_dflt_router :: "env \<Rightarrow> in6_addr \<Rightarrow> net_device \<Rightarrow> 2 word \<Rightarrow> world \<Rightarrow> world option" where
  \<comment> \<open>Modelled from the spec: \<open>DefaultRouterAdd(src, interface, pref)\<close>; \<open>None\<close> when the
      routing table returns NULL\<close>
  "rt6_add_dflt_router E a dev pref w =
     (if rt6_add_dflt_router_ok E
      then Some (w\<lparr>dflt_routers := (dflt_routers w)(dev_key a dev \<mapsto>
             \<lparr>rt_pref = pref, rt_expires = None, rt_hoplimit = None, rt_mtu = None\<rparr>)\<rparr>)
      else None)"

definition rt_update :: "in6_addr \<times> nat \<Rightarrow> (rt6_info \<Rightarrow> rt6_info) \<Rightarrow> world \<Rightarrow> world" where
  \<comment> \<open>a write through the pointer \<open>rt\<close>\<close>
  "rt_update k f w =
     (case dflt_routers w k of
        None \<Rightarrow> w
      | Some r \<Rightarrow> w\<lparr>dflt_routers := (dflt_routers w)(k \<mapsto> f r)\<rparr>)"

definition idev_update :: "nat \<Rightarrow> (inet6_dev \<Rightarrow> inet6_dev) \<Rightarrow> world \<Rightarrow> world" where
  \<comment> \<open>a write through the pointer \<open>in6_dev\<close>\<close>
  "idev_update i f w =
     (case idevs w i of
        None \<Rightarrow> w
      | Some d \<Rightarrow> w\<lparr>idevs := (idevs w)(i \<mapsto> f d)\<rparr>)"

definition dev_opt_addr_space :: "env \<Rightarrow> net_device \<Rightarrow> nat" where
  "dev_opt_addr_space E dev =
     ndisc_opt_addr_space (ndisc_addr_option_pad E (dev_type dev)) (addr_len dev)"

definition ndisc_opt_addr_data :: "env \<Rightarrow> u8 list \<Rightarrow> nat \<Rightarrow> net_device \<Rightarrow> u8 list option" where
  \<comment> \<open>Modelled from the spec: the helper of \<open>include/net/ndisc.h\<close>, absent from the
      source; a link-layer address option must have the length of an address option of
      the interface, and the address follows the pad\<close>
  "ndisc_opt_addr_data E buf p dev =
     (let prepad = ndisc_addr_option_pad E (dev_type dev);
          lladdrlen = unat (u8_at buf (p + 1)) * 8
      in if lladdrlen \<noteq> NDISC_OPT_SPACE (addr_len dev + prepad) then None
         else Some (take (addr_len dev) (drop (p + 2 + prepad) buf)))"


section \<open>Sending\<close>

definition ndisc_alloc_skb :: "env \<Rightarrow> net_device \<Rightarrow> sk_buff option" where
  \<comment> \<open>a fresh buffer for the interface, its header zeroed, nothing put into it yet\<close>
  "ndisc_alloc_skb E dev =
     (if alloc_skb_ok E then
        Some \<lparr>skb_dev = dev, pkt_type = PACKET_HOST, ndisc_nodetype = NDISC_NODETYPE_UNSPEC,
              locally_enqueued = False, has_dst = False, hop_limit = 0, payload_len = 0,
              nexthdr = 0, saddr = [], daddr = [], icmp6_type = 0, icmp6_code = 0,
              icmp6_router = False, icmp6_solicited = False, icmp6_override = False,
              icmp6_hop_limit = 0, icmp6_addrconf_managed = False,
              icmp6_addrconf_other = False, icmp6_router_pref = 0, icmp6_rt_lifetime = 0,
              body = []\<rparr>
      else None)"

definition ip6_nd_hdr :: "sk_buff \<Rightarrow> in6_addr \<Rightarrow> in6_addr \<Rightarrow> int \<Rightarrow> nat \<Rightarrow> sk_buff" where
  "ip6_nd_hdr skb sa da hl len =
     skb\<lparr>payload_len := len, nexthdr := IPPROTO_ICMPV6, hop_limit := word_of_int hl,
         saddr := sa, daddr := da\<rparr>"

definition ndisc_send_skb :: "env \<Rightarrow> sk_buff \<Rightarrow> in6_addr \<Rightarrow> in6_addr \<Rightarrow> world \<Rightarrow> world" where
  \<comment> \<open>\<open>Dst_output\<close> is the packet given to \<open>NF_HOOK(..., dst_output)\<close>; the checksum is
      not part of the model\<close>
  "ndisc_send_skb E skb da sa w =
     (if \<not> has_dst skb \<and> \<not> icmp6_dst_alloc_ok E then w
      else
        let skb = skb\<lparr>has_dst := True\<rparr>;
            skb = ip6_nd_hdr skb sa da (np_hop_limit (ndisc_sk w)) (skb_len skb);
            w = log (Stat_inc ''IPSTATS_MIB_OUT'') w;
            w = log (Dst_output skb) w
        in if nf_hook_err E skb = 0
           then log (Stat_inc ''ICMP6_MIB_OUTMSGS'') (log (Stat_inc ''ICMP6MSGOUT'') w)
           else w)"

definition skb_put_room :: "env \<Rightarrow> nat \<Rightarrow> u8 list" where
  \<comment> \<open>the \<open>n\<close> uninitialised bytes that \<open>skb_put\<close> hands out\<close>
  "skb_put_room E n = map (heap_byte E) [0..<n]"

definition skb_fill_addr_option :: "env \<Rightarrow> sk_buff \<Rightarrow> u8 \<Rightarrow> u8 list \<Rightarrow> sk_buff" where
  \<comment> \<open>\<open>ndisc_fill_addr_option(skb, type, data)\<close> on the buffer: the option goes to its tail\<close>
  "skb_fill_addr_option E skb type data =
     (let dev = skb_dev skb; pad = ndisc_addr_option_pad E (dev_type dev)
      in skb\<lparr>body := body skb @
               ndisc_fill_addr_option pad (addr_len dev)
                 (skb_put_room E (ndisc_opt_addr_space pad (addr_len dev))) (uint type) data\<rparr>)"

definition ndisc_send_na :: "env \<Rightarrow> net_device \<Rightarrow> in6_addr \<Rightarrow> in6_addr \<Rightarrow> bool \<Rightarrow> bool \<Rightarrow> bool
    \<Rightarrow> bool \<Rightarrow> world \<Rightarrow> world" where
  "ndisc_send_na E dev da solicited_addr router solicited override inc_opt w =
     (case (case ipv6_get_ifaddr w solicited_addr dev of
              Some (ifp, idev) \<Rightarrow>
                Some (solicited_addr,
                      (if IFA_F_OPTIMISTIC \<in> ifa_flags ifp then False else override),
                      (inc_opt \<or> force_tllao (cnf idev) \<noteq> 0))
            | None \<Rightarrow>
                (case ipv6_dev_get_saddr E (ifindex dev) da of
                   None \<Rightarrow> None
                 | Some tmpaddr \<Rightarrow> Some (tmpaddr, override, inc_opt))) of
        None \<Rightarrow> w
      | Some (src_addr, override, inc_opt) \<Rightarrow>
          (let inc_opt = (if addr_len dev = 0 then False else inc_opt) in
           case ndisc_alloc_skb E dev of
             None \<Rightarrow> w
           | Some skb \<Rightarrow>
               (let skb = skb\<lparr>icmp6_type := NDISC_NEIGHBOUR_ADVERTISEMENT,
                              icmp6_router := router, icmp6_solicited := solicited,
                              icmp6_override := override, body := solicited_addr\<rparr>;
                    skb = (if inc_opt
                           then skb_fill_addr_option E skb ND_OPT_TARGET_LL_ADDR (dev_addr dev)
                           else skb)
                in ndisc_send_skb E skb da src_addr w)))"

definition ndisc_send_ns :: "env \<Rightarrow> net_device \<Rightarrow> in6_addr \<Rightarrow> in6_addr \<Rightarrow> in6_addr option
    \<Rightarrow> world \<Rightarrow> world" where
  "ndisc_send_ns E dev solicit da sa w =
     (case (case sa of
              None \<Rightarrow> ipv6_get_lladdr E (ifindex dev) {IFA_F_TENTATIVE, IFA_F_OPTIMISTIC}
            | Some a \<Rightarrow> Some a) of
        None \<Rightarrow> w
      | Some sa \<Rightarrow>
          (let inc_opt = (addr_len dev \<noteq> 0 \<and> \<not> ipv6_addr_any sa) in
           case ndisc_alloc_skb E dev of
             None \<Rightarrow> w
           | Some skb \<Rightarrow>
               (let skb = skb\<lparr>icmp6_type := NDISC_NEIGHBOUR_SOLICITATION, body := solicit\<rparr>;
                    skb = (if inc_opt
                           then skb_fill_addr_option E skb ND_OPT_SOURCE_LL_ADDR (dev_addr dev)
                           else skb)
                in ndisc_send_skb E skb da sa w)))"

definition ndisc_send_rs :: "env \<Rightarrow> net_device \<Rightarrow> in6_addr \<Rightarrow> in6_addr \<Rightarrow> world \<Rightarrow> world" where
  "ndisc_send_rs E dev sa da w =
     (let send_sllao = (addr_len dev \<noteq> 0);
          send_sllao =
            (if CONFIG_IPV6_OPTIMISTIC_DAD E \<and> send_sllao then
               (case ipv6_get_ifaddr w sa dev of
                  Some (ifp, idev) \<Rightarrow> IFA_F_OPTIMISTIC \<notin> ifa_flags ifp
                | None \<Rightarrow> False)
             else send_sllao)
      in case ndisc_alloc_skb E dev of
           None \<Rightarrow> w
         | Some skb \<Rightarrow>
             (let skb = skb\<lparr>icmp6_type := NDISC_ROUTER_SOLICITATION\<rparr>;
                  skb = (if send_sllao
                         then skb_fill_addr_option E skb ND_OPT_SOURCE_LL_ADDR (dev_addr dev)
                         else skb)
              in ndisc_send_skb E skb da sa w))"

definition ndisc_solicit :: "env \<Rightarrow> neighbour \<Rightarrow> sk_buff option \<Rightarrow> world \<Rightarrow> world" where
  \<comment> \<open>\<open>probes\<close>, \<open>ucast_probes\<close> and \<open>app_probes\<close> are 32-bit \<open>int\<close>s; the two
      subtractions \<open>probes -= ...\<close> wrap around, and the tests \<open>< 0\<close> read the result as a
      signed number\<close>
  "ndisc_solicit E neigh skb w =
     (let dev = neigh_dev neigh;
          target = primary_key neigh;
          n = probes neigh;
          sa = (case skb of
                  None \<Rightarrow> None
                | Some skb \<Rightarrow>
                    if ipv6_chk_addr E (saddr skb) (Some (ifindex dev)) then Some (saddr skb)
                    else None);
          n = n - ucast_probes (parms neigh)
      in if sint n < 0 then ndisc_send_ns E dev target target sa w
         else
           (let n = n - app_probes (parms neigh)
            in if sint n < 0
               then (if CONFIG_ARPD E then log (Neigh_app_ns (dev_key target dev)) w else w)
               else ndisc_send_ns E dev target (addrconf_addr_solict_mult target) sa w))"

definition ndisc_fill_redirect_hdr_option :: "sk_buff \<Rightarrow> u8 list \<Rightarrow> nat \<Rightarrow> sk_buff" where
  \<comment> \<open>the eight zeroed bytes with type and length written over them, then \<open>rd_len - 8\<close>
      bytes of the original packet from its IPv6 header\<close>
  "ndisc_fill_redirect_hdr_option skb orig rd_len =
     skb\<lparr>body := body skb @
           [ND_OPT_REDIRECT_HDR, word_of_nat (rd_len div 8), 0, 0, 0, 0, 0, 0]
           @ take (rd_len - 8) orig\<rparr>"

definition redirect_target_lladdr :: "env \<Rightarrow> net_device \<Rightarrow> in6_addr \<Rightarrow> world
    \<Rightarrow> (world \<times> u8 list option \<times> nat) option" where
  \<comment> \<open>the block \<open>if (dev->addr_len) { ... }\<close> of \<open>ndisc_send_redirect\<close>: \<open>None\<close> for
      \<open>goto release\<close>, otherwise the state, \<open>ha\<close> and \<open>optlen\<close> after it\<close>
  "redirect_target_lladdr E dev target w =
     (if addr_len dev \<noteq> 0 then
        (case neigh_lookup_creat E (dev_key target dev) True w of
           (False, w) \<Rightarrow> None
         | (True, w) \<Rightarrow>
             (case nd_tbl w (dev_key target dev) of
                None \<Rightarrow> None
              | Some neigh \<Rightarrow>
                  if NUD_VALID (nud_state neigh)
                  then Some (w, Some (take (addr_len dev) (ha neigh)), dev_opt_addr_space E dev)
                  else Some (w, None, 0)))
      else Some (w, None, 0))"

definition redirect_rd_len :: "nat \<Rightarrow> nat \<Rightarrow> nat" where
  \<comment> \<open>\<open>min_t(unsigned int, IPV6_MIN_MTU - sizeof(struct ipv6hdr) - sizeof(*msg) - optlen,
      skb->len + 8) & ~0x7\<close>, the message header being 40 bytes\<close>
  "redirect_rd_len optlen len =
     (let rd_len = min ((1280 - 40 - 40 - int optlen) mod 2 ^ 32) ((int len + 8) mod 2 ^ 32)
      in nat ((rd_len div 8) * 8))"

definition ndisc_send_redirect :: "env \<Rightarrow> sk_buff \<Rightarrow> u8 list \<Rightarrow> in6_addr \<Rightarrow> world \<Rightarrow> world" where
  \<comment> \<open>\<open>skb\<close> is the packet being forwarded, \<open>orig\<close> its \<open>skb->len\<close> bytes from the IPv6
      header on\<close>
  "ndisc_send_redirect E skb orig target w =
     (let dev = skb_dev skb in
      case ipv6_get_lladdr E (ifindex dev) {IFA_F_TENTATIVE} of
        None \<Rightarrow> w
      | Some saddr_buf \<Rightarrow>
          if daddr skb \<noteq> target \<and> \<not> ipv6_addr_linklocal target then w
          else
            (case redirect_route E skb of
               None \<Rightarrow> w
             | Some gateway \<Rightarrow>
                 if gateway then w
                 else if \<not> inet_peer_xrlim_allow E skb then w
                 else
                   (case redirect_target_lladdr E dev target w of
                      None \<Rightarrow> w
                    | Some (w, ha_buf, optlen) \<Rightarrow>
                        (let rd_len = redirect_rd_len optlen (length orig)
                         in case ndisc_alloc_skb E dev of
                              None \<Rightarrow> w
                            | Some buff \<Rightarrow>
                                (let buff = buff\<lparr>icmp6_type := NDISC_REDIRECT,
                                                 body := target @ daddr skb\<rparr>;
                                     buff = (case ha_buf of
                                               None \<Rightarrow> buff
                                             | Some h \<Rightarrow>
                                                 skb_fill_addr_option E buff
                                                   ND_OPT_TARGET_LL_ADDR h);
                                     buff = (if rd_len \<noteq> 0
                                             then ndisc_fill_redirect_hdr_option buff orig rd_len
                                             else buff);
                                     buff = buff\<lparr>has_dst := True\<rparr>
                                 in ndisc_send_skb E buff (saddr skb) saddr_buf w)))))"

definition ndisc_net_init :: "env \<Rightarrow> world \<Rightarrow> int \<times> world" where
  "ndisc_net_init E w =
     (let err = inet_ctl_sock_create_err E in
      if err < 0 then (err, w)
      else (0, w\<lparr>ndisc_sk := \<lparr>np_hop_limit = 255, np_mc_loop = 0\<rparr>\<rparr>))"


section \<open>Receiving\<close>

text \<open>
  Packet lengths are far below \<open>2^31\<close>. The length of an option area is computed by
  integer subtraction; where the C code subtracts in \<open>u32\<close> and passes the result for an
  \<open>int\<close>, a packet shorter than the message header gives the same negative number.
\<close>

definition pndisc_is_router :: "world \<Rightarrow> in6_addr \<Rightarrow> net_device \<Rightarrow> int" where
  "pndisc_is_router w pkey dev =
     (case pneigh w (dev_key pkey dev) of
        None \<Rightarrow> - 1
      | Some fl \<Rightarrow> if NTF_ROUTER \<in> fl then 1 else 0)"

subsection \<open>Neighbour Solicitation\<close>

definition ndisc_recv_ns_reply :: "env \<Rightarrow> sk_buff \<Rightarrow> in6_addr \<Rightarrow> u8 list option \<Rightarrow> bool \<Rightarrow> int
    \<Rightarrow> inet6_dev \<Rightarrow> world \<Rightarrow> world" where
  \<comment> \<open>\<open>ndisc_recv_ns\<close> from \<open>if (is_router < 0)\<close> to the label \<open>out\<close>; \<open>have_ifp\<close> is
      \<open>ifp != NULL\<close>\<close>
  "ndisc_recv_ns_reply E skb target lladdr have_ifp is_router idev w =
     (let dev = skb_dev skb;
          dad = ipv6_addr_any (saddr skb);
          inc = ipv6_addr_is_multicast (daddr skb);
          is_router = (if is_router < 0 then forwarding (cnf idev) else is_router)
      in if dad then
           ndisc_send_na E dev in6addr_linklocal_allnodes target (is_router \<noteq> 0) False
             have_ifp True w
         else
           (let w = log (Stat_inc (if inc then ''rcv_probes_mcast'' else ''rcv_probes_ucast'')) w;
                k = dev_key (saddr skb) dev
            in case neigh_lookup_creat E k (\<not> inc \<or> lladdr \<noteq> None \<or> addr_len dev = 0) w of
                 (neigh, w) \<Rightarrow>
                   (let w = (if neigh
                             then neigh_update E k lladdr NUD_STALE
                                    {NEIGH_UPDATE_F_WEAK_OVERRIDE, NEIGH_UPDATE_F_OVERRIDE} w
                             else w)
                    in if neigh \<or> \<not> header_ops dev
                       then ndisc_send_na E dev (saddr skb) target (is_router \<noteq> 0) True
                              (have_ifp \<and> inc) inc w
                       else w)))"

definition ndisc_recv_ns_target :: "env \<Rightarrow> sk_buff \<Rightarrow> in6_addr \<Rightarrow> u8 list option \<Rightarrow> world \<Rightarrow> world" where
  \<comment> \<open>\<open>ndisc_recv_ns\<close> from \<open>inc = ipv6_addr_is_multicast(daddr)\<close> on: whose address the
      target is\<close>
  "ndisc_recv_ns_target E skb target lladdr w =
     (let dev = skb_dev skb;
          dad = ipv6_addr_any (saddr skb);
          inc = ipv6_addr_is_multicast (daddr skb)
      in case ipv6_get_ifaddr w target dev of
           Some (ifp, idev) \<Rightarrow>
             if ifa_flags ifp \<inter> {IFA_F_TENTATIVE, IFA_F_OPTIMISTIC} \<noteq> {} \<and> dad
               then log (Addrconf_dad_failure (ifa_addr ifp) (ifindex dev)) w
             else if ifa_flags ifp \<inter> {IFA_F_TENTATIVE, IFA_F_OPTIMISTIC} \<noteq> {}
                     \<and> IFA_F_OPTIMISTIC \<notin> ifa_flags ifp
               then w
             else ndisc_recv_ns_reply E skb target lladdr True (- 1) idev w
         | None \<Rightarrow>
             (case idevs w (ifindex dev) of
                None \<Rightarrow> w
              | Some idev \<Rightarrow>
                  (let acast = ipv6_chk_acast_addr E (ifindex dev) target;
                       proxy = (forwarding (cnf idev) \<noteq> 0
                                \<and> (proxy_ndp (devconf_all w) \<noteq> 0 \<or> proxy_ndp (cnf idev) \<noteq> 0));
                       is_router = (if \<not> acast \<and> proxy then pndisc_is_router w target dev
                                    else - 1)
                   in if acast \<or> (proxy \<and> is_router \<ge> 0) then
                        (if \<not> locally_enqueued skb \<and> pkt_type skb \<noteq> PACKET_HOST \<and> inc
                            \<and> proxy_delay (nd_parms idev) \<noteq> 0
                         then (if skb_clone_ok E then log (Pneigh_enqueue skb) w else w)
                         else ndisc_recv_ns_reply E skb target lladdr False is_router idev w)
                      else w)))"

definition ndisc_recv_ns :: "env \<Rightarrow> sk_buff \<Rightarrow> world \<Rightarrow> world" where
  "ndisc_recv_ns E skb w =
     (let dev = skb_dev skb;
          target = take 16 (body skb);
          opt = drop 16 (body skb);
          ndoptlen = int (skb_len skb) - 24;
          dad = ipv6_addr_any (saddr skb)
      in if skb_len skb < 24 then w
         else if ipv6_addr_is_multicast target then w
         else if dad \<and> \<not> ipv6_addr_is_solict_mult (daddr skb) then w
         else
           (case ndisc_parse_options (CONFIG_IPV6_ROUTE_INFO E) opt ndoptlen of
              None \<Rightarrow> w
            | Some ndopts \<Rightarrow>
                (case nd_opts_src_lladdr ndopts of
                   None \<Rightarrow> ndisc_recv_ns_target E skb target None w
                 | Some p \<Rightarrow>
                     (case ndisc_opt_addr_data E opt p dev of
                        None \<Rightarrow> w
                      | Some lladdr \<Rightarrow>
                          if dad then w
                          else ndisc_recv_ns_target E skb target (Some lladdr) w))))"

definition pndisc_redo :: "env \<Rightarrow> sk_buff \<Rightarrow> world \<Rightarrow> world" where
  "pndisc_redo E skb w = ndisc_recv_ns E skb w"

subsection \<open>Neighbour Advertisement\<close>

definition na_update_flags :: "sk_buff \<Rightarrow> neigh_update_flag set" where
  \<comment> \<open>the flags \<open>ndisc_recv_na\<close> gives to \<open>neigh_update\<close>\<close>
  "na_update_flags skb =
     {NEIGH_UPDATE_F_WEAK_OVERRIDE}
     \<union> (if icmp6_override skb then {NEIGH_UPDATE_F_OVERRIDE} else {})
     \<union> {NEIGH_UPDATE_F_OVERRIDE_ISROUTER}
     \<union> (if icmp6_router skb then {NEIGH_UPDATE_F_ISROUTER} else {})"

definition ndisc_recv_na_update :: "env \<Rightarrow> sk_buff \<Rightarrow> in6_addr \<Rightarrow> u8 list option \<Rightarrow> world \<Rightarrow> world" where
  \<comment> \<open>\<open>ndisc_recv_na\<close> from \<open>neigh = neigh_lookup(&nd_tbl, &msg->target, dev)\<close> on\<close>
  "ndisc_recv_na_update E skb target lladdr w =
     (let dev = skb_dev skb; k = dev_key target dev in
      case nd_tbl w k of
        None \<Rightarrow> w
      | Some neigh \<Rightarrow>
          (let old_flags = neigh_flags neigh in
           if nud_state neigh = NUD_FAILED then w
           else if (case lladdr of
                      None \<Rightarrow> False
                    | Some a \<Rightarrow> take (addr_len dev) a = take (addr_len dev) (dev_addr dev))
                   \<and> forwarding (devconf_all w) \<noteq> 0 \<and> proxy_ndp (devconf_all w) \<noteq> 0
                   \<and> pneigh w k \<noteq> None
             then w
           else
             (let w = neigh_update E k lladdr
                        (if icmp6_solicited skb then NUD_REACHABLE else NUD_STALE)
                        (na_update_flags skb) w;
                  new_flags = (case nd_tbl w k of None \<Rightarrow> {} | Some n \<Rightarrow> neigh_flags n)
              in if NTF_ROUTER \<in> old_flags - new_flags then
                   (case rt6_get_dflt_router w (saddr skb) dev of
                      None \<Rightarrow> w
                    | Some rt \<Rightarrow> ip6_del_rt (dev_key (saddr skb) dev) w)
                 else w)))"

definition ndisc_recv_na :: "env \<Rightarrow> sk_buff \<Rightarrow> world \<Rightarrow> world" where
  "ndisc_recv_na E skb w =
     (let dev = skb_dev skb;
          target = take 16 (body skb);
          opt = drop 16 (body skb);
          ndoptlen = int (skb_len skb) - 24
      in if skb_len skb < 24 then w
         else if ipv6_addr_is_multicast target then w
         else if ipv6_addr_is_multicast (daddr skb) \<and> icmp6_solicited skb then w
         else
           (case ndisc_parse_options (CONFIG_IPV6_ROUTE_INFO E) opt ndoptlen of
              None \<Rightarrow> w
            | Some ndopts \<Rightarrow>
                (case (case nd_opts_tgt_lladdr ndopts of
                         None \<Rightarrow> Some None
                       | Some p \<Rightarrow> map_option Some (ndisc_opt_addr_data E opt p dev)) of
                   None \<Rightarrow> w
                 | Some lladdr \<Rightarrow>
                     (case ipv6_get_ifaddr w target dev of
                        Some (ifp, idev) \<Rightarrow>
                          if pkt_type skb \<noteq> PACKET_LOOPBACK \<and> IFA_F_TENTATIVE \<in> ifa_flags ifp
                          then log (Addrconf_dad_failure (ifa_addr ifp) (ifindex dev)) w
                          else w
                      | None \<Rightarrow> ndisc_recv_na_update E skb target lladdr w))))"

subsection \<open>Router Solicitation\<close>

definition ndisc_recv_rs :: "env \<Rightarrow> sk_buff \<Rightarrow> world \<Rightarrow> world" where
  "ndisc_recv_rs E skb w =
     (let dev = skb_dev skb;
          opt = body skb;
          ndoptlen = int (skb_len skb) - 8
      in if skb_len skb < 8 then w
         else
           (case idevs w (ifindex dev) of
              None \<Rightarrow> w
            | Some idev \<Rightarrow>
                if forwarding (cnf idev) = 0 then w
                else if ipv6_addr_any (saddr skb) then w
                else
                  (case ndisc_parse_options (CONFIG_IPV6_ROUTE_INFO E) opt ndoptlen of
                     None \<Rightarrow> w
                   | Some ndopts \<Rightarrow>
                       (case (case nd_opts_src_lladdr ndopts of
                                None \<Rightarrow> Some None
                              | Some p \<Rightarrow> map_option Some (ndisc_opt_addr_data E opt p dev)) of
                          None \<Rightarrow> w
                        | Some lladdr \<Rightarrow>
                            (let k = dev_key (saddr skb) dev in
                             case neigh_lookup_creat E k True w of
                               (neigh, w) \<Rightarrow>
                                 if neigh
                                 then neigh_update E k lladdr NUD_STALE
                                        {NEIGH_UPDATE_F_WEAK_OVERRIDE, NEIGH_UPDATE_F_OVERRIDE,
                                         NEIGH_UPDATE_F_OVERRIDE_ISROUTER} w
                                 else w)))))"

subsection \<open>Redirect\<close>

definition ndisc_redirect_rcv :: "env \<Rightarrow> sk_buff \<Rightarrow> world \<Rightarrow> world" where
  "ndisc_redirect_rcv E skb w =
     (let opt = drop 32 (body skb);
          ndoptlen = int (skb_len skb) - 40
      in if CONFIG_IPV6_NDISC_NODETYPE E
            \<and> ndisc_nodetype skb \<in> {NDISC_NODETYPE_HOST, NDISC_NODETYPE_NODEFAULT} then w
         else if \<not> ipv6_addr_linklocal (saddr skb) then w
         else
           (case ndisc_parse_options (CONFIG_IPV6_ROUTE_INFO E) opt ndoptlen of
              None \<Rightarrow> w
            | Some ndopts \<Rightarrow>
                (case nd_opts_rh ndopts of
                   None \<Rightarrow> w
                 | Some p \<Rightarrow>
                     if skb_len skb < 40 + p + 8 then w
                     else log (Icmpv6_notify (drop (p + 8) opt)) w)))"


subsection \<open>Router Advertisement\<close>

definition ndisc_ra_useropt :: "env \<Rightarrow> sk_buff \<Rightarrow> u8 list \<Rightarrow> nat \<Rightarrow> world \<Rightarrow> world" where
  "ndisc_ra_useropt E ra opt p w =
     (if \<not> nlmsg_new_ok E then log (Rtnl_set_sk_err ''ENOBUFS'') w
      else if \<not> nlmsg_put_ok E then log (Rtnl_set_sk_err ''EMSGSIZE'') w
      else log (Rtnl_notify_useropt (ifindex (skb_dev ra)) (icmp6_type ra) (icmp6_code ra)
                  (take (unat (u8_at opt (p + 1)) * 8) (drop p opt)) (saddr ra)) w)"

definition ra_pref :: "env \<Rightarrow> sk_buff \<Rightarrow> inet6_dev \<Rightarrow> 2 word" where
  \<comment> \<open>\<open>pref\<close> as the handler computes it: 0 without \<open>CONFIG_IPV6_ROUTER_PREF\<close>\<close>
  "ra_pref E skb in6_dev =
     (if CONFIG_IPV6_ROUTER_PREF E then
        (let pref = icmp6_router_pref skb in
         if pref = ICMPV6_ROUTER_PREF_INVALID \<or> accept_ra_rtr_pref (cnf in6_dev) = 0
         then ICMPV6_ROUTER_PREF_MEDIUM else pref)
      else 0)"

definition neigh_set_router :: "in6_addr \<times> nat \<Rightarrow> world \<Rightarrow> world" where
  \<comment> \<open>\<open>neigh->flags |= NTF_ROUTER\<close>\<close>
  "neigh_set_router k w =
     (case nd_tbl w k of
        None \<Rightarrow> w
      | Some n \<Rightarrow> w\<lparr>nd_tbl := (nd_tbl w)(k \<mapsto> n\<lparr>neigh_flags := insert NTF_ROUTER (neigh_flags n)\<rparr>)\<rparr>)"

text \<open>
  The handler in four parts, cut at its labels. A part that ends in \<open>return\<close> gives
  \<open>Inl\<close> of the state; one that goes on gives \<open>Inr\<close> with whether the pointers \<open>rt\<close> and
  \<open>neigh\<close> are set. Both pointers, when set, are the entries keyed by the source address
  and the receiving interface.
\<close>

definition ra_defrtr :: "env \<Rightarrow> sk_buff \<Rightarrow> inet6_dev \<Rightarrow> world \<Rightarrow> world + bool \<times> bool \<times> world" where
  \<comment> \<open>from \<open>if (!in6_dev->cnf.accept_ra_defrtr)\<close> to the label \<open>skip_defrtr\<close>; the expiry
      \<open>jiffies + (HZ * lifetime)\<close> is computed in \<open>unsigned long\<close>, the product in \<open>int\<close>
      being far below \<open>2^31\<close>\<close>
  "ra_defrtr E skb in6_dev w =
     (let dev = skb_dev skb; i = ifindex dev; k = dev_key (saddr skb) dev in
      if accept_ra_defrtr (cnf in6_dev) = 0 then Inr (False, False, w)
      else if ipv6_chk_addr E (saddr skb) None then Inr (False, False, w)
      else
        (let lifetime = uint (icmp6_rt_lifetime skb);
             pref = ra_pref E skb in6_dev;
             rt = (rt6_get_dflt_router w (saddr skb) dev \<noteq> None)
         in case (if rt then neigh_lookup_creat E k True w else (False, w)) of
              (neigh, w) \<Rightarrow>
                if rt \<and> \<not> neigh then Inl w
                else
                  (case (if rt \<and> lifetime = 0 then (False, ip6_del_rt k w) else (rt, w)) of
                     (rt, w) \<Rightarrow>
                       (case (if \<not> rt \<and> lifetime \<noteq> 0 then
                                (case rt6_add_dflt_router E (saddr skb) dev pref w of
                                   None \<Rightarrow> Inl w
                                 | Some w \<Rightarrow>
                                     (case neigh_lookup_creat E k True w of
                                        (False, w) \<Rightarrow> Inl w
                                      | (True, w) \<Rightarrow> Inr (True, True, neigh_set_router k w)))
                              else if rt then Inr (rt, neigh, rt_update k (\<lambda>r. r\<lparr>rt_pref := pref\<rparr>) w)
                              else Inr (rt, neigh, w)) of
                          Inl w \<Rightarrow> Inl w
                        | Inr (rt, neigh, w) \<Rightarrow>
                            (let w = (if rt
                                      then rt_update k
                                             (\<lambda>r. r\<lparr>rt_expires := Some ((jiffies w + HZ E * nat lifetime)
                                                        mod 2 ^ BITS_PER_LONG E)\<rparr>) w
                                      else w);
                                 w = (if icmp6_hop_limit skb \<noteq> 0 then
                                        (let w = idev_update i
                                                   (\<lambda>d. d\<lparr>cnf := (cnf d)\<lparr>cnf_hop_limit := uint (icmp6_hop_limit skb)\<rparr>\<rparr>) w
                                         in if rt
                                            then rt_update k
                                                   (\<lambda>r. r\<lparr>rt_hoplimit := Some (unat (icmp6_hop_limit skb))\<rparr>) w
                                            else w)
                                      else w)
                             in Inr (rt, neigh, w))))))"

definition ra_timer :: "env \<Rightarrow> nat \<Rightarrow> nat" where
  \<comment> \<open>\<open>rtime = (rtime*HZ)/1000; if (rtime < HZ/10) rtime = HZ/10;\<close> in \<open>unsigned long\<close>\<close>
  "ra_timer E rtime =
     (let rtime = ((rtime * HZ E) mod 2 ^ BITS_PER_LONG E) div 1000
      in if rtime < HZ E div 10 then HZ E div 10 else rtime)"

definition MAX_SCHEDULE_TIMEOUT :: "env \<Rightarrow> nat" where
  "MAX_SCHEDULE_TIMEOUT E = 2 ^ (BITS_PER_LONG E - 1) - 1"

definition ra_linkparms :: "env \<Rightarrow> sk_buff \<Rightarrow> world \<Rightarrow> world" where
  \<comment> \<open>from the label \<open>skip_defrtr\<close> to the label \<open>skip_linkparms\<close>; the two timers are the
      first eight bytes after the ICMPv6 header\<close>
  "ra_linkparms E skb w =
     (let i = ifindex (skb_dev skb);
          rtime = be32 (drop 4 (body skb));
          w = (if rtime \<noteq> 0 \<and> rtime div 1000 < MAX_SCHEDULE_TIMEOUT E div HZ E then
                 log (Inet6_ifinfo_notify i)
                   (idev_update i
                      (\<lambda>d. d\<lparr>nd_parms := (nd_parms d)\<lparr>retrans_time := ra_timer E rtime\<rparr>,
                              tstamp := jiffies w\<rparr>) w)
               else w);
          rtime = be32 (body skb)
      in if rtime \<noteq> 0 \<and> rtime div 1000 < MAX_SCHEDULE_TIMEOUT E div (3 * HZ E) then
           (let rtime = ra_timer E rtime in
            case idevs w i of
              None \<Rightarrow> w
            | Some d \<Rightarrow>
                if rtime \<noteq> base_reachable_time (nd_parms d) then
                  log (Inet6_ifinfo_notify i)
                    (idev_update i
                       (\<lambda>d. d\<lparr>nd_parms := (nd_parms d)\<lparr>base_reachable_time := rtime,
                                  gc_staletime := 3 * rtime,
                                  reachable_time := neigh_rand_reach_time E rtime\<rparr>,
                               tstamp := jiffies w\<rparr>) w)
                else w)
         else w)"

definition ra_neigh :: "env \<Rightarrow> sk_buff \<Rightarrow> u8 list \<Rightarrow> ndisc_options \<Rightarrow> bool \<Rightarrow> world \<Rightarrow> bool \<times> world" where
  \<comment> \<open>from the label \<open>skip_linkparms\<close> to the second \<open>ipv6_accept_ra\<close> test; the flag
      returned is false for \<open>goto out\<close>\<close>
  "ra_neigh E skb opt ndopts neigh w =
     (let dev = skb_dev skb; k = dev_key (saddr skb) dev in
      case (if \<not> neigh then neigh_lookup_creat E k True w else (True, w)) of
        (neigh, w) \<Rightarrow>
          if neigh then
            (case nd_opts_src_lladdr ndopts of
               None \<Rightarrow>
                 (True, neigh_update E k None NUD_STALE
                          {NEIGH_UPDATE_F_WEAK_OVERRIDE, NEIGH_UPDATE_F_OVERRIDE,
                           NEIGH_UPDATE_F_OVERRIDE_ISROUTER, NEIGH_UPDATE_F_ISROUTER} w)
             | Some p \<Rightarrow>
                 (case ndisc_opt_addr_data E opt p dev of
                    None \<Rightarrow> (False, w)
                  | Some lladdr \<Rightarrow>
                      (True, neigh_update E k (Some lladdr) NUD_STALE
                               {NEIGH_UPDATE_F_WEAK_OVERRIDE, NEIGH_UPDATE_F_OVERRIDE,
                                NEIGH_UPDATE_F_OVERRIDE_ISROUTER, NEIGH_UPDATE_F_ISROUTER} w)))
          else (True, w))"

definition opt_bytes :: "u8 list \<Rightarrow> nat \<Rightarrow> u8 list" where
  \<comment> \<open>the option at \<open>p\<close>: \<open>(u8 *)p\<close> with length \<open>p->nd_opt_len << 3\<close>\<close>
  "opt_bytes opt p = take (unat (u8_at opt (p + 1)) * 8) (drop p opt)"

definition ra_route_info :: "env \<Rightarrow> sk_buff \<Rightarrow> u8 list \<Rightarrow> inet6_dev \<Rightarrow> nat \<Rightarrow> world \<Rightarrow> world" where
  \<comment> \<open>the body of the loop over the Route Information options\<close>
  "ra_route_info E skb opt in6_dev p w =
     (let prefix_len = u8_at opt (p + 2) in
      if CONFIG_IPV6_NDISC_NODETYPE E \<and> ndisc_nodetype skb = NDISC_NODETYPE_NODEFAULT
         \<and> prefix_len = 0 then w
      else if uint prefix_len > accept_ra_rt_info_max_plen (cnf in6_dev) then w
      else log (Rt6_route_rcv (ifindex (skb_dev skb)) (opt_bytes opt p) (saddr skb)) w)"

definition ra_mtu :: "sk_buff \<Rightarrow> u8 list \<Rightarrow> nat \<Rightarrow> bool \<Rightarrow> world \<Rightarrow> world" where
  \<comment> \<open>the MTU option at \<open>p\<close>\<close>
  "ra_mtu skb opt p rt w =
     (let dev = skb_dev skb; i = ifindex dev; mtu = be32 (drop (p + 4) opt) in
      case idevs w i of
        None \<Rightarrow> w
      | Some in6_dev \<Rightarrow>
          if mtu < 1280 \<or> mtu > dev_mtu dev then w
          else if mtu6 (cnf in6_dev) \<noteq> mtu then
            (let w = idev_update i (\<lambda>d. d\<lparr>cnf := (cnf d)\<lparr>mtu6 := mtu\<rparr>\<rparr>) w;
                 w = (if rt then rt_update (dev_key (saddr skb) dev) (\<lambda>r. r\<lparr>rt_mtu := Some mtu\<rparr>) w
                      else w)
             in log (Rt6_mtu_change i mtu) w)
          else w)"

definition ra_info_flags :: "nat \<Rightarrow> world \<Rightarrow> world" where
  \<comment> \<open>the \<open>MTK_DHCPV6C_WIFI\<close> block before the user options\<close>
  "ra_info_flags i w =
     idev_update i
       (\<lambda>d. let f = ra_info_flag (cnf d);
                 f = (if IF_RA_OTHERCONF \<in> if_flags d then 1 else f);
                 f = (if IF_RA_MANAGED \<in> if_flags d then 2 else f);
                 f = (if f = 0 then 4 else f)
             in d\<lparr>cnf := (cnf d)\<lparr>ra_info_flag := f\<rparr>\<rparr>) w"

definition ra_useropt :: "env \<Rightarrow> sk_buff \<Rightarrow> u8 list \<Rightarrow> nat \<Rightarrow> world \<Rightarrow> world" where
  \<comment> \<open>the body of the loop over the user options\<close>
  "ra_useropt E skb opt p w =
     (let i = ifindex (skb_dev skb); w = ndisc_ra_useropt E skb opt p w in
      if MTK_DHCPV6C_WIFI E \<and> u8_at opt p = ND_OPT_RDNSS then
        idev_update i
          (\<lambda>d. if IF_RA_OTHERCONF \<in> if_flags d then d\<lparr>cnf := (cnf d)\<lparr>ra_info_flag := 0\<rparr>\<rparr> else d) w
      else w)"

definition ra_options :: "env \<Rightarrow> sk_buff \<Rightarrow> u8 list \<Rightarrow> ndisc_options \<Rightarrow> bool \<Rightarrow> world \<Rightarrow> world option" where
  \<comment> \<open>from the second \<open>ipv6_accept_ra\<close> test to the label \<open>out\<close>; \<open>None\<close> when a loop over
      options does not end\<close>
  "ra_options E skb opt ndopts rt w =
     (let dev = skb_dev skb; i = ifindex dev in
      case idevs w i of
        None \<Rightarrow> Some w
      | Some in6_dev \<Rightarrow>
          if \<not> ipv6_accept_ra E in6_dev then Some w
          else
            (case (if CONFIG_IPV6_ROUTE_INFO E \<and> \<not> ipv6_chk_addr E (saddr skb) None
                      \<and> accept_ra_rtr_pref (cnf in6_dev) \<noteq> 0
                   then for_each_option False opt (nd_opts_ri ndopts) (nd_opts_ri_end ndopts)
                   else Some []) of
               None \<Rightarrow> None
             | Some ris \<Rightarrow>
                 (let w = fold (ra_route_info E skb opt in6_dev) ris w in
                  if CONFIG_IPV6_NDISC_NODETYPE E \<and> ndisc_nodetype skb = NDISC_NODETYPE_NODEFAULT
                  then Some w
                  else
                    (case (if accept_ra_pinfo (cnf in6_dev) \<noteq> 0
                           then for_each_option False opt (nd_opts_pi ndopts) (nd_opts_pi_end ndopts)
                           else Some []) of
                       None \<Rightarrow> None
                     | Some pis \<Rightarrow>
                         (let w = fold (\<lambda>p. log (Addrconf_prefix_rcv i (opt_bytes opt p)
                                                    (nd_opts_src_lladdr ndopts \<noteq> None))) pis w;
                              w = (case nd_opts_mtu ndopts of
                                     None \<Rightarrow> w
                                   | Some p \<Rightarrow> ra_mtu skb opt p rt w);
                              w = (if MTK_DHCPV6C_WIFI E then ra_info_flags i w else w)
                          in case for_each_option True opt (nd_useropts ndopts)
                                    (nd_useropts_end ndopts) of
                               None \<Rightarrow> None
                             | Some us \<Rightarrow> Some (fold (ra_useropt E skb opt) us w))))))"

definition ra_skip_linkparms :: "env \<Rightarrow> sk_buff \<Rightarrow> u8 list \<Rightarrow> ndisc_options \<Rightarrow> bool \<Rightarrow> bool
    \<Rightarrow> world \<Rightarrow> world option" where
  \<comment> \<open>from the label \<open>skip_linkparms\<close> to the end\<close>
  "ra_skip_linkparms E skb opt ndopts rt neigh w =
     (case ra_neigh E skb opt ndopts neigh w of
        (False, w) \<Rightarrow> Some w
      | (True, w) \<Rightarrow> ra_options E skb opt ndopts rt w)"

definition ra_if_flags :: "sk_buff \<Rightarrow> inet6_dev \<Rightarrow> inet6_dev" where
  \<comment> \<open>\<open>IF_RA_RCVD\<close> after a solicitation, and the managed/otherconf flags of this
      advertisement\<close>
  "ra_if_flags skb d =
     (let f = if_flags d;
          f = (if IF_RS_SENT \<in> f then insert IF_RA_RCVD f else f);
          f = (f - {IF_RA_MANAGED, IF_RA_OTHERCONF})
              \<union> (if icmp6_addrconf_managed skb then {IF_RA_MANAGED} else {})
              \<union> (if icmp6_addrconf_other skb then {IF_RA_OTHERCONF} else {})
      in d\<lparr>if_flags := f\<rparr>)"

definition ra_ccmni :: "net_device \<Rightarrow> inet6_dev \<Rightarrow> inet6_dev" where
  \<comment> \<open>\<open>if (0 == strncmp(in6_dev->dev->name, "ccmni", 2)) in6_dev->cnf.accept_ra_defrtr = 0;\<close>\<close>
  "ra_ccmni dev d =
     (if take 2 (dev_name dev) = take 2 ''ccmni'' then d\<lparr>cnf := (cnf d)\<lparr>accept_ra_defrtr := 0\<rparr>\<rparr>
      else d)"

definition ndisc_router_discovery :: "env \<Rightarrow> sk_buff \<Rightarrow> world \<Rightarrow> world option" where
  \<comment> \<open>\<open>None\<close> when the handler does not return\<close>
  "ndisc_router_discovery E skb w =
     (let dev = skb_dev skb; i = ifindex dev;
          opt = drop 8 (body skb);
          optlen = int (skb_len skb) - 16
      in if \<not> ipv6_addr_linklocal (saddr skb) then Some w
         else if optlen < 0 then Some w
         else if CONFIG_IPV6_NDISC_NODETYPE E \<and> ndisc_nodetype skb = NDISC_NODETYPE_HOST
           then Some w
         else
           (case idevs w i of
              None \<Rightarrow> Some w
            | Some in6_dev \<Rightarrow>
                (case ndisc_parse_options (CONFIG_IPV6_ROUTE_INFO E) opt optlen of
                   None \<Rightarrow> Some w
                 | Some ndopts \<Rightarrow>
                     if \<not> ipv6_accept_ra E in6_dev
                       then ra_skip_linkparms E skb opt ndopts False False w
                     else if CONFIG_IPV6_NDISC_NODETYPE E
                             \<and> ndisc_nodetype skb = NDISC_NODETYPE_NODEFAULT
                       then ra_skip_linkparms E skb opt ndopts False False w
                     else
                       (let in6_dev = ra_ccmni dev (ra_if_flags skb in6_dev);
                            w = w\<lparr>idevs := (idevs w)(i \<mapsto> in6_dev)\<rparr>
                        in case ra_defrtr E skb in6_dev w of
                             Inl w \<Rightarrow> Some w
                           | Inr (rt, neigh, w) \<Rightarrow>
                               ra_skip_linkparms E skb opt ndopts rt neigh
                                 (ra_linkparms E skb w)))))"

subsection \<open>The receive entry point\<close>

text \<open>
  \<open>ndisc_rcv\<close>, which returns 0 on every path. The block under
  \<open>MTK_IPV6_TETHER_NDP_MODE\<close> is not compiled in: it calls \<open>ndisc_fill_addr_option\<close>
  with five arguments, and the function takes three.
\<close>

definition ndisc_rcv :: "env \<Rightarrow> sk_buff \<Rightarrow> world \<Rightarrow> world option" where
  "ndisc_rcv E skb w =
     (if \<not> skb_linearize_ok E then Some w
      else if hop_limit skb \<noteq> 255 then Some w
      else if icmp6_code skb \<noteq> 0 then Some w
      else
        (let skb = skb\<lparr>locally_enqueued := False\<rparr>; t = icmp6_type skb in
         if t = NDISC_NEIGHBOUR_SOLICITATION then Some (ndisc_recv_ns E skb w)
         else if t = NDISC_NEIGHBOUR_ADVERTISEMENT then Some (ndisc_recv_na E skb w)
         else if t = NDISC_ROUTER_SOLICITATION then Some (ndisc_recv_rs E skb w)
         else if t = NDISC_ROUTER_ADVERTISEMENT then ndisc_router_discovery E skb w
         else if t = NDISC_REDIRECT then Some (ndisc_redirect_rcv E skb w)
         else Some w))"


section \<open>Notions of the specification\<close>

definition nd_option_wf :: "u8 list \<Rightarrow> bool" where
  \<comment> \<open>one option as the specification writes it: type, length in units of 8 bytes, which
      is not 0, and a body that fills the declared length\<close>
  "nd_option_wf ob \<longleftrightarrow> 2 \<le> length ob \<and> unat (ob ! 1) \<noteq> 0 \<and> length ob = unat (ob ! 1) * 8"

definition bad_header :: "u8 list \<Rightarrow> bool" where
  \<comment> \<open>bytes are left, and they cannot hold an option header, or the option they start
      declares the length 0 or more than is left\<close>
  "bad_header rest \<longleftrightarrow>
     rest \<noteq> [] \<and> (length rest < 2 \<or> unat (rest ! 1) * 8 = 0 \<or> length rest < unat (rest ! 1) * 8)"

definition opts_ok :: "u8 list \<Rightarrow> bool" where
  \<comment> \<open>the bytes parse as an option area\<close>
  "opts_ok rest \<longleftrightarrow> parse_loop False 0 rest ndopts_zero \<noteq> None"

definition ptrs :: "ndisc_options \<Rightarrow> nat set" where
  \<comment> \<open>every pointer held in the parsed option set\<close>
  "ptrs nd = set_option (nd_opts_src_lladdr nd) \<union> set_option (nd_opts_tgt_lladdr nd)
     \<union> set_option (nd_opts_pi nd) \<union> set_option (nd_opts_pi_end nd)
     \<union> set_option (nd_opts_rh nd) \<union> set_option (nd_opts_mtu nd)
     \<union> set_option (nd_opts_ri nd) \<union> set_option (nd_opts_ri_end nd)
     \<union> set_option (nd_useropts nd) \<union> set_option (nd_useropts_end nd)"

text \<open>The types of the options an area carries, read from its start up to the first bad header.\<close>

function opt_types :: "u8 list \<Rightarrow> u8 list" where
  "opt_types rest =
     (if length rest < 2 then []
      else let l = unat (rest ! 1) * 8 in
        if length rest < l \<or> l = 0 then []
        else rest ! 0 # opt_types (drop l rest))"
  by pat_completeness auto
termination
  by (relation "measure length") auto

declare opt_types.simps [simp del]

text \<open>
  Two views of the state: the preference and expiry of the default routers, and the
  \<open>accept_ra_defrtr\<close> switch of the interfaces.
\<close>

definition rt_core :: "world \<Rightarrow> in6_addr \<times> nat \<Rightarrow> (2 word \<times> nat option) option" where
  "rt_core w k = map_option (\<lambda>r. (rt_pref r, rt_expires r)) (dflt_routers w k)"

definition defrtr_cfg :: "world \<Rightarrow> nat \<Rightarrow> int option" where
  "defrtr_cfg w i = map_option (\<lambda>d. accept_ra_defrtr (cnf d)) (idevs w i)"

text \<open>
  A Router Advertisement passes validation when the handler gets as far as the
  \<open>ipv6_accept_ra\<close> test; it is accepted when it also passes that test and the
  node-type test after it.
\<close>

definition ra_passes_validation :: "env \<Rightarrow> sk_buff \<Rightarrow> world \<Rightarrow> bool" where
  "ra_passes_validation E skb w \<longleftrightarrow>
     ipv6_addr_linklocal (saddr skb) \<and> 8 \<le> length (body skb)
     \<and> \<not> (CONFIG_IPV6_NDISC_NODETYPE E \<and> ndisc_nodetype skb = NDISC_NODETYPE_HOST)
     \<and> idevs w (ifindex (skb_dev skb)) \<noteq> None
     \<and> ndisc_parse_options (CONFIG_IPV6_ROUTE_INFO E) (drop 8 (body skb))
          (int (length (body skb)) - 8) \<noteq> None"

definition ra_accepted :: "env \<Rightarrow> sk_buff \<Rightarrow> world \<Rightarrow> bool" where
  "ra_accepted E skb w \<longleftrightarrow>
     ra_passes_validation E skb w
     \<and> (case idevs w (ifindex (skb_dev skb)) of None \<Rightarrow> False | Some d \<Rightarrow> ipv6_accept_ra E d)
     \<and> \<not> (CONFIG_IPV6_NDISC_NODETYPE E \<and> ndisc_nodetype skb = NDISC_NODETYPE_NODEFAULT)"

text \<open>The flags with which the Router Advertisement handler updates the sender's entry.\<close>

definition RA_NEIGH_FLAGS :: "neigh_update_flag set" where
  "RA_NEIGH_FLAGS = {NEIGH_UPDATE_F_WEAK_OVERRIDE, NEIGH_UPDATE_F_OVERRIDE,
                     NEIGH_UPDATE_F_OVERRIDE_ISROUTER, NEIGH_UPDATE_F_ISROUTER}"

text \<open>The packets given to the output hook between two states.\<close>

definition emitted_by :: "world \<Rightarrow> world \<Rightarrow> sk_buff set" where
  "emitted_by w w' = {p. Dst_output p \<in> set (trace w') \<and> Dst_output p \<notin> set (trace w)}"

section \<open>A concrete host\<close>

text \<open>
  An Ethernet interface and a cellular interface, and a configuration of the build and of
  the collaborators, on which the theorems below are exercised.
\<close>

definition eth0 :: net_device where
  "eth0 = \<lparr>ifindex = 2, dev_name = ''eth0'', dev_type = 1, addr_len = 6,
           dev_addr = [0x02, 0, 0, 0, 0, 0x01], dev_mtu = 1500, header_ops = True\<rparr>"

definition ccmni0 :: net_device where
  "ccmni0 = \<lparr>ifindex = 3, dev_name = ''ccmni0'', dev_type = 1, addr_len = 6,
             dev_addr = [0x02, 0, 0, 0, 0, 0x02], dev_mtu = 1500, header_ops = True\<rparr>"

definition our_lladdr :: in6_addr where
  "our_lladdr = [0xfe, 0x80, 0, 0, 0, 0, 0, 0, 0, 0, 0, 0, 0, 0, 0, 0x0a]"

definition router_lladdr :: in6_addr where
  "router_lladdr = [0xfe, 0x80, 0, 0, 0, 0, 0, 0, 0, 0, 0, 0, 0, 0, 0, 0x01]"

definition new_neigh :: "in6_addr \<times> nat \<Rightarrow> neighbour" where
  "new_neigh k =
     \<lparr>primary_key = fst k, neigh_dev = (if snd k = 3 then ccmni0 else eth0),
      nud_state = NUD_NONE, neigh_flags = {}, ha = [], probes = 0,
      parms = \<lparr>base_reachable_time = 3000, retrans_time = 100, gc_staletime = 6000,
               reachable_time = 3000, proxy_delay = 80, ucast_probes = 3, app_probes = 0\<rparr>\<rparr>"

definition simple_update ::
  "neighbour \<Rightarrow> u8 list option \<Rightarrow> nud_state \<Rightarrow> neigh_update_flag set \<Rightarrow> neighbour" where
  \<comment> \<open>a cache that takes the new state and address, and the router flag when told\<close>
  "simple_update n lladdr new fl =
     n\<lparr>nud_state := new,
       ha := (case lladdr of None \<Rightarrow> ha n | Some a \<Rightarrow> a),
       neigh_flags := (if NEIGH_UPDATE_F_OVERRIDE_ISROUTER \<in> fl then
                         (if NEIGH_UPDATE_F_ISROUTER \<in> fl then insert NTF_ROUTER (neigh_flags n)
                          else neigh_flags n - {NTF_ROUTER})
                       else neigh_flags n)\<rparr>"

definition host_env :: env where
  "host_env =
     \<lparr>HZ = 100, BITS_PER_LONG = 32, CONFIG_IPV6_ROUTER_PREF = True,
      CONFIG_IPV6_ROUTE_INFO = True, CONFIG_IPV6_NDISC_NODETYPE = False,
      CONFIG_IPV6_OPTIMISTIC_DAD = False, CONFIG_ARPD = False, MTK_DHCPV6C_WIFI = False,
      ndisc_addr_option_pad = (\<lambda>t. 0),
      ipv6_accept_ra = (\<lambda>d. accept_ra (cnf d) \<noteq> 0),
      ipv6_chk_addr = (\<lambda>a d. a = our_lladdr),
      ipv6_chk_acast_addr = (\<lambda>i a. False),
      ipv6_dev_get_saddr = (\<lambda>i a. Some our_lladdr),
      ipv6_get_lladdr = (\<lambda>i f. Some our_lladdr),
      neigh_update_entry = simple_update,
      neigh_create = (\<lambda>k. Some (new_neigh k)),
      neigh_rand_reach_time = (\<lambda>t. t),
      rt6_add_dflt_router_ok = True, skb_linearize_ok = True, alloc_skb_ok = True,
      skb_clone_ok = True, icmp6_dst_alloc_ok = True, nf_hook_err = (\<lambda>skb. 0),
      nlmsg_new_ok = True, nlmsg_put_ok = True, heap_byte = (\<lambda>i. 0x55),
      redirect_route = (\<lambda>skb. Some False), inet_peer_xrlim_allow = (\<lambda>skb. True),
      inet_ctl_sock_create_err = 0\<rparr>"

definition host_cnf :: ipv6_devconf where
  "host_cnf = \<lparr>forwarding = 0, accept_ra = 1, cnf_hop_limit = 64, mtu6 = 1500,
      accept_ra_defrtr = 1, accept_ra_pinfo = 1, accept_ra_rtr_pref = 1,
      accept_ra_rt_info_max_plen = 0, proxy_ndp = 0, force_tllao = 0, ndisc_notify = 0,
      ra_info_flag = 0\<rparr>"

definition host_idev :: inet6_dev where
  "host_idev = \<lparr>cnf = host_cnf, if_flags = {}, nd_parms = parms (new_neigh ([], 2)), tstamp = 0,
      addr_list = [\<lparr>ifa_addr = our_lladdr, ifa_flags = {}\<rparr>]\<rparr>"

definition world0 :: world where
  "world0 = \<lparr>idevs = (\<lambda>i. if i = 2 \<or> i = 3 then Some host_idev else None),
      devconf_all = host_cnf, nd_tbl = (\<lambda>k. None), pneigh = (\<lambda>k. None),
      dflt_routers = (\<lambda>k. None), ndisc_sk = \<lparr>np_hop_limit = 255, np_mc_loop = 0\<rparr>,
      jiffies = 5000, trace = []\<rparr>"

definition world_no_ra :: world where
  "world_no_ra = world0\<lparr>idevs := (\<lambda>i. if i = 2 \<or> i = 3
      then Some (host_idev\<lparr>cnf := host_cnf\<lparr>accept_ra := 0\<rparr>\<rparr>) else None)\<rparr>"

definition ra_pkt :: sk_buff where
  "ra_pkt = \<lparr>skb_dev = eth0, pkt_type = PACKET_MULTICAST, ndisc_nodetype = NDISC_NODETYPE_UNSPEC,
      locally_enqueued = False, has_dst = False, hop_limit = 255, payload_len = 24,
      nexthdr = 58, saddr = router_lladdr, daddr = in6addr_linklocal_allnodes,
      icmp6_type = 134, icmp6_code = 0, icmp6_router = False, icmp6_solicited = False,
      icmp6_override = False, icmp6_hop_limit = 64, icmp6_addrconf_managed = False,
      icmp6_addrconf_other = False, icmp6_router_pref = 1, icmp6_rt_lifetime = 1800,
      body = [0, 0, 0, 0, 0, 0, 0, 0, 1, 1, 0x02, 0, 0, 0, 0, 0x99]\<rparr>"

definition ns_probe :: sk_buff where
  "ns_probe = \<lparr>skb_dev = eth0, pkt_type = PACKET_HOST, ndisc_nodetype = NDISC_NODETYPE_UNSPEC,
      locally_enqueued = False, has_dst = False, hop_limit = 255, payload_len = 32,
      nexthdr = 58, saddr = router_lladdr, daddr = our_lladdr, icmp6_type = 135,
      icmp6_code = 0, icmp6_router = False, icmp6_solicited = False, icmp6_override = False,
      icmp6_hop_limit = 0, icmp6_addrconf_managed = False, icmp6_addrconf_other = False,
      icmp6_router_pref = 0, icmp6_rt_lifetime = 0,
      body = our_lladdr @ [1, 1, 0x02, 0, 0, 0, 0, 0x99]\<rparr>"

definition unspecified_addr :: in6_addr where
  "unspecified_addr = [0, 0, 0, 0, 0, 0, 0, 0, 0, 0, 0, 0, 0, 0, 0, 0]"

definition global_addr :: in6_addr where
  "global_addr = [0x20, 0x01, 0x0d, 0xb8, 0, 0, 0, 0, 0, 0, 0, 0, 0, 0, 0, 0x01]"

text \<open>
  A state in which the router is already known: a stale entry with the router flag in the
  neighbour cache, and a default route through it.
\<close>

definition world_routed :: world where
  "world_routed = world0\<lparr>
      nd_tbl := (\<lambda>k. if k = (router_lladdr, 2)
                     then Some ((new_neigh (router_lladdr, 2))
                                  \<lparr>nud_state := NUD_STALE, neigh_flags := {NTF_ROUTER},
                                    ha := [0x02, 0, 0, 0, 0, 0x99]\<rparr>)
                     else None),
      dflt_routers := (\<lambda>k. if k = (router_lladdr, 2)
                           then Some \<lparr>rt_pref = 0, rt_expires = Some 6000, rt_hoplimit = None,
                                      rt_mtu = None\<rparr>
                           else None)\<rparr>"

text \<open>
  A solicited Neighbour Advertisement for the router's address, with the override bit and
  without the router bit, carrying a target link-layer address option.
\<close>

definition na_pkt :: sk_buff where
  "na_pkt = ns_probe\<lparr>icmp6_type := 136, icmp6_solicited := True, icmp6_override := True,
      body := router_lladdr @ [2, 1, 0x02, 0, 0, 0, 0, 0x99]\<rparr>"

text \<open>
  A neighbour entry whose \<open>ucast_probes\<close> is the least 32-bit \<open>int\<close>, \<open>-2^31\<close>.
\<close>

definition neigh_min_ucast :: neighbour where
  "neigh_min_ucast =
     (new_neigh (router_lladdr, 2))
       \<lparr>parms := (parms (new_neigh (router_lladdr, 2)))\<lparr>ucast_probes := 0x80000000\<rparr>\<rparr>"

section \<open>Properties of the option codec\<close>

lemmas nd_opt_defs =
  ND_OPT_SOURCE_LL_ADDR_def ND_OPT_TARGET_LL_ADDR_def ND_OPT_PREFIX_INFO_def
  ND_OPT_REDIRECT_HDR_def ND_OPT_MTU_def ND_OPT_ROUTE_INFO_def ND_OPT_RDNSS_def
  ND_OPT_DNSSL_def

lemma parse_loop_Some_split:
  "parse_loop ri pos rest nd = Some nd' \<Longrightarrow> \<exists>os. (\<forall>ob\<in>set os. nd_option_wf ob) \<and> rest = concat os"
proof (induction ri pos rest nd rule: parse_loop.induct)
  case (1 ri pos rest ndopts)
  show ?case
  proof (cases "rest = []")
    case True
    then show ?thesis by (intro exI[of _ "[]"]) simp
  next
    case False
    let ?l = "unat (rest ! 1) * 8"
    from False "1.prems" have len: "2 \<le> length rest" "?l \<le> length rest" "?l \<noteq> 0"
      and rec: "parse_loop ri (pos + ?l) (drop ?l rest) (record_option ri (rest ! 0) pos ndopts) = Some nd'"
      by (auto simp: parse_loop.simps[of ri pos rest ndopts] Let_def split: if_splits)
    from "1.IH"[OF _ _ refl _ rec] False len obtain os where
      os: "\<forall>ob\<in>set os. nd_option_wf ob" "drop ?l rest = concat os" by auto
    have "nd_option_wf (take ?l rest)"
      using len by (auto simp: nd_option_wf_def min_def)
    moreover have "rest = concat (take ?l rest # os)"
      using os(2) by (metis append_take_drop_id concat.simps(2))
    ultimately show ?thesis using os(1) by (intro exI[of _ "take ?l rest # os"]) auto
  qed
qed

lemma parse_loop_concat:
  "\<forall>ob\<in>set os. nd_option_wf ob \<Longrightarrow> \<exists>nd'. parse_loop ri pos (concat os) nd = Some nd'"
proof (induction os arbitrary: pos nd)
  case Nil
  then show ?case by (simp add: parse_loop.simps)
next
  case (Cons ob os)
  then have wf: "nd_option_wf ob" by simp
  then have l: "2 \<le> length ob" "unat (ob ! 1) \<noteq> 0" "length ob = unat (ob ! 1) * 8"
    by (auto simp: nd_option_wf_def)
  have nth1: "(ob @ concat os) ! 1 = ob ! 1" using l by (simp add: nth_append)
  from Cons obtain nd' where
    "parse_loop ri (pos + length ob) (concat os) (record_option ri ((ob @ concat os) ! 0) pos nd) = Some nd'"
    by fastforce
  then show ?case using l nth1
    by (subst parse_loop.simps) (auto simp: Let_def)
qed

lemma parse_loop_None_split:
  "parse_loop ri pos rest nd = None \<Longrightarrow>
   \<exists>os bad. (\<forall>ob\<in>set os. nd_option_wf ob) \<and> rest = concat os @ bad \<and> bad_header bad"
proof (induction ri pos rest nd rule: parse_loop.induct)
  case (1 ri pos rest ndopts)
  let ?l = "unat (rest ! 1) * 8"
  from "1.prems" have ne: "rest \<noteq> []" by (auto simp: parse_loop.simps[of ri pos rest ndopts])
  show ?case
  proof (cases "length rest < 2 \<or> length rest < ?l \<or> ?l = 0")
    case True
    then have "bad_header rest" using ne by (auto simp: bad_header_def)
    then show ?thesis by (intro exI[of _ "[]"] exI[of _ rest]) simp
  next
    case False
    then have len: "2 \<le> length rest" "?l \<le> length rest" "?l \<noteq> 0" by auto
    with "1.prems" ne have rec:
      "parse_loop ri (pos + ?l) (drop ?l rest) (record_option ri (rest ! 0) pos ndopts) = None"
      by (auto simp: parse_loop.simps[of ri pos rest ndopts] Let_def split: if_splits)
    from "1.IH"[OF _ _ refl _ rec] ne len obtain os bad where
      os: "\<forall>ob\<in>set os. nd_option_wf ob" "drop ?l rest = concat os @ bad" "bad_header bad" by auto
    have "nd_option_wf (take ?l rest)"
      using len by (auto simp: nd_option_wf_def min_def)
    moreover have "rest = concat (take ?l rest # os) @ bad"
      using os(2) by (metis append.assoc append_take_drop_id concat.simps(2))
    ultimately show ?thesis using os(1,3)
      by (intro exI[of _ "take ?l rest # os"] exI[of _ bad]) auto
  qed
qed

lemma parse_loop_bad:
  "\<forall>ob\<in>set os. nd_option_wf ob \<Longrightarrow> bad_header bad \<Longrightarrow> parse_loop ri pos (concat os @ bad) nd = None"
proof (induction os arbitrary: pos nd)
  case Nil
  then show ?case by (subst parse_loop.simps) (auto simp: bad_header_def Let_def)
next
  case (Cons ob os)
  then have l: "2 \<le> length ob" "unat (ob ! 1) \<noteq> 0" "length ob = unat (ob ! 1) * 8"
    by (auto simp: nd_option_wf_def)
  have nth1: "(ob @ concat os @ bad) ! 1 = ob ! 1" using l by (simp add: nth_append)
  have "parse_loop ri (pos + length ob) (concat os @ bad) (record_option ri ((ob @ concat os @ bad) ! 0) pos nd) = None"
    using Cons by simp
  then show ?case using l nth1
    by (subst parse_loop.simps) (auto simp: Let_def)
qed


text \<open>
  Claim C2. \<open>ndisc_parse_options\<close> returns an option set exactly when the option area
  is a sequence of whole options, each with a non-zero declared length that the area
  holds in full (so the area is consumed to its last byte); it returns NULL exactly when,
  after some such whole options, bytes are left that cannot hold an option header or that
  start an option of declared length 0 or longer than what is left.
\<close>

theorem ndisc_parse_options_all_or_nothing:
  assumes "0 \<le> opt_len" and "nat opt_len \<le> length opt"
  shows "((\<exists>nd. ndisc_parse_options ri opt opt_len = Some nd) \<longleftrightarrow>
            (\<exists>os. (\<forall>ob\<in>set os. nd_option_wf ob) \<and> take (nat opt_len) opt = concat os))
       \<and> (ndisc_parse_options ri opt opt_len = None \<longleftrightarrow>
            (\<exists>os bad. (\<forall>ob\<in>set os. nd_option_wf ob)
               \<and> take (nat opt_len) opt = concat os @ bad \<and> bad_header bad))"
proof -
  let ?area = "take (nat opt_len) opt"
  have p: "ndisc_parse_options ri opt opt_len = parse_loop ri 0 ?area ndopts_zero"
    using assms(1) by (simp add: ndisc_parse_options_def)
  have "(\<exists>nd. ndisc_parse_options ri opt opt_len = Some nd) \<longleftrightarrow>
           (\<exists>os. (\<forall>ob\<in>set os. nd_option_wf ob) \<and> ?area = concat os)"
    unfolding p using parse_loop_Some_split[of ri 0 ?area ndopts_zero]
      parse_loop_concat[of _ ri 0 ndopts_zero] by metis
  moreover have "ndisc_parse_options ri opt opt_len = None \<longleftrightarrow>
           (\<exists>os bad. (\<forall>ob\<in>set os. nd_option_wf ob) \<and> ?area = concat os @ bad \<and> bad_header bad)"
    unfolding p using parse_loop_None_split[of ri 0 ?area ndopts_zero]
      parse_loop_bad[of _ _ ri 0 ndopts_zero] by metis
  ultimately show ?thesis by blast
qed

theorem ndisc_parse_options_all_or_nothing_witness:
  "(\<exists>nd. ndisc_parse_options True [1, 1, 0, 0, 0, 0, 0, 0] 8 = Some nd)
   \<and> ndisc_parse_options True [1, 1, 0, 0, 0, 0, 0, 0, 5, 1, 0] 11 = None"
proof -
  have wf: "nd_option_wf [1, 1, 0, 0, 0, 0, 0, 0]"
    by (simp add: nd_option_wf_def)
  have "\<exists>os. (\<forall>ob\<in>set os. nd_option_wf ob)
           \<and> take (nat 8) [1, 1, 0, 0, 0, 0, 0, 0 :: u8] = concat os"
    using wf by (intro exI[of _ "[[1, 1, 0, 0, 0, 0, 0, 0]]"]) simp
  then have a: "\<exists>nd. ndisc_parse_options True [1, 1, 0, 0, 0, 0, 0, 0] 8 = Some nd"
    using ndisc_parse_options_all_or_nothing[of 8 "[1, 1, 0, 0, 0, 0, 0, 0]" True] by simp
  have "\<exists>os bad. (\<forall>ob\<in>set os. nd_option_wf ob)
           \<and> take (nat 11) [1, 1, 0, 0, 0, 0, 0, 0, 5, 1, 0 :: u8] = concat os @ bad
           \<and> bad_header bad"
    using wf by (intro exI[of _ "[[1, 1, 0, 0, 0, 0, 0, 0]]"] exI[of _ "[5, 1, 0]"])
      (simp add: bad_header_def)
  then have "ndisc_parse_options True [1, 1, 0, 0, 0, 0, 0, 0, 5, 1, 0] 11 = None"
    using ndisc_parse_options_all_or_nothing[of 11 "[1, 1, 0, 0, 0, 0, 0, 0, 5, 1, 0]" True]
    by simp
  with a show ?thesis by simp
qed

lemma NDISC_OPT_SPACE_ge: "len + 2 \<le> NDISC_OPT_SPACE len"
  unfolding NDISC_OPT_SPACE_def by presburger

lemma NDISC_OPT_SPACE_pos: "8 \<le> NDISC_OPT_SPACE len"
  unfolding NDISC_OPT_SPACE_def by presburger

lemma fill_addr_option_bytes:
  assumes "alen \<le> length data"
    and "length room = ndisc_opt_addr_space pad alen"
  shows "ndisc_fill_addr_option pad alen room type data =
           [word_of_int type, word_of_nat (ndisc_opt_addr_space pad alen div 8)]
           @ replicate pad 0 @ take alen data
           @ replicate (ndisc_opt_addr_space pad alen - (2 + pad + alen)) 0"
proof -
  let ?space = "ndisc_opt_addr_space pad alen"
  have sp: "alen + pad + 2 \<le> ?space"
    unfolding ndisc_opt_addr_space_def by (rule NDISC_OPT_SPACE_ge)
  obtain a b rest where room: "room = a # b # rest" and rest: "length rest = ?space - 2"
    using assms(2) sp by (cases room; cases "tl room") auto
  have lr: "pad + alen \<le> length rest" using rest sp by simp
  show ?thesis
  proof (cases "alen + pad + 2 < ?space")
    case True
    then have "nat (int ?space - int pad - int (alen + 2)) = ?space - (2 + pad + alen)"
      by linarith
    then show ?thesis using True assms(1) lr rest
      by (simp add: ndisc_fill_addr_option_def Let_def room memset_def memcpy_def min_def
               del: of_nat_add)
  next
    case False
    with sp have "?space = alen + pad + 2" by simp
    then show ?thesis using assms(1) lr rest
      by (simp add: ndisc_fill_addr_option_def Let_def room memset_def memcpy_def min_def)
  qed
qed

lemma opt_addr_space_ge: "alen + pad + 2 \<le> ndisc_opt_addr_space pad alen"
  unfolding ndisc_opt_addr_space_def NDISC_OPT_SPACE_def by presburger
lemma opt_addr_space_units: "ndisc_opt_addr_space pad alen div 8 * 8 = ndisc_opt_addr_space pad alen"
  unfolding ndisc_opt_addr_space_def NDISC_OPT_SPACE_def by simp
lemma opt_addr_space_units_pos: "ndisc_opt_addr_space pad alen div 8 \<noteq> 0"
  unfolding ndisc_opt_addr_space_def NDISC_OPT_SPACE_def by simp

lemma parse_loop_Nil: "parse_loop ri pos [] nd = Some nd"
  by (simp add: parse_loop.simps)

lemma parse_single_option:
  assumes "length bdy + 2 = n * 8" and "n < 256" and "n \<noteq> 0"
  shows "parse_loop ri 0 (t # word_of_nat n # bdy) nd = Some (record_option ri t 0 nd)"
proof -
  have u: "unat (word_of_nat n :: u8) = n" using assms(2) by (simp add: unat_of_nat)
  have l: "length (t # word_of_nat n # bdy) = n * 8" using assms(1) by simp
  have d: "drop (n * 8) (t # word_of_nat n # bdy) = []" using l by simp
  show ?thesis
    apply (subst parse_loop.simps)
    apply (simp only: Let_def l d nth_Cons_0 nth_Cons_Suc One_nat_def u parse_loop_Nil)
    using assms(3) apply simp
    done
qed

text \<open>
  Claim C8. The link-layer address option that \<open>ndisc_fill_addr_option\<close> writes is the
  type, the length \<open>ceil((2 + pad + addr_len) / 8)\<close> in units of 8 bytes, \<open>pad\<close> zero bytes,
  the address, and zero bytes up to the length, whatever the buffer held before; parsing
  these bytes succeeds and gives the option set with this option, at offset 0, in the slot
  of its type and nothing else; and reading the address back from that slot gives the
  address written.
\<close>

theorem ndisc_fill_addr_option_roundtrip:
  assumes t: "t = ND_OPT_SOURCE_LL_ADDR \<or> t = ND_OPT_TARGET_LL_ADDR"
    and data: "alen \<le> length data"
    and room: "length room = ndisc_opt_addr_space pad alen"
    and units: "ndisc_opt_addr_space pad alen div 8 < 256"
    and pad: "ndisc_addr_option_pad E (dev_type dev) = pad"
    and dev: "addr_len dev = alen"
  shows "ndisc_opt_addr_space pad alen = 8 * ((2 + pad + alen + 7) div 8)
       \<and> ndisc_fill_addr_option pad alen room (uint t) data =
           [t, word_of_nat (ndisc_opt_addr_space pad alen div 8)]
           @ replicate pad 0 @ take alen data
           @ replicate (ndisc_opt_addr_space pad alen - (2 + pad + alen)) 0
       \<and> ndisc_parse_options ri (ndisc_fill_addr_option pad alen room (uint t) data)
             (int (ndisc_opt_addr_space pad alen))
           = Some (if t = ND_OPT_SOURCE_LL_ADDR then ndopts_zero\<lparr>nd_opts_src_lladdr := Some 0\<rparr>
                   else ndopts_zero\<lparr>nd_opts_tgt_lladdr := Some 0\<rparr>)
       \<and> ndisc_opt_addr_data E (ndisc_fill_addr_option pad alen room (uint t) data) 0 dev
           = Some (take alen data)"
proof -
  let ?space = "ndisc_opt_addr_space pad alen"
  let ?n = "?space div 8"
  let ?tl = "replicate pad (0::u8) @ take alen data
               @ replicate (?space - (2 + pad + alen)) 0"
  note sp = opt_addr_space_ge[of alen pad] opt_addr_space_units[of pad alen]
    opt_addr_space_units_pos[of pad alen]
  have bytes: "ndisc_fill_addr_option pad alen room (uint t) data = t # word_of_nat ?n # ?tl"
    using fill_addr_option_bytes[OF data room, of "uint t"] by simp
  have len: "length ?tl + 2 = ?n * 8" using sp(1,2) data by (simp add: min_def)
  have un: "unat (word_of_nat ?n :: u8) = ?n" using units by (simp add: unat_of_nat)
  have "parse_loop ri 0 (t # word_of_nat ?n # ?tl) ndopts_zero
          = Some (record_option ri t 0 ndopts_zero)"
    by (rule parse_single_option[OF len units sp(3)])
  moreover have "length (t # word_of_nat ?n # ?tl) = ?space" using len sp(2) by simp
  moreover have "record_option ri t 0 ndopts_zero =
        (if t = ND_OPT_SOURCE_LL_ADDR then ndopts_zero\<lparr>nd_opts_src_lladdr := Some 0\<rparr>
         else ndopts_zero\<lparr>nd_opts_tgt_lladdr := Some 0\<rparr>)"
    using t by (auto simp: record_option_def first_wins_def ndopts_zero_def nd_opt_defs)
  ultimately have parse: "ndisc_parse_options ri (t # word_of_nat ?n # ?tl) (int ?space)
      = Some (if t = ND_OPT_SOURCE_LL_ADDR then ndopts_zero\<lparr>nd_opts_src_lladdr := Some 0\<rparr>
              else ndopts_zero\<lparr>nd_opts_tgt_lladdr := Some 0\<rparr>)"
    unfolding ndisc_parse_options_def by (simp del: length_Cons length_append)
  have "ndisc_opt_addr_data E (t # word_of_nat ?n # ?tl) 0 dev = Some (take alen data)"
    using un sp(2) data pad dev
    by (simp add: ndisc_opt_addr_data_def Let_def u8_at_def ndisc_opt_addr_space_def min_def)
  moreover have "?space = 8 * ((2 + pad + alen + 7) div 8)"
    by (simp add: ndisc_opt_addr_space_def NDISC_OPT_SPACE_def add_ac)
  ultimately show ?thesis using bytes parse by simp
qed


theorem ndisc_fill_addr_option_roundtrip_witness:
  "ndisc_fill_addr_option 0 6 (replicate 8 0x55) 1 [0x02, 0, 0, 0, 0, 0x01]
     = [1, 1, 0x02, 0, 0, 0, 0, 0x01]
   \<and> ndisc_parse_options True
        (ndisc_fill_addr_option 0 6 (replicate 8 0x55) 1 [0x02, 0, 0, 0, 0, 0x01]) 8
     = Some (ndopts_zero\<lparr>nd_opts_src_lladdr := Some 0\<rparr>)
   \<and> ndisc_opt_addr_data host_env
        (ndisc_fill_addr_option 0 6 (replicate 8 0x55) 1 [0x02, 0, 0, 0, 0, 0x01]) 0 eth0
     = Some [0x02, 0, 0, 0, 0, 0x01]"
proof -
  have sp: "ndisc_opt_addr_space 0 6 = 8"
    by (simp add: ndisc_opt_addr_space_def NDISC_OPT_SPACE_def)
  show ?thesis
    using ndisc_fill_addr_option_roundtrip[of ND_OPT_SOURCE_LL_ADDR 6 "[0x02, 0, 0, 0, 0, 0x01]"
        "replicate 8 0x55" 0 host_env eth0 True]
    by (auto simp: sp ND_OPT_SOURCE_LL_ADDR_def host_env_def eth0_def)
qed

section \<open>The loops over parsed options end\<close>

lemma parse_loop_indep:
  "(parse_loop ri pos rest nd = None) \<longleftrightarrow> (parse_loop ri' pos' rest nd' = None)"
proof (induction ri pos rest nd arbitrary: pos' nd' rule: parse_loop.induct)
  case (1 ri pos rest ndopts)
  show ?case
  proof (cases "length rest = 0 \<or> length rest < 2 \<or> length rest < unat (rest ! 1) * 8 \<or> unat (rest ! 1) * 8 = 0")
    case True
    then show ?thesis
      by (subst parse_loop.simps, subst (2) parse_loop.simps) (auto simp: Let_def)
  next
    case False
    then have "(parse_loop ri pos rest ndopts = None) =
               (parse_loop ri (pos + unat (rest ! 1) * 8) (drop (unat (rest ! 1) * 8) rest)
                  (record_option ri (rest ! 0) pos ndopts) = None)"
      by (subst parse_loop.simps) (auto simp: Let_def)
    also have "\<dots> = (parse_loop ri' (pos' + unat (rest ! 1) * 8) (drop (unat (rest ! 1) * 8) rest)
                  (record_option ri' (rest ! 0) pos' nd') = None)"
      using False by (intro "1.IH"[OF _ _ refl]) auto
    also have "\<dots> = (parse_loop ri' pos' rest nd' = None)"
      using False by (subst (2) parse_loop.simps) (auto simp: Let_def)
    finally show ?thesis .
  qed
qed

lemma opts_ok_iff: "opts_ok rest \<longleftrightarrow> parse_loop ri pos rest nd \<noteq> None"
  unfolding opts_ok_def using parse_loop_indep[of False 0 rest ndopts_zero ri pos nd] by simp

lemma opts_ok_step:
  assumes "opts_ok rest" and "rest \<noteq> []"
  shows "2 \<le> length rest" and "unat (rest ! 1) * 8 \<noteq> 0" and "unat (rest ! 1) * 8 \<le> length rest"
    and "opts_ok (drop (unat (rest ! 1) * 8) rest)"
proof -
  have ok: "parse_loop False 0 rest ndopts_zero \<noteq> None" using assms(1) by (simp add: opts_ok_def)
  then show a: "2 \<le> length rest" using assms(2)
    by (subst (asm) parse_loop.simps) (auto split: if_splits)
  from ok show b: "unat (rest ! 1) * 8 \<noteq> 0" using assms(2)
    by (subst (asm) parse_loop.simps) (auto simp: Let_def split: if_splits)
  from ok show c: "unat (rest ! 1) * 8 \<le> length rest" using assms(2)
    by (subst (asm) parse_loop.simps) (auto simp: Let_def split: if_splits)
  from ok have "parse_loop False (0 + unat (rest ! 1) * 8) (drop (unat (rest ! 1) * 8) rest)
        (record_option False (rest ! 0) 0 ndopts_zero) \<noteq> None"
    using assms(2) a b c
    by (subst (asm) parse_loop.simps) (auto simp: Let_def split: if_splits)
  then show "opts_ok (drop (unat (rest ! 1) * 8) rest)"
    using opts_ok_iff by blast
qed

lemma ptrs_record_option: "x \<in> ptrs (record_option ri t p nd) \<Longrightarrow> x = p \<or> x \<in> ptrs nd"
  by (auto simp: ptrs_def record_option_def first_wins_def split: if_splits option.splits)

lemma parse_loop_ptrs:
  "parse_loop ri pos rest nd = Some nd' \<Longrightarrow> x \<in> ptrs nd' \<Longrightarrow>
   x \<in> ptrs nd \<or> (pos \<le> x \<and> x < pos + length rest \<and> opts_ok (drop (x - pos) rest))"
proof (induction ri pos rest nd rule: parse_loop.induct)
  case (1 ri pos rest ndopts)
  show ?case
  proof (cases "rest = []")
    case True
    with "1.prems" show ?thesis by (simp add: parse_loop.simps)
  next
    case False
    let ?l = "unat (rest ! 1) * 8"
    have ok: "opts_ok rest" using "1.prems"(1) opts_ok_iff[of rest ri pos ndopts] by simp
    note st = opts_ok_step[OF ok False]
    from "1.prems"(1) False st have rec:
      "parse_loop ri (pos + ?l) (drop ?l rest) (record_option ri (rest ! 0) pos ndopts) = Some nd'"
      by (subst (asm) parse_loop.simps) (auto simp: Let_def split: if_splits)
    from "1.IH"[OF _ _ refl _ rec "1.prems"(2)] False st
    consider "x \<in> ptrs (record_option ri (rest ! 0) pos ndopts)"
      | "pos + ?l \<le> x" "x < pos + ?l + length (drop ?l rest)" "opts_ok (drop (x - (pos + ?l)) (drop ?l rest))"
      by auto
    then show ?thesis
    proof cases
      case 1
      then have "x = pos \<or> x \<in> ptrs ndopts" by (rule ptrs_record_option)
      then show ?thesis using ok False by auto
    next
      case 2
      have "drop (x - (pos + ?l)) (drop ?l rest) = drop (x - pos) rest"
        using 2(1) by simp
      then show ?thesis using 2 st by auto
    qed
  qed
qed

lemma parse_options_ptrs:
  assumes "ndisc_parse_options ri opt (int (length opt)) = Some nd" and "x \<in> ptrs nd"
  shows "x < length opt \<and> opts_ok (drop x opt)"
proof -
  have "parse_loop ri 0 opt ndopts_zero = Some nd"
    using assms(1) by (simp add: ndisc_parse_options_def)
  from parse_loop_ptrs[OF this assms(2)] show ?thesis
    by (auto simp: ptrs_def ndopts_zero_def)
qed

lemma next_scan_ok:
  "opts_ok (drop cur buf) \<Longrightarrow> cur < e \<Longrightarrow> e < length buf \<Longrightarrow>
   \<exists>c. next_scan buf wanted e cur = Some c \<and> cur < c \<and> opts_ok (drop c buf)"
proof (induction buf wanted e cur rule: next_scan.induct)
  case (1 buf wanted e cur)
  let ?rest = "drop cur buf"
  have ne: "?rest \<noteq> []" using "1.prems" by simp
  note st = opts_ok_step[OF "1.prems"(1) ne]
  have rd: "u8_at buf (cur + 1) = ?rest ! 1"
    using st(1) by (auto simp: u8_at_def)
  let ?l = "unat (u8_at buf (cur + 1)) * 8"
  have l: "?l \<noteq> 0" "opts_ok (drop (cur + ?l) buf)"
    using st rd by (simp_all add: add.commute)
  show ?case
  proof (cases "cur + ?l < e \<and> \<not> wanted (u8_at buf (cur + ?l))")
    case True
    from "1.IH"[OF refl refl _ _ l(2)] True l(1) "1.prems"(3)
    obtain c where "next_scan buf wanted e (cur + ?l) = Some c" "cur + ?l < c" "opts_ok (drop c buf)"
      by auto
    then show ?thesis using True l(1)
      by (subst next_scan.simps) (auto simp: Let_def)
  next
    case False
    then show ?thesis using l
      by (subst next_scan.simps) (auto simp: Let_def)
  qed
qed

lemma nd_opt_loop_ok:
  "opts_ok (drop p buf) \<Longrightarrow> (\<forall>e. end_p = Some e \<longrightarrow> e < length buf) \<Longrightarrow>
   \<exists>ps. nd_opt_loop uo buf end_p p = Some ps"
proof (induction uo buf end_p p rule: nd_opt_loop.induct)
  case (1 uo buf end_p p)
  show ?case
  proof (cases end_p)
    case None
    then show ?thesis
      by (subst nd_opt_loop.simps) (simp add: ndisc_next_useropt_def ndisc_next_option_def)
  next
    case (Some e)
    show ?thesis
    proof (cases "p \<ge> e")
      case True
      then show ?thesis using Some
        by (subst nd_opt_loop.simps) (simp add: ndisc_next_useropt_def ndisc_next_option_def)
    next
      case False
      then have pe: "p < e" "e < length buf" using "1.prems"(2) Some by auto
      let ?wanted = "if uo then ndisc_is_useropt else (\<lambda>t. t = u8_at buf p)"
      from next_scan_ok[OF "1.prems"(1) pe, of ?wanted]
      obtain c where c: "next_scan buf ?wanted e p = Some c" "p < c" "opts_ok (drop c buf)"
        by auto
      let ?nx = "if uo then ndisc_next_useropt buf (Some p) end_p
                 else ndisc_next_option buf (Some p) end_p"
      have nx: "?nx = Some (if c \<le> e \<and> ?wanted (u8_at buf c) then Some c else None)"
        using c(1) pe Some
        by (auto simp: ndisc_next_useropt_def ndisc_next_option_def Let_def)
      show ?thesis
      proof (cases "c \<le> e \<and> ?wanted (u8_at buf c)")
        case True
        with nx have nx': "?nx = Some (Some c)" by simp
        have "\<exists>ps. nd_opt_loop uo buf end_p c = Some ps"
          using "1.IH"[OF nx' refl _ c(3) "1.prems"(2)] c(2) by simp
        then show ?thesis using nx' c(2)
          by (subst nd_opt_loop.simps) (auto simp del: ndisc_options.simps)
      next
        case False
        with nx have "?nx = Some None" by simp
        then show ?thesis by (subst nd_opt_loop.simps) simp
      qed
    qed
  qed
qed

lemma for_each_option_ok:
  assumes "ndisc_parse_options ri opt (int (length opt)) = Some nd"
    and "\<forall>x. first = Some x \<longrightarrow> x \<in> ptrs nd" and "\<forall>x. end_p = Some x \<longrightarrow> x \<in> ptrs nd"
  shows "\<exists>ps. for_each_option uo opt first end_p = Some ps"
proof (cases first)
  case None
  then show ?thesis by (simp add: for_each_option_def)
next
  case (Some p)
  then have "opts_ok (drop p opt)" using parse_options_ptrs[OF assms(1)] assms(2) by simp
  moreover have "\<forall>e. end_p = Some e \<longrightarrow> e < length opt"
    using parse_options_ptrs[OF assms(1)] assms(3) by simp
  ultimately show ?thesis using Some nd_opt_loop_ok by (simp add: for_each_option_def)
qed

section \<open>The receive entry point and the Neighbour Solicitation handler\<close>

text \<open>
  Claim C1. A packet delivered to \<open>ndisc_rcv\<close> whose IPv6 hop limit is not 255 or whose
  ICMPv6 code is not 0 is dropped before the dispatch on the message type: the handler
  returns, and the state (neighbour cache, proxy entries, default routers, interface
  configuration and the trace of notifications and other calls) is the one it was given.
\<close>

theorem ndisc_rcv_hop_limit_code_gate:
  assumes "hop_limit skb \<noteq> 255 \<or> icmp6_code skb \<noteq> 0"
  shows "ndisc_rcv E skb w = Some w"
  using assms by (auto simp: ndisc_rcv_def)

lemma parse_loop_src_lladdr_mono:
  "parse_loop ri pos rest nd = Some nd' \<Longrightarrow> nd_opts_src_lladdr nd \<noteq> None \<Longrightarrow>
   nd_opts_src_lladdr nd' \<noteq> None"
proof (induction ri pos rest nd rule: parse_loop.induct)
  case (1 ri pos rest ndopts)
  show ?case
  proof (cases "rest = []")
    case True
    with "1.prems" show ?thesis by (simp add: parse_loop.simps)
  next
    case False
    let ?l = "unat (rest ! 1) * 8"
    from "1.prems"(1) False have c: "\<not> length rest < 2" "\<not> (length rest < ?l \<or> ?l = 0)"
      and rec: "parse_loop ri (pos + ?l) (drop ?l rest) (record_option ri (rest ! 0) pos ndopts) = Some nd'"
      by (subst (asm) parse_loop.simps, auto simp: Let_def split: if_splits)+
    have "nd_opts_src_lladdr (record_option ri (rest ! 0) pos ndopts) \<noteq> None"
      using "1.prems"(2) by (auto simp: record_option_def first_wins_def split: option.splits)
    from "1.IH"[OF _ c(1) refl c(2) rec this] False show ?thesis by simp
  qed
qed

lemma parse_loop_src_lladdr:
  "parse_loop ri pos rest nd = Some nd' \<Longrightarrow> ND_OPT_SOURCE_LL_ADDR \<in> set (opt_types rest) \<Longrightarrow>
   nd_opts_src_lladdr nd' \<noteq> None"
proof (induction ri pos rest nd rule: parse_loop.induct)
  case (1 ri pos rest ndopts)
  show ?case
  proof (cases "rest = []")
    case True
    with "1.prems" show ?thesis by (simp add: opt_types.simps)
  next
    case False
    let ?l = "unat (rest ! 1) * 8"
    from "1.prems"(1) False have c: "\<not> length rest < 2" "\<not> (length rest < ?l \<or> ?l = 0)"
      and rec: "parse_loop ri (pos + ?l) (drop ?l rest) (record_option ri (rest ! 0) pos ndopts) = Some nd'"
      by (subst (asm) parse_loop.simps, auto simp: Let_def split: if_splits)+
    from "1.prems"(2) c have "rest ! 0 = ND_OPT_SOURCE_LL_ADDR
        \<or> ND_OPT_SOURCE_LL_ADDR \<in> set (opt_types (drop ?l rest))"
      by (subst (asm) opt_types.simps) (auto simp: Let_def split: if_splits)
    then show ?thesis
    proof
      assume "rest ! 0 = ND_OPT_SOURCE_LL_ADDR"
      then have "nd_opts_src_lladdr (record_option ri (rest ! 0) pos ndopts) \<noteq> None"
        by (auto simp: record_option_def first_wins_def split: option.splits)
      with rec show ?thesis by (rule parse_loop_src_lladdr_mono)
    next
      assume "ND_OPT_SOURCE_LL_ADDR \<in> set (opt_types (drop ?l rest))"
      from "1.IH"[OF _ c(1) refl c(2) rec this] False show ?thesis by simp
    qed
  qed
qed

text \<open>
  Claim C3. A Neighbour Solicitation whose source is the unspecified address, and whose
  destination is not a solicited-node multicast address or whose option area carries a
  source link-layer address option, is dropped by \<open>ndisc_recv_ns\<close>: the state is
  unchanged, so that nothing is updated and no reply is sent.
\<close>

theorem ndisc_recv_ns_bad_dad_dropped:
  assumes dad: "ipv6_addr_any (saddr skb)"
    and bad: "\<not> ipv6_addr_is_solict_mult (daddr skb)
              \<or> ND_OPT_SOURCE_LL_ADDR \<in> set (opt_types (drop 16 (body skb)))"
  shows "ndisc_recv_ns E skb w = w"
proof (cases "\<not> ipv6_addr_is_solict_mult (daddr skb)")
  case True
  with dad show ?thesis by (simp add: ndisc_recv_ns_def Let_def)
next
  case False
  with bad have sll: "ND_OPT_SOURCE_LL_ADDR \<in> set (opt_types (drop 16 (body skb)))" by simp
  show ?thesis
  proof (cases "skb_len skb < 24")
    case True
    then show ?thesis by (simp add: ndisc_recv_ns_def Let_def)
  next
    case False
    then have len: "nat (int (skb_len skb) - 24) = length (drop 16 (body skb))"
      by (simp add: skb_len_def)
    show ?thesis
    proof (cases "ndisc_parse_options (CONFIG_IPV6_ROUTE_INFO E) (drop 16 (body skb))
                    (int (skb_len skb) - 24)")
      case None
      then show ?thesis by (simp add: ndisc_recv_ns_def Let_def)
    next
      case (Some nd)
      then have "parse_loop (CONFIG_IPV6_ROUTE_INFO E) 0 (drop 16 (body skb)) ndopts_zero = Some nd"
        using len by (simp add: ndisc_parse_options_def split: if_splits)
      from parse_loop_src_lladdr[OF this sll] obtain p where "nd_opts_src_lladdr nd = Some p"
        by auto
      with Some dad show ?thesis
        by (simp add: ndisc_recv_ns_def Let_def split: option.splits)
    qed
  qed
qed

section \<open>The Router Advertisement handler\<close>

lemma log_fields [simp]:
  "idevs (log e w) = idevs w" "devconf_all (log e w) = devconf_all w"
  "nd_tbl (log e w) = nd_tbl w" "pneigh (log e w) = pneigh w"
  "dflt_routers (log e w) = dflt_routers w" "ndisc_sk (log e w) = ndisc_sk w"
  "jiffies (log e w) = jiffies w" "trace (log e w) = trace w @ [e]"
  by (simp_all add: log_def)

lemma idev_update_fields [simp]:
  "devconf_all (idev_update i f w) = devconf_all w"
  "nd_tbl (idev_update i f w) = nd_tbl w" "pneigh (idev_update i f w) = pneigh w"
  "dflt_routers (idev_update i f w) = dflt_routers w" "ndisc_sk (idev_update i f w) = ndisc_sk w"
  "jiffies (idev_update i f w) = jiffies w" "trace (idev_update i f w) = trace w"
  by (simp_all add: idev_update_def split: option.splits)

lemma idev_update_idevs:
  "idevs (idev_update i f w) j = (if j = i then map_option f (idevs w i) else idevs w j)"
  by (simp add: idev_update_def split: option.splits)

lemma rt_update_fields [simp]:
  "idevs (rt_update k f w) = idevs w" "devconf_all (rt_update k f w) = devconf_all w"
  "nd_tbl (rt_update k f w) = nd_tbl w" "pneigh (rt_update k f w) = pneigh w"
  "ndisc_sk (rt_update k f w) = ndisc_sk w"
  "jiffies (rt_update k f w) = jiffies w" "trace (rt_update k f w) = trace w"
  by (simp_all add: rt_update_def split: option.splits)

lemma rt_update_routers:
  "dflt_routers (rt_update k f w) j = (if j = k then map_option f (dflt_routers w k) else dflt_routers w j)"
  by (simp add: rt_update_def split: option.splits)

lemma neigh_update_fields [simp]:
  "idevs (neigh_update E k l s fl w) = idevs w" "devconf_all (neigh_update E k l s fl w) = devconf_all w"
  "pneigh (neigh_update E k l s fl w) = pneigh w"
  "dflt_routers (neigh_update E k l s fl w) = dflt_routers w"
  "ndisc_sk (neigh_update E k l s fl w) = ndisc_sk w"
  "jiffies (neigh_update E k l s fl w) = jiffies w"
  by (simp_all add: neigh_update_def split: option.splits)

lemma neigh_lookup_creat_fields [simp]:
  "idevs (snd (neigh_lookup_creat E k c w)) = idevs w"
  "devconf_all (snd (neigh_lookup_creat E k c w)) = devconf_all w"
  "pneigh (snd (neigh_lookup_creat E k c w)) = pneigh w"
  "dflt_routers (snd (neigh_lookup_creat E k c w)) = dflt_routers w"
  "ndisc_sk (snd (neigh_lookup_creat E k c w)) = ndisc_sk w"
  "jiffies (snd (neigh_lookup_creat E k c w)) = jiffies w"
  "trace (snd (neigh_lookup_creat E k c w)) = trace w"
  by (simp_all add: neigh_lookup_creat_def split: option.splits)

lemma neigh_lookup_creat_fieldsD:
  assumes "neigh_lookup_creat E k c w = (b, w')"
  shows "idevs w' = idevs w" "devconf_all w' = devconf_all w" "pneigh w' = pneigh w"
    "dflt_routers w' = dflt_routers w" "ndisc_sk w' = ndisc_sk w" "jiffies w' = jiffies w"
    "trace w' = trace w" "\<And>j. j \<noteq> k \<Longrightarrow> nd_tbl w' j = nd_tbl w j"
    "b \<longleftrightarrow> nd_tbl w' k \<noteq> None"
  using assms by (auto simp: neigh_lookup_creat_def split: option.splits if_splits)

lemma fold_view:
  assumes "\<And>x w. V (f x w) = V w"
  shows "V (fold f xs w) = V w"
  using assms by (induction xs arbitrary: w) simp_all

lemma rt_core_cong: "dflt_routers w' = dflt_routers w \<Longrightarrow> rt_core w' = rt_core w"
  by (simp add: rt_core_def fun_eq_iff)

lemma defrtr_cfg_cong: "idevs w' = idevs w \<Longrightarrow> defrtr_cfg w' = defrtr_cfg w"
  by (simp add: defrtr_cfg_def fun_eq_iff)

lemma defrtr_cfg_idev_update:
  assumes "\<And>d. accept_ra_defrtr (cnf (f d)) = accept_ra_defrtr (cnf d)"
  shows "defrtr_cfg (idev_update i f w) = defrtr_cfg w"
  using assms by (auto simp: defrtr_cfg_def idev_update_idevs fun_eq_iff option.map_comp comp_def)

lemma rt_core_rt_update:
  assumes "\<And>r. rt_pref (f r) = rt_pref r" and "\<And>r. rt_expires (f r) = rt_expires r"
  shows "rt_core (rt_update k f w) = rt_core w"
  using assms by (auto simp: rt_core_def rt_update_routers fun_eq_iff option.map_comp comp_def)

lemma views_log [simp]: "rt_core (log e w) = rt_core w" "defrtr_cfg (log e w) = defrtr_cfg w"
  by (simp_all add: rt_core_def defrtr_cfg_def fun_eq_iff)

lemma views_idev_update [simp]: "rt_core (idev_update i f w) = rt_core w"
  by (simp add: rt_core_def fun_eq_iff)

lemma views_rt_update [simp]: "defrtr_cfg (rt_update k f w) = defrtr_cfg w"
  by (simp add: defrtr_cfg_def fun_eq_iff)

lemma ra_linkparms_routers [simp]: "dflt_routers (ra_linkparms E skb w) = dflt_routers w"
  by (simp add: ra_linkparms_def Let_def split: option.splits)

lemma ra_linkparms_defrtr_cfg [simp]: "defrtr_cfg (ra_linkparms E skb w) = defrtr_cfg w"
  by (simp add: ra_linkparms_def Let_def defrtr_cfg_idev_update split: option.splits)

lemma ra_neigh_frame:
  assumes "ra_neigh E skb opt nd neigh w = (b, w')"
  shows "idevs w' = idevs w" "devconf_all w' = devconf_all w" "pneigh w' = pneigh w"
    "dflt_routers w' = dflt_routers w" "ndisc_sk w' = ndisc_sk w" "jiffies w' = jiffies w"
  using assms
  by (auto simp: ra_neigh_def Let_def split: prod.splits if_splits option.splits
      dest: neigh_lookup_creat_fieldsD)


lemma ra_route_info_frame [simp]:
  "idevs (ra_route_info E skb opt d p w) = idevs w"
  "dflt_routers (ra_route_info E skb opt d p w) = dflt_routers w"
  by (simp_all add: ra_route_info_def Let_def)

lemma ra_mtu_frame [simp]:
  "rt_core (ra_mtu skb opt p rt w) = rt_core w"
  "defrtr_cfg (ra_mtu skb opt p rt w) = defrtr_cfg w"
  "\<not> rt \<Longrightarrow> dflt_routers (ra_mtu skb opt p rt w) = dflt_routers w"
  by (simp_all add: ra_mtu_def Let_def rt_core_rt_update defrtr_cfg_idev_update
      split: option.splits)

lemma ra_info_flags_frame [simp]:
  "dflt_routers (ra_info_flags i w) = dflt_routers w"
  "defrtr_cfg (ra_info_flags i w) = defrtr_cfg w"
  by (simp_all add: ra_info_flags_def Let_def defrtr_cfg_idev_update)

lemma ra_useropt_frame [simp]:
  "dflt_routers (ra_useropt E skb opt p w) = dflt_routers w"
  "defrtr_cfg (ra_useropt E skb opt p w) = defrtr_cfg w"
  by (simp_all add: ra_useropt_def ndisc_ra_useropt_def Let_def defrtr_cfg_idev_update)

lemma fold_ra_route_info [simp]:
  "idevs (fold (ra_route_info E skb opt d) ps w) = idevs w"
  "dflt_routers (fold (ra_route_info E skb opt d) ps w) = dflt_routers w"
  by (rule fold_view, simp)+

lemma fold_log [simp]:
  "idevs (fold (\<lambda>p. log (ev p)) ps w) = idevs w"
  "dflt_routers (fold (\<lambda>p. log (ev p)) ps w) = dflt_routers w"
  by (rule fold_view, simp)+

lemma fold_ra_useropt [simp]:
  "dflt_routers (fold (ra_useropt E skb opt) ps w) = dflt_routers w"
  "defrtr_cfg (fold (ra_useropt E skb opt) ps w) = defrtr_cfg w"
  by (rule fold_view, simp)+

lemma views_fold [simp]:
  "rt_core (fold (ra_route_info E skb opt d) ps w) = rt_core w"
  "defrtr_cfg (fold (ra_route_info E skb opt d) ps w) = defrtr_cfg w"
  "rt_core (fold (\<lambda>p. log (ev p)) ps w) = rt_core w"
  "defrtr_cfg (fold (\<lambda>p. log (ev p)) ps w) = defrtr_cfg w"
  "rt_core (fold (ra_useropt E skb opt) ps w) = rt_core w"
  "rt_core (ra_info_flags i w) = rt_core w"
  by (simp_all add: rt_core_def defrtr_cfg_def fun_eq_iff)

lemma ra_options_frame:
  assumes "ra_options E skb opt nd rt w = Some w'"
  shows "rt_core w' = rt_core w" and "defrtr_cfg w' = defrtr_cfg w"
    and "\<not> rt \<Longrightarrow> dflt_routers w' = dflt_routers w"
  using assms
  by (auto simp: ra_options_def Let_def split: option.splits if_splits)


lemma ptrs_fields:
  "nd_opts_ri nd = Some x \<Longrightarrow> x \<in> ptrs nd" "nd_opts_ri_end nd = Some x \<Longrightarrow> x \<in> ptrs nd"
  "nd_opts_pi nd = Some x \<Longrightarrow> x \<in> ptrs nd" "nd_opts_pi_end nd = Some x \<Longrightarrow> x \<in> ptrs nd"
  "nd_useropts nd = Some x \<Longrightarrow> x \<in> ptrs nd" "nd_useropts_end nd = Some x \<Longrightarrow> x \<in> ptrs nd"
  by (simp_all add: ptrs_def)

lemma ra_options_returns:
  assumes parse: "ndisc_parse_options ri opt (int (length opt)) = Some nd"
  shows "\<exists>w'. ra_options E skb opt nd rt w = Some w'"
proof -
  obtain ris where ris: "for_each_option False opt (nd_opts_ri nd) (nd_opts_ri_end nd) = Some ris"
    using for_each_option_ok[OF parse, of "nd_opts_ri nd" "nd_opts_ri_end nd" False]
    by (auto simp: ptrs_fields)
  obtain pis where pis: "for_each_option False opt (nd_opts_pi nd) (nd_opts_pi_end nd) = Some pis"
    using for_each_option_ok[OF parse, of "nd_opts_pi nd" "nd_opts_pi_end nd" False]
    by (auto simp: ptrs_fields)
  obtain us where us: "for_each_option True opt (nd_useropts nd) (nd_useropts_end nd) = Some us"
    using for_each_option_ok[OF parse, of "nd_useropts nd" "nd_useropts_end nd" True]
    by (auto simp: ptrs_fields)
  show ?thesis
    by (simp add: ra_options_def Let_def ris pis us split: option.splits)
qed

lemma ra_skip_linkparms_returns:
  assumes parse: "ndisc_parse_options ri opt (int (length opt)) = Some nd"
  shows "\<exists>w'. ra_skip_linkparms E skb opt nd rt neigh w = Some w'
           \<and> rt_core w' = rt_core w \<and> defrtr_cfg w' = defrtr_cfg w
           \<and> (\<not> rt \<longrightarrow> dflt_routers w' = dflt_routers w)"
proof -
  obtain b w1 where n: "ra_neigh E skb opt nd neigh w = (b, w1)" by (cases "ra_neigh E skb opt nd neigh w")
  note fr = ra_neigh_frame[OF n]
  have v: "rt_core w1 = rt_core w" "defrtr_cfg w1 = defrtr_cfg w"
    using fr by (simp_all add: rt_core_def defrtr_cfg_def fun_eq_iff)
  show ?thesis
  proof (cases b)
    case False
    then show ?thesis using n v fr by (simp add: ra_skip_linkparms_def)
  next
    case True
    obtain w' where w': "ra_options E skb opt nd rt w1 = Some w'"
      using ra_options_returns[OF parse] by blast
    from ra_options_frame[OF w'] v fr(4) True n w' show ?thesis
      by (simp add: ra_skip_linkparms_def)
  qed
qed

lemma neigh_lookup_creat_ok:
  assumes "nd_tbl w k \<noteq> None \<or> neigh_create E k \<noteq> None"
  shows "\<exists>w'. neigh_lookup_creat E k True w = (True, w')"
  using assms by (auto simp: neigh_lookup_creat_def split: option.splits)

lemma ra_defrtr_off: "accept_ra_defrtr (cnf d) = 0 \<Longrightarrow> ra_defrtr E skb d w = Inr (False, False, w)"
  by (simp add: ra_defrtr_def Let_def)

lemma neigh_set_router_fields [simp]:
  "idevs (neigh_set_router k w) = idevs w" "dflt_routers (neigh_set_router k w) = dflt_routers w"
  "jiffies (neigh_set_router k w) = jiffies w" "trace (neigh_set_router k w) = trace w"
  by (simp_all add: neigh_set_router_def split: option.splits)

lemma ip6_del_rt_fields [simp]:
  "idevs (ip6_del_rt k w) = idevs w" "nd_tbl (ip6_del_rt k w) = nd_tbl w"
  "jiffies (ip6_del_rt k w) = jiffies w" "trace (ip6_del_rt k w) = trace w"
  "dflt_routers (ip6_del_rt k w) = (dflt_routers w)(k := None)"
  by (simp_all add: ip6_del_rt_def)

lemma rt6_add_dflt_router_fields:
  assumes "rt6_add_dflt_router E a dev pref w = Some w'"
  shows "idevs w' = idevs w" "nd_tbl w' = nd_tbl w" "jiffies w' = jiffies w" "trace w' = trace w"
    "dflt_routers w' = (dflt_routers w)(dev_key a dev \<mapsto>
        \<lparr>rt_pref = pref, rt_expires = None, rt_hoplimit = None, rt_mtu = None\<rparr>)"
  using assms by (auto simp: rt6_add_dflt_router_def split: if_splits)

lemma ra_defrtr_defrtr_cfg:
  "ra_defrtr E skb d w = Inl w' \<Longrightarrow> defrtr_cfg w' = defrtr_cfg w"
  "ra_defrtr E skb d w = Inr (rt, neigh, w') \<Longrightarrow> defrtr_cfg w' = defrtr_cfg w"
  by (auto simp: ra_defrtr_def Let_def defrtr_cfg_idev_update defrtr_cfg_def
      split: prod.splits if_splits option.splits sum.splits bool.splits
      dest!: neigh_lookup_creat_fieldsD(1) rt6_add_dflt_router_fields(1))

lemma ra_defrtr_result:
  assumes on: "accept_ra_defrtr (cnf d) \<noteq> 0"
    and notlocal: "\<not> ipv6_chk_addr E (saddr skb) None"
    and neigh: "nd_tbl w k \<noteq> None \<or> neigh_create E k \<noteq> None"
    and add: "rt6_add_dflt_router_ok E"
    and k: "k = dev_key (saddr skb) (skb_dev skb)"
  shows "\<exists>rt neigh w'. ra_defrtr E skb d w = Inr (rt, neigh, w') \<and>
           (if uint (icmp6_rt_lifetime skb) = 0 then \<not> rt \<and> dflt_routers w' k = None
            else rt \<and> rt_core w' k = Some (ra_pref E skb d,
                        Some ((jiffies w + HZ E * nat (uint (icmp6_rt_lifetime skb)))
                              mod 2 ^ BITS_PER_LONG E)))"
proof -
  let ?lt = "uint (icmp6_rt_lifetime skb)"
  obtain w1 where w1: "neigh_lookup_creat E k True w = (True, w1)"
    using neigh_lookup_creat_ok[OF neigh] by blast
  note f1 = neigh_lookup_creat_fieldsD[OF w1]
  show ?thesis
  proof (cases "dflt_routers w k")
    case None
    show ?thesis
    proof (cases "?lt = 0")
      case True
      then show ?thesis using on notlocal None k
        by (auto simp: ra_defrtr_def Let_def rt6_get_dflt_router_def)
    next
      case False
      let ?w2 = "w\<lparr>dflt_routers := (dflt_routers w)(k \<mapsto>
             \<lparr>rt_pref = ra_pref E skb d, rt_expires = None, rt_hoplimit = None, rt_mtu = None\<rparr>)\<rparr>"
      have a: "rt6_add_dflt_router E (saddr skb) (skb_dev skb) (ra_pref E skb d) w = Some ?w2"
        using add k by (simp add: rt6_add_dflt_router_def)
      have "nd_tbl ?w2 k \<noteq> None \<or> neigh_create E k \<noteq> None" using neigh by simp
      then obtain w3 where w3: "neigh_lookup_creat E k True ?w2 = (True, w3)"
        using neigh_lookup_creat_ok by blast
      note f3 = neigh_lookup_creat_fieldsD[OF w3]
      show ?thesis using on notlocal None False a w3 f3(4,6) k[symmetric]
        by (auto simp: ra_defrtr_def Let_def rt6_get_dflt_router_def rt_core_def
            rt_update_routers rt_update_def)
    qed
  next
    case (Some r)
    show ?thesis
    proof (cases "?lt = 0")
      case True
      then show ?thesis using on notlocal Some w1 f1(4) k[symmetric]
        by (auto simp: ra_defrtr_def Let_def rt6_get_dflt_router_def)
    next
      case False
      then show ?thesis using on notlocal Some w1 f1(4,6) k[symmetric]
        by (auto simp: ra_defrtr_def Let_def rt6_get_dflt_router_def rt_core_def
            rt_update_routers rt_update_def)
    qed
  qed
qed

lemma rd_not_valid:
  "\<not> ra_passes_validation E skb w \<Longrightarrow> ndisc_router_discovery E skb w = Some w"
  by (auto simp: ra_passes_validation_def ndisc_router_discovery_def Let_def skb_len_def
      split: option.splits)

lemma rd_valid_parse:
  assumes "ra_passes_validation E skb w"
  obtains d nd where "idevs w (ifindex (skb_dev skb)) = Some d"
    and "ndisc_parse_options (CONFIG_IPV6_ROUTE_INFO E) (drop 8 (body skb))
           (int (length (drop 8 (body skb)))) = Some nd"
    and "ndisc_router_discovery E skb w =
           (if \<not> ipv6_accept_ra E d
               \<or> (CONFIG_IPV6_NDISC_NODETYPE E \<and> ndisc_nodetype skb = NDISC_NODETYPE_NODEFAULT)
            then ra_skip_linkparms E skb (drop 8 (body skb)) nd False False w
            else
              (case ra_defrtr E skb (ra_ccmni (skb_dev skb) (ra_if_flags skb d))
                      (w\<lparr>idevs := (idevs w)(ifindex (skb_dev skb) \<mapsto>
                                       ra_ccmni (skb_dev skb) (ra_if_flags skb d))\<rparr>) of
                 Inl w \<Rightarrow> Some w
               | Inr (rt, neigh, w) \<Rightarrow>
                   ra_skip_linkparms E skb (drop 8 (body skb)) nd rt neigh (ra_linkparms E skb w)))"
proof -
  from assms obtain d nd where d: "idevs w (ifindex (skb_dev skb)) = Some d"
    and nd: "ndisc_parse_options (CONFIG_IPV6_ROUTE_INFO E) (drop 8 (body skb))
           (int (length (body skb)) - 8) = Some nd"
    and rest: "ipv6_addr_linklocal (saddr skb)" "8 \<le> length (body skb)"
      "\<not> (CONFIG_IPV6_NDISC_NODETYPE E \<and> ndisc_nodetype skb = NDISC_NODETYPE_HOST)"
    by (auto simp: ra_passes_validation_def)
  have l: "int (length (body skb)) - 8 = int (length (drop 8 (body skb)))"
    using rest(2) by simp
  have l2: "int (skb_len skb) - 16 = int (length (body skb)) - 8"
    by (simp add: skb_len_def)
  show ?thesis
    apply (rule that[OF d nd[unfolded l]])
    using rest d nd
    apply (simp add: ndisc_router_discovery_def Let_def l2 del: length_drop)
    apply (auto simp del: length_drop)
    done
qed

lemma defrtr_cfg_upd:
  "defrtr_cfg (w\<lparr>idevs := (idevs w)(i \<mapsto> d')\<rparr>) j =
     (if j = i then Some (accept_ra_defrtr (cnf d')) else defrtr_cfg w j)"
  by (simp add: defrtr_cfg_def)

lemma ra_ccmni_cnf:
  "accept_ra_defrtr (cnf (ra_ccmni dev (ra_if_flags skb d))) =
     (if take 2 (dev_name dev) = ''cc'' then 0 else accept_ra_defrtr (cnf d))"
  by (simp add: ra_ccmni_def ra_if_flags_def Let_def)

lemma rd_total:
  "\<exists>w'. ndisc_router_discovery E skb w = Some w'
     \<and> (\<forall>j. defrtr_cfg w' j = defrtr_cfg w j
            \<or> (j = ifindex (skb_dev skb) \<and> take 2 (dev_name (skb_dev skb)) = ''cc''
                \<and> defrtr_cfg w' j = Some 0))
     \<and> (take 2 (dev_name (skb_dev skb)) = ''cc'' \<longrightarrow> dflt_routers w' = dflt_routers w
          \<and> (ra_accepted E skb w \<longrightarrow> defrtr_cfg w' (ifindex (skb_dev skb)) = Some 0))"
proof (cases "ra_passes_validation E skb w")
  case False
  then show ?thesis using rd_not_valid[OF False] by (auto simp: ra_accepted_def)
next
  case True
  let ?i = "ifindex (skb_dev skb)" and ?opt = "drop 8 (body skb)"
  from True obtain d nd where d: "idevs w ?i = Some d"
    and nd: "ndisc_parse_options (CONFIG_IPV6_ROUTE_INFO E) ?opt (int (length ?opt)) = Some nd"
    and rd: "ndisc_router_discovery E skb w =
           (if \<not> ipv6_accept_ra E d
               \<or> (CONFIG_IPV6_NDISC_NODETYPE E \<and> ndisc_nodetype skb = NDISC_NODETYPE_NODEFAULT)
            then ra_skip_linkparms E skb ?opt nd False False w
            else
              (case ra_defrtr E skb (ra_ccmni (skb_dev skb) (ra_if_flags skb d))
                      (w\<lparr>idevs := (idevs w)(?i \<mapsto> ra_ccmni (skb_dev skb) (ra_if_flags skb d))\<rparr>) of
                 Inl w \<Rightarrow> Some w
               | Inr (rt, neigh, w) \<Rightarrow>
                   ra_skip_linkparms E skb ?opt nd rt neigh (ra_linkparms E skb w)))"
    by (rule rd_valid_parse)
  show ?thesis
  proof (cases "\<not> ipv6_accept_ra E d
               \<or> (CONFIG_IPV6_NDISC_NODETYPE E \<and> ndisc_nodetype skb = NDISC_NODETYPE_NODEFAULT)")
    case True
    from ra_skip_linkparms_returns[OF nd, of E skb False False w] obtain w' where
      "ra_skip_linkparms E skb ?opt nd False False w = Some w'"
      "defrtr_cfg w' = defrtr_cfg w" "dflt_routers w' = dflt_routers w" by auto
    then show ?thesis using rd True d by (auto simp: ra_accepted_def)
  next
    case False
    let ?d' = "ra_ccmni (skb_dev skb) (ra_if_flags skb d)"
    let ?w0 = "w\<lparr>idevs := (idevs w)(?i \<mapsto> ?d')\<rparr>"
    have cfg0: "\<And>j. defrtr_cfg ?w0 j =
        (if j = ?i then Some (if take 2 (dev_name (skb_dev skb)) = ''cc'' then 0
                               else accept_ra_defrtr (cnf d)) else defrtr_cfg w j)"
      by (simp add: defrtr_cfg_upd ra_ccmni_cnf)
    have cfgw: "defrtr_cfg w ?i = Some (accept_ra_defrtr (cnf d))"
      using d by (simp add: defrtr_cfg_def)
    have rt0: "dflt_routers ?w0 = dflt_routers w" by simp
    have acc: "ra_accepted E skb w" using True False d by (simp add: ra_accepted_def)
    show ?thesis
    proof (cases "ra_defrtr E skb ?d' ?w0")
      case (Inl w1)
      have "defrtr_cfg w1 = defrtr_cfg ?w0" using ra_defrtr_defrtr_cfg(1)[OF Inl] .
      moreover have "take 2 (dev_name (skb_dev skb)) \<noteq> ''cc''"
        using Inl ra_defrtr_off[of ?d' E skb ?w0] by (auto simp: ra_ccmni_cnf)
      ultimately show ?thesis using rd False Inl cfg0 cfgw by auto
    next
      case (Inr x)
      then obtain rt neigh w1 where x: "ra_defrtr E skb ?d' ?w0 = Inr (rt, neigh, w1)"
        by (cases x) auto
      have c1: "defrtr_cfg w1 = defrtr_cfg ?w0" using ra_defrtr_defrtr_cfg(2)[OF x] .
      have cc: "take 2 (dev_name (skb_dev skb)) = ''cc'' \<Longrightarrow> \<not> rt \<and> dflt_routers w1 = dflt_routers w"
        using x ra_defrtr_off[of ?d' E skb ?w0] by (auto simp: ra_ccmni_cnf)
      from ra_skip_linkparms_returns[OF nd, of E skb rt neigh "ra_linkparms E skb w1"]
      obtain w' where w': "ra_skip_linkparms E skb ?opt nd rt neigh (ra_linkparms E skb w1) = Some w'"
        "defrtr_cfg w' = defrtr_cfg w1" "\<not> rt \<Longrightarrow> dflt_routers w' = dflt_routers w1"
        by auto
      have "ndisc_router_discovery E skb w = Some w'" using rd False x w'(1) by auto
      moreover have "\<forall>j. defrtr_cfg w' j = defrtr_cfg w j
            \<or> (j = ?i \<and> take 2 (dev_name (skb_dev skb)) = ''cc'' \<and> defrtr_cfg w' j = Some 0)"
        using w'(2) c1 cfg0 cfgw by auto
      moreover have "take 2 (dev_name (skb_dev skb)) = ''cc'' \<longrightarrow> dflt_routers w' = dflt_routers w
          \<and> (ra_accepted E skb w \<longrightarrow> defrtr_cfg w' ?i = Some 0)"
        using w'(2,3) c1 cfg0 cc by auto
      ultimately show ?thesis by blast
    qed
  qed
qed

text \<open>
  Claim C10, as the code has it. On an interface whose name begins with the two
  characters \<open>cc\<close>, the Router Advertisement handler returns with the default routers
  unchanged, so its default-router processing installs no route; when the advertisement
  is accepted (it passes validation and the interface accepts Router Advertisements, so
  that default-router processing is reached), \<open>accept_ra_defrtr\<close> of the interface is 0
  afterwards; and once it is 0 it is still 0 after any later Router Advertisement, on any
  interface and under any configuration. (Route Information options are handed to
  \<open>rt6_route_rcv\<close>, whose code is not in \<open>ndisc.c\<close>; the call is recorded in the trace.)
\<close>

theorem ndisc_router_discovery_ccmni:
  assumes cc: "take 2 (dev_name (skb_dev skb)) = ''cc''"
  shows "\<exists>w'. ndisc_router_discovery E skb w = Some w'
           \<and> dflt_routers w' = dflt_routers w
           \<and> (ra_accepted E skb w \<longrightarrow> defrtr_cfg w' (ifindex (skb_dev skb)) = Some 0)
           \<and> (\<forall>E2 skb2. \<exists>w''. ndisc_router_discovery E2 skb2 w' = Some w''
                 \<and> (defrtr_cfg w' (ifindex (skb_dev skb)) = Some 0
                      \<longrightarrow> defrtr_cfg w'' (ifindex (skb_dev skb)) = Some 0))"
proof -
  from rd_total[of E skb w] cc obtain w' where
    w': "ndisc_router_discovery E skb w = Some w'" "dflt_routers w' = dflt_routers w"
      "ra_accepted E skb w \<longrightarrow> defrtr_cfg w' (ifindex (skb_dev skb)) = Some 0"
    by auto
  have "\<exists>w''. ndisc_router_discovery E2 skb2 w' = Some w''
          \<and> (defrtr_cfg w' (ifindex (skb_dev skb)) = Some 0
                \<longrightarrow> defrtr_cfg w'' (ifindex (skb_dev skb)) = Some 0)" for E2 skb2
    using rd_total[of E2 skb2 w'] by (metis (no_types, lifting))
  with w' show ?thesis by blast
qed

text \<open>
  Claim C5. For an accepted Router Advertisement on an interface with default-router
  processing enabled, from a source that is not a local address (the build having router
  preferences, the sender's neighbour entry and a new route being obtainable): an entry
  of the default routers under (source, interface) is removed when the advertised
  lifetime is 0; when there is none and the lifetime is positive, one is added; when
  there is one and the lifetime is positive, it is refreshed. In both cases the entry
  has the advertised preference, with MEDIUM for the reserved value or when
  \<open>accept_ra_rtr_pref\<close> is off, and expires \<open>lifetime\<close> seconds from now, that is
  at \<open>jiffies + HZ * lifetime\<close> in the \<open>unsigned long\<close> arithmetic of the clock.
\<close>

theorem ndisc_router_discovery_default_router:
  assumes acc: "ra_accepted E skb w"
    and d: "idevs w (ifindex (skb_dev skb)) = Some d"
    and on: "accept_ra_defrtr (cnf d) \<noteq> 0"
    and notcc: "take 2 (dev_name (skb_dev skb)) \<noteq> ''cc''"
    and notlocal: "\<not> ipv6_chk_addr E (saddr skb) None"
    and pref_cfg: "CONFIG_IPV6_ROUTER_PREF E"
    and neigh: "nd_tbl w k \<noteq> None \<or> neigh_create E k \<noteq> None"
    and add: "rt6_add_dflt_router_ok E"
    and k: "k = dev_key (saddr skb) (skb_dev skb)"
    and lt: "lifetime = unat (icmp6_rt_lifetime skb)"
    and pref: "pref = (if icmp6_router_pref skb = ICMPV6_ROUTER_PREF_INVALID
                          \<or> accept_ra_rtr_pref (cnf d) = 0
                       then ICMPV6_ROUTER_PREF_MEDIUM else icmp6_router_pref skb)"
  shows "\<exists>w'. ndisc_router_discovery E skb w = Some w'
           \<and> (dflt_routers w k \<noteq> None \<and> lifetime = 0 \<longrightarrow> dflt_routers w' k = None)
           \<and> (dflt_routers w k = None \<and> 0 < lifetime \<longrightarrow>
                (\<exists>r. dflt_routers w' k = Some r \<and> rt_pref r = pref
                      \<and> rt_expires r = Some ((jiffies w + HZ E * lifetime) mod 2 ^ BITS_PER_LONG E)))
           \<and> (dflt_routers w k \<noteq> None \<and> 0 < lifetime \<longrightarrow>
                (\<exists>r. dflt_routers w' k = Some r \<and> rt_pref r = pref
                      \<and> rt_expires r = Some ((jiffies w + HZ E * lifetime) mod 2 ^ BITS_PER_LONG E)))"
proof -
  let ?i = "ifindex (skb_dev skb)" and ?opt = "drop 8 (body skb)"
  let ?d' = "ra_ccmni (skb_dev skb) (ra_if_flags skb d)"
  let ?w0 = "w\<lparr>idevs := (idevs w)(?i \<mapsto> ?d')\<rparr>"
  from acc have val: "ra_passes_validation E skb w" by (simp add: ra_accepted_def)
  from val obtain d0 nd where d0: "idevs w ?i = Some d0"
    and nd: "ndisc_parse_options (CONFIG_IPV6_ROUTE_INFO E) ?opt (int (length ?opt)) = Some nd"
    and rd: "ndisc_router_discovery E skb w =
           (if \<not> ipv6_accept_ra E d0
               \<or> (CONFIG_IPV6_NDISC_NODETYPE E \<and> ndisc_nodetype skb = NDISC_NODETYPE_NODEFAULT)
            then ra_skip_linkparms E skb ?opt nd False False w
            else
              (case ra_defrtr E skb (ra_ccmni (skb_dev skb) (ra_if_flags skb d0))
                      (w\<lparr>idevs := (idevs w)(?i \<mapsto> ra_ccmni (skb_dev skb) (ra_if_flags skb d0))\<rparr>) of
                 Inl w \<Rightarrow> Some w
               | Inr (rt, neigh, w) \<Rightarrow>
                   ra_skip_linkparms E skb ?opt nd rt neigh (ra_linkparms E skb w)))"
    by (rule rd_valid_parse)
  from d d0 have dd: "d0 = d" by simp
  have gate: "\<not> (\<not> ipv6_accept_ra E d
               \<or> (CONFIG_IPV6_NDISC_NODETYPE E \<and> ndisc_nodetype skb = NDISC_NODETYPE_NODEFAULT))"
    using acc d by (simp add: ra_accepted_def)
  have cnf': "cnf ?d' = cnf d" using notcc by (simp add: ra_ccmni_def ra_if_flags_def Let_def)
  have on': "accept_ra_defrtr (cnf ?d') \<noteq> 0" using on cnf' by simp
  have neigh': "nd_tbl ?w0 k \<noteq> None \<or> neigh_create E k \<noteq> None" using neigh by simp
  have pref': "ra_pref E skb ?d' = pref"
    using pref_cfg pref cnf' by (simp add: ra_pref_def Let_def)
  from ra_defrtr_result[OF on' notlocal neigh' add k]
  obtain rt ng w1 where r1: "ra_defrtr E skb ?d' ?w0 = Inr (rt, ng, w1)"
    and c1: "if uint (icmp6_rt_lifetime skb) = 0 then \<not> rt \<and> dflt_routers w1 k = None
             else rt \<and> rt_core w1 k = Some (pref,
                        Some ((jiffies w + HZ E * nat (uint (icmp6_rt_lifetime skb)))
                              mod 2 ^ BITS_PER_LONG E))"
    unfolding pref' by auto
  from ra_skip_linkparms_returns[OF nd, of E skb rt ng "ra_linkparms E skb w1"]
  obtain w' where w': "ra_skip_linkparms E skb ?opt nd rt ng (ra_linkparms E skb w1) = Some w'"
    and core: "rt_core w' = rt_core (ra_linkparms E skb w1)"
    by auto
  have core1: "rt_core w' k = rt_core w1 k"
    using core by (simp add: rt_core_def)
  have res: "ndisc_router_discovery E skb w = Some w'"
    using rd gate r1 w' dd by auto
  have lt0: "lifetime = 0 \<longleftrightarrow> uint (icmp6_rt_lifetime skb) = 0"
    using lt by (simp add: unsigned_eq_0_iff)
  have ltn: "nat (uint (icmp6_rt_lifetime skb)) = lifetime" using lt by simp
  have z: "lifetime = 0 \<Longrightarrow> dflt_routers w' k = None"
    using c1 core1 lt0 by (simp add: rt_core_def)
  have p: "0 < lifetime \<Longrightarrow> \<exists>r. dflt_routers w' k = Some r \<and> rt_pref r = pref
                      \<and> rt_expires r = Some ((jiffies w + HZ E * lifetime) mod 2 ^ BITS_PER_LONG E)"
    using c1 core1 lt0 ltn by (auto simp: rt_core_def)
  show ?thesis using res z p by blast
qed

lemma neigh_update_other:
  "j \<noteq> k \<Longrightarrow> nd_tbl (neigh_update E k l s fl w) j = nd_tbl w j"
  by (simp add: neigh_update_def split: option.splits)

lemma neigh_update_trace:
  "trace (neigh_update E k l s fl w) = trace w
   \<or> trace (neigh_update E k l s fl w) = trace w @ [Neigh_update k l s fl]"
  by (simp add: neigh_update_def split: option.splits)

lemma ra_neigh_effect:
  assumes "ra_neigh E skb opt nd neigh w = (b, w')"
  shows "\<forall>j. j \<noteq> dev_key (saddr skb) (skb_dev skb) \<longrightarrow> nd_tbl w' j = nd_tbl w j"
    and "trace w' = trace w
         \<or> (\<exists>l. trace w' = trace w @ [Neigh_update (dev_key (saddr skb) (skb_dev skb)) l
                                        NUD_STALE RA_NEIGH_FLAGS])"
proof -
  let ?k = "dev_key (saddr skb) (skb_dev skb)"
  obtain n w1 where n: "(if \<not> neigh then neigh_lookup_creat E ?k True w else (True, w)) = (n, w1)"
    by (cases "if \<not> neigh then neigh_lookup_creat E ?k True w else (True, w)")
  have f: "trace w1 = trace w" "\<And>j. j \<noteq> ?k \<Longrightarrow> nd_tbl w1 j = nd_tbl w j"
    using n by (auto split: if_splits dest: neigh_lookup_creat_fieldsD)
  from assms n have w': "w' = w1 \<or> (\<exists>l. w' = neigh_update E ?k l NUD_STALE RA_NEIGH_FLAGS w1)"
    by (auto simp: ra_neigh_def Let_def RA_NEIGH_FLAGS_def split: if_splits option.splits)
  then show "\<forall>j. j \<noteq> ?k \<longrightarrow> nd_tbl w' j = nd_tbl w j"
    using f(2) by (auto simp: neigh_update_other)
  from w' show "trace w' = trace w
         \<or> (\<exists>l. trace w' = trace w @ [Neigh_update ?k l NUD_STALE RA_NEIGH_FLAGS])"
    using f(1) neigh_update_trace[of E ?k _ NUD_STALE RA_NEIGH_FLAGS w1] by metis
qed

text \<open>
  Claim C4, as the code has it. A Router Advertisement whose source is not link-local
  changes nothing. One received on an interface that does not accept Router
  Advertisements changes no interface parameter, no default router, no proxy entry and
  sends no notification; the only thing that may change is the neighbour cache entry of
  the sender, which is looked up or created and updated to STALE, with the single
  \<open>neigh_update\<close> call this takes.
\<close>

theorem ndisc_router_discovery_not_accepted:
  "(\<not> ipv6_addr_linklocal (saddr skb) \<longrightarrow> ndisc_router_discovery E skb w = Some w)
   \<and> ((case idevs w (ifindex (skb_dev skb)) of None \<Rightarrow> True | Some d \<Rightarrow> \<not> ipv6_accept_ra E d) \<longrightarrow>
        (\<exists>w'. ndisc_router_discovery E skb w = Some w'
           \<and> idevs w' = idevs w \<and> devconf_all w' = devconf_all w \<and> pneigh w' = pneigh w
           \<and> dflt_routers w' = dflt_routers w \<and> ndisc_sk w' = ndisc_sk w
           \<and> jiffies w' = jiffies w
           \<and> (\<forall>j. j \<noteq> dev_key (saddr skb) (skb_dev skb) \<longrightarrow> nd_tbl w' j = nd_tbl w j)
           \<and> (trace w' = trace w
                \<or> (\<exists>l. trace w' = trace w @ [Neigh_update (dev_key (saddr skb) (skb_dev skb)) l
                                               NUD_STALE RA_NEIGH_FLAGS]))))"
proof (intro conjI impI)
  assume "\<not> ipv6_addr_linklocal (saddr skb)"
  then show "ndisc_router_discovery E skb w = Some w"
    by (simp add: ndisc_router_discovery_def Let_def)
next
  let ?i = "ifindex (skb_dev skb)" and ?opt = "drop 8 (body skb)"
  let ?k = "dev_key (saddr skb) (skb_dev skb)"
  let ?goal = "\<exists>w'. ndisc_router_discovery E skb w = Some w'
           \<and> idevs w' = idevs w \<and> devconf_all w' = devconf_all w \<and> pneigh w' = pneigh w
           \<and> dflt_routers w' = dflt_routers w \<and> ndisc_sk w' = ndisc_sk w
           \<and> jiffies w' = jiffies w
           \<and> (\<forall>j. j \<noteq> ?k \<longrightarrow> nd_tbl w' j = nd_tbl w j)
           \<and> (trace w' = trace w
                \<or> (\<exists>l. trace w' = trace w @ [Neigh_update ?k l NUD_STALE RA_NEIGH_FLAGS]))"
  assume off: "case idevs w ?i of None \<Rightarrow> True | Some d \<Rightarrow> \<not> ipv6_accept_ra E d"
  show ?goal
  proof (cases "ra_passes_validation E skb w")
    case False
    then show ?thesis using rd_not_valid[OF False] by simp
  next
    case True
    from True obtain d nd where d: "idevs w ?i = Some d"
      and rd: "ndisc_router_discovery E skb w =
           (if \<not> ipv6_accept_ra E d
               \<or> (CONFIG_IPV6_NDISC_NODETYPE E \<and> ndisc_nodetype skb = NDISC_NODETYPE_NODEFAULT)
            then ra_skip_linkparms E skb ?opt nd False False w
            else
              (case ra_defrtr E skb (ra_ccmni (skb_dev skb) (ra_if_flags skb d))
                      (w\<lparr>idevs := (idevs w)(?i \<mapsto> ra_ccmni (skb_dev skb) (ra_if_flags skb d))\<rparr>) of
                 Inl w \<Rightarrow> Some w
               | Inr (rt, neigh, w) \<Rightarrow>
                   ra_skip_linkparms E skb ?opt nd rt neigh (ra_linkparms E skb w)))"
      by (rule rd_valid_parse)
    from off d have no: "\<not> ipv6_accept_ra E d" by simp
    obtain b w1 where n: "ra_neigh E skb ?opt nd False w = (b, w1)"
      by (cases "ra_neigh E skb ?opt nd False w")
    note fr = ra_neigh_frame[OF n] and ef = ra_neigh_effect[OF n]
    have "ra_options E skb ?opt nd False w1 = Some w1"
      using fr(1) d no by (simp add: ra_options_def Let_def)
    then have "ndisc_router_discovery E skb w = Some w1"
      using rd no n by (cases b) (simp_all add: ra_skip_linkparms_def)
    then show ?thesis using fr ef by simp
  qed
qed

section \<open>The concrete host\<close>

lemma host_env_fields [simp]:
  "HZ host_env = 100" "BITS_PER_LONG host_env = 32" "CONFIG_IPV6_ROUTER_PREF host_env"
  "CONFIG_IPV6_ROUTE_INFO host_env" "\<not> CONFIG_IPV6_NDISC_NODETYPE host_env"
  "\<not> CONFIG_IPV6_OPTIMISTIC_DAD host_env" "\<not> CONFIG_ARPD host_env"
  "\<not> MTK_DHCPV6C_WIFI host_env" "ndisc_addr_option_pad host_env t = 0"
  "ipv6_accept_ra host_env d \<longleftrightarrow> accept_ra (cnf d) \<noteq> 0"
  "ipv6_chk_addr host_env a dv \<longleftrightarrow> a = our_lladdr"
  "\<not> ipv6_chk_acast_addr host_env i a"
  "ipv6_dev_get_saddr host_env i a = Some our_lladdr"
  "ipv6_get_lladdr host_env i f = Some our_lladdr"
  "neigh_update_entry host_env = simple_update"
  "neigh_create host_env k = Some (new_neigh k)"
  "neigh_rand_reach_time host_env n = n"
  "rt6_add_dflt_router_ok host_env" "skb_linearize_ok host_env" "alloc_skb_ok host_env"
  "skb_clone_ok host_env" "icmp6_dst_alloc_ok host_env" "nf_hook_err host_env skb = 0"
  "nlmsg_new_ok host_env" "nlmsg_put_ok host_env" "heap_byte host_env i = 0x55"
  "redirect_route host_env skb = Some False" "inet_peer_xrlim_allow host_env skb"
  "inet_ctl_sock_create_err host_env = 0"
  by (simp_all add: host_env_def)

lemma eth0_fields [simp]:
  "ifindex eth0 = 2" "dev_name eth0 = ''eth0''" "dev_type eth0 = 1" "addr_len eth0 = 6"
  "dev_addr eth0 = [0x02, 0, 0, 0, 0, 0x01]" "dev_mtu eth0 = 1500" "header_ops eth0"
  by (simp_all add: eth0_def)

lemma ccmni0_fields [simp]:
  "ifindex ccmni0 = 3" "dev_name ccmni0 = ''ccmni0''" "dev_type ccmni0 = 1" "addr_len ccmni0 = 6"
  "dev_addr ccmni0 = [0x02, 0, 0, 0, 0, 0x02]" "dev_mtu ccmni0 = 1500" "header_ops ccmni0"
  by (simp_all add: ccmni0_def)

lemma world0_fields [simp]:
  "idevs world0 i = (if i = 2 \<or> i = 3 then Some host_idev else None)"
  "devconf_all world0 = host_cnf" "nd_tbl world0 k = None" "pneigh world0 k = None"
  "dflt_routers world0 k = None" "np_hop_limit (ndisc_sk world0) = 255"
  "jiffies world0 = 5000" "trace world0 = []"
  by (simp_all add: world0_def)

lemma world_no_ra_fields [simp]:
  "idevs world_no_ra i =
     (if i = 2 \<or> i = 3 then Some (host_idev\<lparr>cnf := host_cnf\<lparr>accept_ra := 0\<rparr>\<rparr>) else None)"
  "nd_tbl world_no_ra k = None" "dflt_routers world_no_ra k = None" "trace world_no_ra = []"
  by (simp_all add: world_no_ra_def world0_def)

lemma router_lladdr_linklocal [simp]: "ipv6_addr_linklocal router_lladdr"
  by (simp add: router_lladdr_def ipv6_addr_linklocal_def u8_at_def)

lemma ra_pkt_fields [simp]:
  "skb_dev ra_pkt = eth0" "saddr ra_pkt = router_lladdr"
  "ndisc_nodetype ra_pkt = NDISC_NODETYPE_UNSPEC"
  "icmp6_rt_lifetime ra_pkt = 1800" "icmp6_router_pref ra_pkt = 1" "icmp6_hop_limit ra_pkt = 64"
  "\<not> icmp6_addrconf_managed ra_pkt" "\<not> icmp6_addrconf_other ra_pkt"
  "body ra_pkt = [0, 0, 0, 0, 0, 0, 0, 0, 1, 1, 0x02, 0, 0, 0, 0, 0x99]"
  by (simp_all add: ra_pkt_def)

lemma parse_sllao:
  "parse_loop ri 0 [1, 1, 0x02, 0, 0, 0, 0, 0x99] ndopts_zero
     = Some (ndopts_zero\<lparr>nd_opts_src_lladdr := Some 0\<rparr>)"
  by (simp add: parse_loop.simps[of _ _ "[1, 1, 0x02, 0, 0, 0, 0, 0x99]"]
      parse_loop.simps[of _ _ "[]"] Let_def record_option_def first_wins_def ndopts_zero_def
      nd_opt_defs)

lemma parse_options_sllao [simp]:
  "ndisc_parse_options ri [1, 1, 0x02, 0, 0, 0, 0, 0x99] 8
     = Some (ndopts_zero\<lparr>nd_opts_src_lladdr := Some 0\<rparr>)"
  by (simp add: ndisc_parse_options_def parse_sllao)

lemma opt_addr_data_sllao [simp]:
  "ndisc_opt_addr_data host_env [1, 1, 0x02, 0, 0, 0, 0, 0x99] 0 eth0
     = Some [0x02, 0, 0, 0, 0, 0x99]"
  by (simp add: ndisc_opt_addr_data_def u8_at_def NDISC_OPT_SPACE_def)

lemma ra_no_accept_result:
  "ndisc_router_discovery host_env ra_pkt world_no_ra =
     Some (log (Neigh_update (router_lladdr, 2) (Some [0x02, 0, 0, 0, 0, 0x99]) NUD_STALE RA_NEIGH_FLAGS)
            (world_no_ra\<lparr>nd_tbl := (nd_tbl world_no_ra)((router_lladdr, 2) \<mapsto>
               simple_update (new_neigh (router_lladdr, 2)) (Some [0x02, 0, 0, 0, 0, 0x99])
                 NUD_STALE RA_NEIGH_FLAGS)\<rparr>))"
  by (simp add: ndisc_router_discovery_def Let_def skb_len_def ra_skip_linkparms_def
      ra_neigh_def dev_key_def neigh_lookup_creat_def neigh_update_def RA_NEIGH_FLAGS_def
      ra_options_def host_idev_def host_cnf_def ndopts_zero_def)

section \<open>What is sent\<close>

lemma ndisc_send_skb_emits:
  assumes "p \<in> emitted_by w0 (ndisc_send_skb E skb da sa w)"
  shows "p \<in> emitted_by w0 w
         \<or> (hop_limit p = word_of_int (np_hop_limit (ndisc_sk w)) \<and> icmp6_code p = icmp6_code skb
            \<and> icmp6_type p = icmp6_type skb \<and> daddr p = da \<and> saddr p = sa
            \<and> body p = body skb)"
  using assms
  by (auto simp: emitted_by_def ndisc_send_skb_def Let_def ip6_nd_hdr_def split: if_splits)

lemma alloc_skb_code: "ndisc_alloc_skb E dev = Some skb \<Longrightarrow> icmp6_code skb = 0"
  by (auto simp: ndisc_alloc_skb_def split: if_splits)

lemma skb_fill_addr_option_hdr [simp]:
  "icmp6_code (skb_fill_addr_option E skb t a) = icmp6_code skb"
  "icmp6_type (skb_fill_addr_option E skb t a) = icmp6_type skb"
  by (simp_all add: skb_fill_addr_option_def Let_def)

lemma ndisc_send_ns_emits:
  assumes "p \<in> emitted_by w0 (ndisc_send_ns E dev solicit da sa w)"
  shows "p \<in> emitted_by w0 w
         \<or> (hop_limit p = word_of_int (np_hop_limit (ndisc_sk w)) \<and> icmp6_code p = 0
            \<and> icmp6_type p = NDISC_NEIGHBOUR_SOLICITATION \<and> daddr p = da)"
  using assms
  by (auto simp: ndisc_send_ns_def Let_def split: option.splits if_splits
      dest!: ndisc_send_skb_emits dest: alloc_skb_code)

lemma ndisc_send_na_emits:
  assumes "p \<in> emitted_by w0 (ndisc_send_na E dev da sol r s ov inc w)"
  shows "p \<in> emitted_by w0 w
         \<or> (hop_limit p = word_of_int (np_hop_limit (ndisc_sk w)) \<and> icmp6_code p = 0
            \<and> icmp6_type p = NDISC_NEIGHBOUR_ADVERTISEMENT \<and> daddr p = da)"
  using assms
  by (auto simp: ndisc_send_na_def Let_def split: option.splits if_splits prod.splits
      dest!: ndisc_send_skb_emits dest: alloc_skb_code)

lemma ndisc_send_rs_emits:
  assumes "p \<in> emitted_by w0 (ndisc_send_rs E dev sa da w)"
  shows "p \<in> emitted_by w0 w
         \<or> (hop_limit p = word_of_int (np_hop_limit (ndisc_sk w)) \<and> icmp6_code p = 0
            \<and> icmp6_type p = NDISC_ROUTER_SOLICITATION \<and> daddr p = da)"
  using assms
  by (auto simp: ndisc_send_rs_def Let_def split: option.splits if_splits prod.splits
      dest!: ndisc_send_skb_emits dest: alloc_skb_code)


lemma redirect_target_lladdr_frame:
  assumes "redirect_target_lladdr E dev target w = Some (w', hb, ol)"
  shows "trace w' = trace w" and "ndisc_sk w' = ndisc_sk w"
  using assms
  by (auto simp: redirect_target_lladdr_def split: if_splits prod.splits bool.splits option.splits
      dest: neigh_lookup_creat_fieldsD)

lemma ndisc_fill_redirect_hdr_option_hdr [simp]:
  "icmp6_code (ndisc_fill_redirect_hdr_option skb orig n) = icmp6_code skb"
  "icmp6_type (ndisc_fill_redirect_hdr_option skb orig n) = icmp6_type skb"
  by (simp_all add: ndisc_fill_redirect_hdr_option_def)

lemma ndisc_send_redirect_emits:
  assumes "p \<in> emitted_by w0 (ndisc_send_redirect E skb orig target w)"
  shows "p \<in> emitted_by w0 w
         \<or> (hop_limit p = word_of_int (np_hop_limit (ndisc_sk w)) \<and> icmp6_code p = 0
            \<and> icmp6_type p = NDISC_REDIRECT \<and> daddr p = saddr skb)"
proof (cases "redirect_target_lladdr E (skb_dev skb) target w")
  case None
  then show ?thesis using assms
    by (auto simp: ndisc_send_redirect_def Let_def split: option.splits if_splits)
next
  case (Some x)
  then obtain w' hb ol where x: "redirect_target_lladdr E (skb_dev skb) target w = Some (w', hb, ol)"
    by (cases x) auto
  note fr = redirect_target_lladdr_frame[OF x]
  have em: "emitted_by w0 w' = emitted_by w0 w" using fr(1) by (simp add: emitted_by_def)
  show ?thesis
  proof (cases "ndisc_alloc_skb E (skb_dev skb)")
    case None
    then show ?thesis using assms x em
      by (auto simp: ndisc_send_redirect_def Let_def split: option.splits if_splits)
  next
    case (Some buff)
    note c = alloc_skb_code[OF Some]
    from assms x Some em have
      "p \<in> emitted_by w0 w \<or> (\<exists>b sb. p \<in> emitted_by w0 (ndisc_send_skb E b (saddr skb) sb w')
          \<and> icmp6_code b = 0 \<and> icmp6_type b = NDISC_REDIRECT)"
      using c
      by (auto simp: ndisc_send_redirect_def Let_def split: option.splits if_splits)
    then show ?thesis using fr(2) em by (auto dest!: ndisc_send_skb_emits)
  qed
qed

lemma emitted_by_self [simp]: "emitted_by w w = {}"
  by (simp add: emitted_by_def)

lemma ndisc_solicit_emits:
  assumes "p \<in> emitted_by w0 (ndisc_solicit E neigh skb w)"
  shows "p \<in> emitted_by w0 w
         \<or> (hop_limit p = word_of_int (np_hop_limit (ndisc_sk w)) \<and> icmp6_code p = 0
            \<and> icmp6_type p = NDISC_NEIGHBOUR_SOLICITATION)"
  using assms
  by (auto simp: ndisc_solicit_def Let_def emitted_by_def[of _ "log _ _"] split: if_splits
      dest!: ndisc_send_ns_emits) (auto simp: emitted_by_def)

text \<open>
  Claim C7. Once \<open>ndisc_net_init\<close> has set up the control socket, every packet that
  \<open>ndisc_send_ns\<close>, \<open>ndisc_send_na\<close>, \<open>ndisc_send_rs\<close>, \<open>ndisc_send_redirect\<close> and
  \<open>ndisc_solicit\<close> give to the output hook has the IPv6 hop limit 255 and the ICMPv6
  code 0, and the message type of its sender.
\<close>

theorem ndisc_emitted_hop_limit_and_code:
  assumes init: "ndisc_net_init E w0 = (0, w1)" and sk: "ndisc_sk w = ndisc_sk w1"
  shows "(\<forall>p\<in>emitted_by w (ndisc_send_ns E dev solicit da sa w).
            hop_limit p = 255 \<and> icmp6_code p = 0 \<and> icmp6_type p = NDISC_NEIGHBOUR_SOLICITATION)
       \<and> (\<forall>p\<in>emitted_by w (ndisc_send_na E dev da solicited_addr r s ov inc w).
            hop_limit p = 255 \<and> icmp6_code p = 0 \<and> icmp6_type p = NDISC_NEIGHBOUR_ADVERTISEMENT)
       \<and> (\<forall>p\<in>emitted_by w (ndisc_send_rs E dev sa' da w).
            hop_limit p = 255 \<and> icmp6_code p = 0 \<and> icmp6_type p = NDISC_ROUTER_SOLICITATION)
       \<and> (\<forall>p\<in>emitted_by w (ndisc_send_redirect E skb orig target w).
            hop_limit p = 255 \<and> icmp6_code p = 0 \<and> icmp6_type p = NDISC_REDIRECT)
       \<and> (\<forall>p\<in>emitted_by w (ndisc_solicit E neigh trigger w).
            hop_limit p = 255 \<and> icmp6_code p = 0 \<and> icmp6_type p = NDISC_NEIGHBOUR_SOLICITATION)"
proof -
  have hl: "np_hop_limit (ndisc_sk w) = 255"
    using init sk by (auto simp: ndisc_net_init_def Let_def split: if_splits)
  have w: "(word_of_int 255 :: u8) = 255" by simp
  show ?thesis
    using ndisc_send_ns_emits[of _ w E dev solicit da sa w]
      ndisc_send_na_emits[of _ w E dev da solicited_addr r s ov inc w]
      ndisc_send_rs_emits[of _ w E dev sa' da w]
      ndisc_send_redirect_emits[of _ w E skb orig target w]
      ndisc_solicit_emits[of _ w E neigh trigger w]
    unfolding hl w emitted_by_self by blast
qed

lemma ndisc_send_skb_out:
  assumes "icmp6_dst_alloc_ok E"
  shows "\<exists>p. Dst_output p \<in> set (trace (ndisc_send_skb E skb da sa w))
           \<and> icmp6_type p = icmp6_type skb \<and> daddr p = da \<and> saddr p = sa \<and> body p = body skb"
proof -
  let ?p = "ip6_nd_hdr (skb\<lparr>has_dst := True\<rparr>) sa da (np_hop_limit (ndisc_sk w))
              (skb_len (skb\<lparr>has_dst := True\<rparr>))"
  have "Dst_output ?p \<in> set (trace (ndisc_send_skb E skb da sa w))"
    using assms by (simp add: ndisc_send_skb_def Let_def)
  moreover have "icmp6_type ?p = icmp6_type skb \<and> daddr ?p = da \<and> saddr ?p = sa \<and> body ?p = body skb"
    by (simp add: ip6_nd_hdr_def)
  ultimately show ?thesis by blast
qed

lemma ndisc_send_ns_out:
  assumes ok: "alloc_skb_ok E" "icmp6_dst_alloc_ok E"
    and s: "(case sa of None \<Rightarrow> ipv6_get_lladdr E (ifindex dev) {IFA_F_TENTATIVE, IFA_F_OPTIMISTIC}
             | Some a \<Rightarrow> Some a) = Some s"
  shows "\<exists>p. Dst_output p \<in> set (trace (ndisc_send_ns E dev target da sa w))
           \<and> icmp6_type p = NDISC_NEIGHBOUR_SOLICITATION \<and> daddr p = da \<and> saddr p = s
           \<and> take (length target) (body p) = target"
proof -
  obtain skb0 where skb0: "ndisc_alloc_skb E dev = Some skb0"
    using ok(1) by (simp add: ndisc_alloc_skb_def)
  define skb1 where "skb1 = skb0\<lparr>icmp6_type := NDISC_NEIGHBOUR_SOLICITATION, body := target\<rparr>"
  define skb2 where "skb2 = (if addr_len dev \<noteq> 0 \<and> \<not> ipv6_addr_any s
                             then skb_fill_addr_option E skb1 ND_OPT_SOURCE_LL_ADDR (dev_addr dev)
                             else skb1)"
  have send: "ndisc_send_ns E dev target da sa w = ndisc_send_skb E skb2 da s w"
    using s skb0 by (simp add: ndisc_send_ns_def Let_def skb1_def skb2_def)
  have t2: "icmp6_type skb2 = NDISC_NEIGHBOUR_SOLICITATION"
    by (simp add: skb2_def skb1_def)
  have b2: "take (length target) (body skb2) = target"
    by (simp add: skb2_def skb1_def skb_fill_addr_option_def Let_def)
  from ndisc_send_skb_out[OF ok(2), of skb2 da s w] obtain p where
    "Dst_output p \<in> set (trace (ndisc_send_skb E skb2 da s w))" "icmp6_type p = icmp6_type skb2"
    "daddr p = da" "saddr p = s" "body p = body skb2" by blast
  then show ?thesis using send t2 b2 by auto
qed

lemma sint_sub_fits:
  fixes x y :: "32 word"
  assumes "- (2 ^ 31) \<le> sint x - sint y" and "sint x - sint y < 2 ^ 31"
  shows "sint (x - y) = sint x - sint y"
  using assms by (simp add: sint_word_ariths signed_take_bit_int_eq_self)

text \<open>
  Claim C9, as the code has it. \<open>ndisc_solicit\<close> subtracts the limits from the probe
  count in 32-bit \<open>int\<close>. When the two subtractions do not overflow (as for every count
  and limits that are not negative): with \<open>probes\<close> below \<open>ucast_probes\<close> it sends a
  Neighbour Solicitation to the target's own address; from there and below
  \<open>ucast_probes + app_probes\<close> it only notifies the user-space daemon, when the build has
  one; otherwise it sends the solicitation to the solicited-node multicast address of the
  target. The source address is the source of the triggering packet when that is one of
  our addresses on the interface. When a buffer and a route are available and a source
  address is known, the solicitation is given to the output hook, with that destination,
  the target in its body, and the chosen source.
\<close>

theorem ndisc_solicit_probe_kind:
  assumes sa: "sa = (case trigger of None \<Rightarrow> None
                     | Some s \<Rightarrow> if ipv6_chk_addr E (saddr s) (Some (ifindex (neigh_dev neigh)))
                                 then Some (saddr s) else None)"
    and dev: "dev = neigh_dev neigh" and target: "target = primary_key neigh"
    and fit1: "- (2 ^ 31) \<le> sint (probes neigh) - sint (ucast_probes (parms neigh))"
      "sint (probes neigh) - sint (ucast_probes (parms neigh)) < 2 ^ 31"
    and fit2: "sint (ucast_probes (parms neigh)) \<le> sint (probes neigh) \<longrightarrow>
               sint (probes neigh) - sint (ucast_probes (parms neigh))
                 - sint (app_probes (parms neigh)) < 2 ^ 31"
  shows "(sint (probes neigh) < sint (ucast_probes (parms neigh)) \<longrightarrow>
            ndisc_solicit E neigh trigger w = ndisc_send_ns E dev target target sa w)
       \<and> (sint (ucast_probes (parms neigh)) \<le> sint (probes neigh)
            \<and> sint (probes neigh)
                < sint (ucast_probes (parms neigh)) + sint (app_probes (parms neigh)) \<longrightarrow>
            ndisc_solicit E neigh trigger w =
              (if CONFIG_ARPD E then log (Neigh_app_ns (dev_key target dev)) w else w))
       \<and> (sint (ucast_probes (parms neigh)) \<le> sint (probes neigh)
            \<and> sint (ucast_probes (parms neigh)) + sint (app_probes (parms neigh))
                \<le> sint (probes neigh) \<longrightarrow>
            ndisc_solicit E neigh trigger w =
              ndisc_send_ns E dev target (addrconf_addr_solict_mult target) sa w)
       \<and> (\<forall>da. alloc_skb_ok E \<and> icmp6_dst_alloc_ok E
              \<and> (sa \<noteq> None \<or> ipv6_get_lladdr E (ifindex dev) {IFA_F_TENTATIVE, IFA_F_OPTIMISTIC} \<noteq> None)
            \<longrightarrow> (\<exists>p. Dst_output p \<in> set (trace (ndisc_send_ns E dev target da sa w))
                     \<and> icmp6_type p = NDISC_NEIGHBOUR_SOLICITATION \<and> daddr p = da
                     \<and> take (length target) (body p) = target
                     \<and> (\<forall>s. sa = Some s \<longrightarrow> saddr p = s)))"
proof -
  let ?P = "sint (probes neigh)" and ?U = "sint (ucast_probes (parms neigh))"
  let ?A = "sint (app_probes (parms neigh))"
  let ?n1 = "probes neigh - ucast_probes (parms neigh)"
  have s1: "sint ?n1 = ?P - ?U"
    using fit1 by (rule sint_sub_fits)
  have s2: "sint (?n1 - app_probes (parms neigh)) = ?P - ?U - ?A" if ge: "?U \<le> ?P"
  proof -
    have "?A < 2 ^ 31" using sint_lt[of "app_probes (parms neigh)"] by simp
    then have lo: "- (2 ^ 31) \<le> sint ?n1 - ?A" using s1 ge by simp
    have hi: "sint ?n1 - ?A < 2 ^ 31" using s1 ge fit2 by simp
    show ?thesis using sint_sub_fits[OF lo hi] s1 by simp
  qed
  have a: "?P < ?U \<Longrightarrow>
            ndisc_solicit E neigh trigger w = ndisc_send_ns E dev target target sa w"
    using sa dev target s1 by (simp add: ndisc_solicit_def Let_def)
  have b: "?U \<le> ?P \<Longrightarrow> ?P < ?U + ?A \<Longrightarrow>
            ndisc_solicit E neigh trigger w =
              (if CONFIG_ARPD E then log (Neigh_app_ns (dev_key target dev)) w else w)"
    using sa dev target s1 s2 by (simp add: ndisc_solicit_def Let_def)
  have c: "?U \<le> ?P \<Longrightarrow> ?U + ?A \<le> ?P \<Longrightarrow>
            ndisc_solicit E neigh trigger w =
              ndisc_send_ns E dev target (addrconf_addr_solict_mult target) sa w"
    using sa dev target s1 s2 by (simp add: ndisc_solicit_def Let_def)
  have d: "\<exists>p. Dst_output p \<in> set (trace (ndisc_send_ns E dev target da sa w))
                     \<and> icmp6_type p = NDISC_NEIGHBOUR_SOLICITATION \<and> daddr p = da
                     \<and> take (length target) (body p) = target
                     \<and> (\<forall>s. sa = Some s \<longrightarrow> saddr p = s)"
    if ok: "alloc_skb_ok E" "icmp6_dst_alloc_ok E"
      "sa \<noteq> None \<or> ipv6_get_lladdr E (ifindex dev) {IFA_F_TENTATIVE, IFA_F_OPTIMISTIC} \<noteq> None"
    for da
  proof -
    obtain s where s: "(case sa of None \<Rightarrow> ipv6_get_lladdr E (ifindex dev) {IFA_F_TENTATIVE, IFA_F_OPTIMISTIC}
                        | Some a \<Rightarrow> Some a) = Some s" "\<And>s'. sa = Some s' \<Longrightarrow> s = s'"
      using ok(3) by (cases sa) auto
    from ndisc_send_ns_out[OF ok(1,2) s(1), of target da w] s(2) show ?thesis by blast
  qed
  from a b c d show ?thesis by blast
qed

section \<open>The Neighbour Advertisement handler\<close>

text \<open>
  Claim C6. A valid Neighbour Advertisement for a target that is not one of our
  addresses, with an entry in the neighbour cache that is not FAILED, and that is not our
  own proxy advertisement: the entry is updated to REACHABLE when the solicited bit is
  set and to STALE otherwise, with the flag OVERRIDE exactly when the override bit is
  set, ISROUTER exactly when the router bit is set, and OVERRIDE_ISROUTER always; and
  when the entry had the router flag and has lost it, the default route through the
  sender is removed.
\<close>

theorem ndisc_recv_na_updates_entry:
  assumes len: "16 \<le> length (body skb)"
    and tgt: "target = take 16 (body skb)" and uni: "\<not> ipv6_addr_is_multicast target"
    and sol: "\<not> (ipv6_addr_is_multicast (daddr skb) \<and> icmp6_solicited skb)"
    and parse: "ndisc_parse_options (CONFIG_IPV6_ROUTE_INFO E) (drop 16 (body skb))
                  (int (length (body skb)) - 16) = Some nd"
    and ll: "(case nd_opts_tgt_lladdr nd of
                None \<Rightarrow> Some None
              | Some p \<Rightarrow> map_option Some (ndisc_opt_addr_data E (drop 16 (body skb)) p (skb_dev skb)))
             = Some lladdr"
    and notours: "ipv6_get_ifaddr w target (skb_dev skb) = None"
    and k: "k = dev_key target (skb_dev skb)"
    and entry: "nd_tbl w k = Some n" and alive: "nud_state n \<noteq> NUD_FAILED"
    and notproxy: "\<not> ((case lladdr of
                          None \<Rightarrow> False
                        | Some a \<Rightarrow> take (addr_len (skb_dev skb)) a
                                     = take (addr_len (skb_dev skb)) (dev_addr (skb_dev skb)))
                      \<and> forwarding (devconf_all w) \<noteq> 0 \<and> proxy_ndp (devconf_all w) \<noteq> 0
                      \<and> pneigh w k \<noteq> None)"
    and st: "new = (if icmp6_solicited skb then NUD_REACHABLE else NUD_STALE)"
    and w': "w' = ndisc_recv_na E skb w"
  shows "\<exists>flags n'.
           (NEIGH_UPDATE_F_OVERRIDE \<in> flags \<longleftrightarrow> icmp6_override skb)
         \<and> (NEIGH_UPDATE_F_ISROUTER \<in> flags \<longleftrightarrow> icmp6_router skb)
         \<and> NEIGH_UPDATE_F_OVERRIDE_ISROUTER \<in> flags
         \<and> n' = neigh_update_entry E n lladdr new flags
         \<and> nd_tbl w' = (nd_tbl w)(k \<mapsto> n')
         \<and> trace w' = trace w @ [Neigh_update k lladdr new flags]
         \<and> dflt_routers w' =
             (if NTF_ROUTER \<in> neigh_flags n \<and> NTF_ROUTER \<notin> neigh_flags n'
              then (dflt_routers w)(dev_key (saddr skb) (skb_dev skb) := None)
              else dflt_routers w)"
proof -
  let ?flags = "na_update_flags skb"
  let ?rk = "dev_key (saddr skb) (skb_dev skb)"
  let ?n' = "neigh_update_entry E n lladdr new ?flags"
  let ?w1 = "neigh_update E k lladdr new ?flags w"
  have l2: "int (skb_len skb) - 24 = int (length (body skb)) - 16" "\<not> skb_len skb < 24"
    using len by (simp_all add: skb_len_def)
  have na: "ndisc_recv_na E skb w = ndisc_recv_na_update E skb target lladdr w"
    using l2 tgt uni sol parse ll notours
    by (auto simp: ndisc_recv_na_def Let_def)
  have w1: "nd_tbl ?w1 = (nd_tbl w)(k \<mapsto> ?n')"
    "trace ?w1 = trace w @ [Neigh_update k lladdr new ?flags]"
    "dflt_routers ?w1 = dflt_routers w"
    using entry by (simp_all add: neigh_update_def log_def)
  have w1k: "nd_tbl ?w1 k = Some ?n'" by (simp add: w1(1))
  have upd: "ndisc_recv_na_update E skb target lladdr w =
        (if NTF_ROUTER \<in> neigh_flags n - neigh_flags ?n'
         then (case dflt_routers ?w1 ?rk of None \<Rightarrow> ?w1 | Some rt \<Rightarrow> ip6_del_rt ?rk ?w1)
         else ?w1)"
    unfolding ndisc_recv_na_update_def Let_def rt6_get_dflt_router_def k[symmetric] st[symmetric]
    by (simp only: entry option.case alive if_False notproxy w1k)
  have r1: "nd_tbl w' = (nd_tbl w)(k \<mapsto> ?n')"
    unfolding w' na upd using w1(1) by (simp add: ip6_del_rt_def split: option.splits)
  have r2: "trace w' = trace w @ [Neigh_update k lladdr new ?flags]"
    unfolding w' na upd using w1(2) by (simp add: ip6_del_rt_def split: option.splits)
  have r3: "dflt_routers w' =
             (if NTF_ROUTER \<in> neigh_flags n \<and> NTF_ROUTER \<notin> neigh_flags ?n'
              then (dflt_routers w)(?rk := None)
              else dflt_routers w)"
    unfolding w' na upd using w1(3)
    by (auto simp: ip6_del_rt_def fun_eq_iff split: option.splits)
  have f: "(NEIGH_UPDATE_F_OVERRIDE \<in> ?flags \<longleftrightarrow> icmp6_override skb)"
    "(NEIGH_UPDATE_F_ISROUTER \<in> ?flags \<longleftrightarrow> icmp6_router skb)"
    "NEIGH_UPDATE_F_OVERRIDE_ISROUTER \<in> ?flags"
    by (auto simp: na_update_flags_def)
  show ?thesis
    by (rule exI[of _ ?flags], rule exI[of _ ?n']) (use r1 r2 r3 f in blast)
qed

section \<open>The theorems on the concrete host\<close>

text \<open>
  Each theorem above that has a hypothesis is applied here to the host of the section
  ``A concrete host'', where the hypothesis holds.
\<close>

theorem ndisc_rcv_hop_limit_code_gate_witness:
  "hop_limit (ns_probe\<lparr>hop_limit := 64\<rparr>) \<noteq> 255
   \<and> ndisc_rcv host_env (ns_probe\<lparr>hop_limit := 64\<rparr>) world0 = Some world0
   \<and> icmp6_code (ns_probe\<lparr>icmp6_code := 1\<rparr>) \<noteq> 0
   \<and> ndisc_rcv host_env (ns_probe\<lparr>icmp6_code := 1\<rparr>) world0 = Some world0"
  using ndisc_rcv_hop_limit_code_gate[of "ns_probe\<lparr>hop_limit := 64\<rparr>" host_env world0]
    ndisc_rcv_hop_limit_code_gate[of "ns_probe\<lparr>icmp6_code := 1\<rparr>" host_env world0]
  by simp

lemma opt_types_sllao:
  "opt_types [1, 1, 0x02, 0, 0, 0, 0, 0x99] = [1]"
  by (simp add: opt_types.simps[of "[1, 1, 0x02, 0, 0, 0, 0, 0x99]"] opt_types.simps[of "[]"] Let_def)

theorem ndisc_recv_ns_bad_dad_dropped_witness:
  "ipv6_addr_any (saddr (ns_probe\<lparr>saddr := unspecified_addr\<rparr>))
   \<and> \<not> ipv6_addr_is_solict_mult (daddr (ns_probe\<lparr>saddr := unspecified_addr\<rparr>))
   \<and> ndisc_recv_ns host_env (ns_probe\<lparr>saddr := unspecified_addr\<rparr>) world0 = world0
   \<and> ND_OPT_SOURCE_LL_ADDR \<in> set (opt_types (drop 16 (body
         (ns_probe\<lparr>saddr := unspecified_addr, daddr := addrconf_addr_solict_mult our_lladdr\<rparr>))))
   \<and> ndisc_recv_ns host_env
         (ns_probe\<lparr>saddr := unspecified_addr, daddr := addrconf_addr_solict_mult our_lladdr\<rparr>)
         world0 = world0"
proof -
  have a: "ipv6_addr_any unspecified_addr"
    by (simp add: ipv6_addr_any_def unspecified_addr_def)
  have b: "\<not> ipv6_addr_is_solict_mult our_lladdr"
    by (simp add: ipv6_addr_is_solict_mult_def our_lladdr_def)
  have c: "ND_OPT_SOURCE_LL_ADDR \<in> set (opt_types (drop 16 (body ns_probe)))"
    by (simp add: ns_probe_def our_lladdr_def opt_types_sllao ND_OPT_SOURCE_LL_ADDR_def)
  show ?thesis
    using a b c
      ndisc_recv_ns_bad_dad_dropped[of "ns_probe\<lparr>saddr := unspecified_addr\<rparr>" host_env world0]
      ndisc_recv_ns_bad_dad_dropped[of
        "ns_probe\<lparr>saddr := unspecified_addr, daddr := addrconf_addr_solict_mult our_lladdr\<rparr>"
        host_env world0]
    by (simp add: ns_probe_def)
qed

lemma world_routed_fields [simp]:
  "idevs world_routed i = (if i = 2 \<or> i = 3 then Some host_idev else None)"
  "devconf_all world_routed = host_cnf" "pneigh world_routed k = None"
  "nd_tbl world_routed k =
     (if k = (router_lladdr, 2)
      then Some ((new_neigh (router_lladdr, 2))
                   \<lparr>nud_state := NUD_STALE, neigh_flags := {NTF_ROUTER},
                     ha := [0x02, 0, 0, 0, 0, 0x99]\<rparr>)
      else None)"
  "dflt_routers world_routed k =
     (if k = (router_lladdr, 2)
      then Some \<lparr>rt_pref = 0, rt_expires = Some 6000, rt_hoplimit = None, rt_mtu = None\<rparr>
      else None)"
  "jiffies world_routed = 5000" "trace world_routed = []"
  by (simp_all add: world_routed_def world0_def)

lemma na_pkt_fields [simp]:
  "skb_dev na_pkt = eth0" "saddr na_pkt = router_lladdr" "daddr na_pkt = our_lladdr"
  "icmp6_solicited na_pkt" "icmp6_override na_pkt" "\<not> icmp6_router na_pkt"
  "body na_pkt = router_lladdr @ [2, 1, 0x02, 0, 0, 0, 0, 0x99]"
  by (simp_all add: na_pkt_def ns_probe_def)

lemma router_lladdr_length [simp]: "length router_lladdr = 16"
  by (simp add: router_lladdr_def)

lemma parse_tllao:
  "ndisc_parse_options ri [2, 1, 0x02, 0, 0, 0, 0, 0x99] 8
     = Some (ndopts_zero\<lparr>nd_opts_tgt_lladdr := Some 0\<rparr>)"
  by (simp add: ndisc_parse_options_def parse_loop.simps[of _ _ "[2, 1, 0x02, 0, 0, 0, 0, 0x99]"]
      parse_loop.simps[of _ _ "[]"] Let_def record_option_def first_wins_def ndopts_zero_def
      nd_opt_defs)

lemma opt_addr_data_tllao:
  "ndisc_opt_addr_data host_env [2, 1, 0x02, 0, 0, 0, 0, 0x99] 0 eth0
     = Some [0x02, 0, 0, 0, 0, 0x99]"
  by (simp add: ndisc_opt_addr_data_def u8_at_def NDISC_OPT_SPACE_def)

theorem ndisc_recv_na_updates_entry_witness:
  "dflt_routers world_routed (router_lladdr, 2) \<noteq> None
   \<and> dflt_routers (ndisc_recv_na host_env na_pkt world_routed) (router_lladdr, 2) = None
   \<and> map_option nud_state (nd_tbl (ndisc_recv_na host_env na_pkt world_routed) (router_lladdr, 2))
       = Some NUD_REACHABLE
   \<and> map_option neigh_flags (nd_tbl (ndisc_recv_na host_env na_pkt world_routed) (router_lladdr, 2))
       = Some {}"
proof -
  let ?n = "(new_neigh (router_lladdr, 2))
               \<lparr>nud_state := NUD_STALE, neigh_flags := {NTF_ROUTER}, ha := [0x02, 0, 0, 0, 0, 0x99]\<rparr>"
  let ?w' = "ndisc_recv_na host_env na_pkt world_routed"
  have len: "16 \<le> length (body na_pkt)" by simp
  have tgt: "router_lladdr = take 16 (body na_pkt)" by simp
  have uni: "\<not> ipv6_addr_is_multicast router_lladdr"
    by (simp add: ipv6_addr_is_multicast_def router_lladdr_def u8_at_def)
  have sol: "\<not> (ipv6_addr_is_multicast (daddr na_pkt) \<and> icmp6_solicited na_pkt)"
    by (simp add: ipv6_addr_is_multicast_def our_lladdr_def u8_at_def)
  have parse: "ndisc_parse_options (CONFIG_IPV6_ROUTE_INFO host_env) (drop 16 (body na_pkt))
                  (int (length (body na_pkt)) - 16) = Some (ndopts_zero\<lparr>nd_opts_tgt_lladdr := Some 0\<rparr>)"
    by (simp add: parse_tllao)
  have ll: "(case nd_opts_tgt_lladdr (ndopts_zero\<lparr>nd_opts_tgt_lladdr := Some 0\<rparr>) of
                None \<Rightarrow> Some None
              | Some p \<Rightarrow> map_option Some (ndisc_opt_addr_data host_env (drop 16 (body na_pkt)) p (skb_dev na_pkt)))
             = Some (Some [0x02, 0, 0, 0, 0, 0x99])"
    by (simp add: opt_addr_data_tllao)
  have notours: "ipv6_get_ifaddr world_routed router_lladdr (skb_dev na_pkt) = None"
    by (simp add: ipv6_get_ifaddr_def host_idev_def router_lladdr_def our_lladdr_def)
  have k: "(router_lladdr, 2) = dev_key router_lladdr (skb_dev na_pkt)"
    by (simp add: dev_key_def)
  have entry: "nd_tbl world_routed (router_lladdr, 2) = Some ?n" by simp
  have alive: "nud_state ?n \<noteq> NUD_FAILED" by simp
  have notproxy: "\<not> ((case Some [0x02, 0, 0, 0, 0, 0x99 :: u8] of
                          None \<Rightarrow> False
                        | Some a \<Rightarrow> take (addr_len (skb_dev na_pkt)) a
                                     = take (addr_len (skb_dev na_pkt)) (dev_addr (skb_dev na_pkt)))
                      \<and> forwarding (devconf_all world_routed) \<noteq> 0
                      \<and> proxy_ndp (devconf_all world_routed) \<noteq> 0
                      \<and> pneigh world_routed (router_lladdr, 2) \<noteq> None)"
    by simp
  have st: "NUD_REACHABLE = (if icmp6_solicited na_pkt then NUD_REACHABLE else NUD_STALE)"
    by simp
  from ndisc_recv_na_updates_entry[OF len tgt uni sol parse ll notours k entry alive notproxy st refl]
  obtain flags n' where f: "NEIGH_UPDATE_F_ISROUTER \<notin> flags"
      "NEIGH_UPDATE_F_OVERRIDE_ISROUTER \<in> flags"
    and n': "n' = simple_update ?n (Some [0x02, 0, 0, 0, 0, 0x99]) NUD_REACHABLE flags"
    and tbl: "nd_tbl ?w' = (nd_tbl world_routed)((router_lladdr, 2) \<mapsto> n')"
    and rt: "dflt_routers ?w' =
             (if NTF_ROUTER \<in> neigh_flags ?n \<and> NTF_ROUTER \<notin> neigh_flags n'
              then (dflt_routers world_routed)(dev_key (saddr na_pkt) (skb_dev na_pkt) := None)
              else dflt_routers world_routed)"
    by auto
  have fl: "neigh_flags n' = {}" "nud_state n' = NUD_REACHABLE"
    using f by (simp_all add: n' simple_update_def)
  have "dflt_routers ?w' (router_lladdr, 2) = None"
    unfolding rt using fl by (simp add: dev_key_def)
  moreover have "nd_tbl ?w' (router_lladdr, 2) = Some n'" unfolding tbl by simp
  ultimately show ?thesis using fl by simp
qed

lemma ra_pkt_accepted: "ra_accepted host_env ra_pkt world0"
  by (simp add: ra_accepted_def ra_passes_validation_def host_idev_def host_cnf_def)

lemma ra_pkt_accepted_routed: "ra_accepted host_env ra_pkt world_routed"
  by (simp add: ra_accepted_def ra_passes_validation_def host_idev_def host_cnf_def)

lemma ra_pkt0_accepted_routed:
  "ra_accepted host_env (ra_pkt\<lparr>icmp6_rt_lifetime := 0\<rparr>) world_routed"
  by (simp add: ra_accepted_def ra_passes_validation_def host_idev_def host_cnf_def)

theorem ndisc_router_discovery_default_router_witness:
  "(\<exists>w'. ndisc_router_discovery host_env ra_pkt world0 = Some w'
      \<and> (\<exists>r. dflt_routers w' (router_lladdr, 2) = Some r
              \<and> rt_pref r = ICMPV6_ROUTER_PREF_HIGH \<and> rt_expires r = Some 185000))
   \<and> (\<exists>w'. ndisc_router_discovery host_env ra_pkt world_routed = Some w'
      \<and> (\<exists>r. dflt_routers w' (router_lladdr, 2) = Some r
              \<and> rt_pref r = ICMPV6_ROUTER_PREF_HIGH \<and> rt_expires r = Some 185000))
   \<and> (\<exists>w'. ndisc_router_discovery host_env (ra_pkt\<lparr>icmp6_rt_lifetime := 0\<rparr>) world_routed = Some w'
      \<and> dflt_routers w' (router_lladdr, 2) = None)"
proof -
  let ?p0 = "ra_pkt\<lparr>icmp6_rt_lifetime := 0\<rparr>"
  have a: "accept_ra_defrtr (cnf host_idev) \<noteq> 0" "accept_ra_rtr_pref (cnf host_idev) \<noteq> 0"
    by (simp_all add: host_idev_def host_cnf_def)
  have b: "\<not> ipv6_chk_addr host_env (saddr ra_pkt) None"
     "\<not> ipv6_chk_addr host_env (saddr ?p0) None"
    by (simp_all add: router_lladdr_def our_lladdr_def)
  have c: "(1800::nat) = unat (icmp6_rt_lifetime ra_pkt)" "(0::nat) = unat (icmp6_rt_lifetime ?p0)"
    by simp_all
  have d: "ICMPV6_ROUTER_PREF_HIGH = (if icmp6_router_pref ra_pkt = ICMPV6_ROUTER_PREF_INVALID
                               \<or> accept_ra_rtr_pref (cnf host_idev) = 0
                            then ICMPV6_ROUTER_PREF_MEDIUM else icmp6_router_pref ra_pkt)"
     "ICMPV6_ROUTER_PREF_HIGH = (if icmp6_router_pref ?p0 = ICMPV6_ROUTER_PREF_INVALID
                               \<or> accept_ra_rtr_pref (cnf host_idev) = 0
                            then ICMPV6_ROUTER_PREF_MEDIUM else icmp6_router_pref ?p0)"
    using a(2) by (simp_all add: ICMPV6_ROUTER_PREF_INVALID_def ICMPV6_ROUTER_PREF_HIGH_def)
  have e: "idevs world0 (ifindex (skb_dev ra_pkt)) = Some host_idev"
    "idevs world_routed (ifindex (skb_dev ra_pkt)) = Some host_idev"
    "idevs world_routed (ifindex (skb_dev ?p0)) = Some host_idev" by simp_all
  have f: "take 2 (dev_name (skb_dev ra_pkt)) \<noteq> ''cc''"
    "take 2 (dev_name (skb_dev ?p0)) \<noteq> ''cc''" by simp_all
  have g: "nd_tbl world0 (router_lladdr, 2) \<noteq> None \<or> neigh_create host_env (router_lladdr, 2) \<noteq> None"
    "nd_tbl world_routed (router_lladdr, 2) \<noteq> None \<or> neigh_create host_env (router_lladdr, 2) \<noteq> None"
    by simp_all
  have h: "(router_lladdr, 2) = dev_key (saddr ra_pkt) (skb_dev ra_pkt)"
    "(router_lladdr, 2) = dev_key (saddr ?p0) (skb_dev ?p0)" by (simp_all add: dev_key_def)
  have i: "CONFIG_IPV6_ROUTER_PREF host_env" "rt6_add_dflt_router_ok host_env" by simp_all
  have j: "dflt_routers world0 (router_lladdr, 2) = None"
    "dflt_routers world_routed (router_lladdr, 2) \<noteq> None" by simp_all
  have l: "(jiffies world0 + HZ host_env * 1800) mod 2 ^ BITS_PER_LONG host_env = 185000"
    "(jiffies world_routed + HZ host_env * 1800) mod 2 ^ BITS_PER_LONG host_env = 185000"
    by simp_all
  have "\<exists>w'. ndisc_router_discovery host_env ra_pkt world0 = Some w'
      \<and> (\<exists>r. dflt_routers w' (router_lladdr, 2) = Some r
              \<and> rt_pref r = ICMPV6_ROUTER_PREF_HIGH \<and> rt_expires r = Some 185000)"
    using ndisc_router_discovery_default_router[OF ra_pkt_accepted e(1) a(1) f(1) b(1) i(1) g(1) i(2) h(1) c(1) d(1)]
    unfolding j l by auto
  moreover have "\<exists>w'. ndisc_router_discovery host_env ra_pkt world_routed = Some w'
      \<and> (\<exists>r. dflt_routers w' (router_lladdr, 2) = Some r
              \<and> rt_pref r = ICMPV6_ROUTER_PREF_HIGH \<and> rt_expires r = Some 185000)"
    using j(2) ndisc_router_discovery_default_router[OF ra_pkt_accepted_routed e(2) a(1) f(1) b(1) i(1) g(2) i(2) h(1) c(1) d(1)]
    unfolding l by auto
  moreover have "\<exists>w'. ndisc_router_discovery host_env ?p0 world_routed = Some w'
      \<and> dflt_routers w' (router_lladdr, 2) = None"
    using j(2) ndisc_router_discovery_default_router[OF ra_pkt0_accepted_routed e(3) a(1) f(2) b(2) i(1) g(2) i(2) h(2) c(2) d(2)]
    by auto
  ultimately show ?thesis by blast
qed

lemma global_addr_not_linklocal: "\<not> ipv6_addr_linklocal global_addr"
  by (simp add: global_addr_def ipv6_addr_linklocal_def u8_at_def)

theorem ndisc_router_discovery_not_accepted_witness:
  "\<not> ipv6_addr_linklocal (saddr (ra_pkt\<lparr>saddr := global_addr\<rparr>))
   \<and> ndisc_router_discovery host_env (ra_pkt\<lparr>saddr := global_addr\<rparr>) world0 = Some world0
   \<and> \<not> ipv6_accept_ra host_env (host_idev\<lparr>cnf := host_cnf\<lparr>accept_ra := 0\<rparr>\<rparr>)
   \<and> idevs world_no_ra (ifindex (skb_dev ra_pkt)) = Some (host_idev\<lparr>cnf := host_cnf\<lparr>accept_ra := 0\<rparr>\<rparr>)
   \<and> (\<exists>w'. ndisc_router_discovery host_env ra_pkt world_no_ra = Some w'
          \<and> idevs w' = idevs world_no_ra \<and> dflt_routers w' = dflt_routers world_no_ra
          \<and> pneigh w' = pneigh world_no_ra
          \<and> nd_tbl w' (our_lladdr, 2) = nd_tbl world_no_ra (our_lladdr, 2))"
proof -
  have a: "\<not> ipv6_addr_linklocal (saddr (ra_pkt\<lparr>saddr := global_addr\<rparr>))"
    by (simp add: global_addr_not_linklocal)
  have b: "\<not> ipv6_accept_ra host_env (host_idev\<lparr>cnf := host_cnf\<lparr>accept_ra := 0\<rparr>\<rparr>)" by simp
  have c: "idevs world_no_ra (ifindex (skb_dev ra_pkt))
             = Some (host_idev\<lparr>cnf := host_cnf\<lparr>accept_ra := 0\<rparr>\<rparr>)" by simp
  have d: "case idevs world_no_ra (ifindex (skb_dev ra_pkt)) of None \<Rightarrow> True
           | Some d \<Rightarrow> \<not> ipv6_accept_ra host_env d"
    unfolding c using b by simp
  have e: "(our_lladdr, 2) \<noteq> dev_key (saddr ra_pkt) (skb_dev ra_pkt)"
    by (simp add: dev_key_def our_lladdr_def router_lladdr_def)
  have "ndisc_router_discovery host_env (ra_pkt\<lparr>saddr := global_addr\<rparr>) world0 = Some world0"
    using a ndisc_router_discovery_not_accepted[of "ra_pkt\<lparr>saddr := global_addr\<rparr>" host_env world0]
    by blast
  moreover have "\<exists>w'. ndisc_router_discovery host_env ra_pkt world_no_ra = Some w'
          \<and> idevs w' = idevs world_no_ra \<and> dflt_routers w' = dflt_routers world_no_ra
          \<and> pneigh w' = pneigh world_no_ra
          \<and> nd_tbl w' (our_lladdr, 2) = nd_tbl world_no_ra (our_lladdr, 2)"
    using d e ndisc_router_discovery_not_accepted[of ra_pkt host_env world_no_ra]
    by blast
  ultimately show ?thesis using a b c by blast
qed

theorem ndisc_router_discovery_no_accept_ra_counterexample:
  "ipv6_addr_linklocal (saddr ra_pkt)
   \<and> idevs world_no_ra (ifindex (skb_dev ra_pkt)) = Some (host_idev\<lparr>cnf := host_cnf\<lparr>accept_ra := 0\<rparr>\<rparr>)
   \<and> \<not> ipv6_accept_ra host_env (host_idev\<lparr>cnf := host_cnf\<lparr>accept_ra := 0\<rparr>\<rparr>)
   \<and> nd_tbl world_no_ra (router_lladdr, 2) = None
   \<and> trace world_no_ra = []
   \<and> ndisc_router_discovery host_env ra_pkt world_no_ra \<noteq> None
   \<and> ndisc_router_discovery host_env ra_pkt world_no_ra \<noteq> Some world_no_ra
   \<and> nd_tbl (the (ndisc_router_discovery host_env ra_pkt world_no_ra)) (router_lladdr, 2)
       = Some (simple_update (new_neigh (router_lladdr, 2)) (Some [0x02, 0, 0, 0, 0, 0x99])
                 NUD_STALE RA_NEIGH_FLAGS)
   \<and> trace (the (ndisc_router_discovery host_env ra_pkt world_no_ra))
       = [Neigh_update (router_lladdr, 2) (Some [0x02, 0, 0, 0, 0, 0x99]) NUD_STALE RA_NEIGH_FLAGS]"
proof -
  let ?w' = "log (Neigh_update (router_lladdr, 2) (Some [0x02, 0, 0, 0, 0, 0x99]) NUD_STALE RA_NEIGH_FLAGS)
            (world_no_ra\<lparr>nd_tbl := (nd_tbl world_no_ra)((router_lladdr, 2) \<mapsto>
               simple_update (new_neigh (router_lladdr, 2)) (Some [0x02, 0, 0, 0, 0, 0x99])
                 NUD_STALE RA_NEIGH_FLAGS)\<rparr>)"
  have t: "trace ?w' = [Neigh_update (router_lladdr, 2) (Some [0x02, 0, 0, 0, 0, 0x99]) NUD_STALE RA_NEIGH_FLAGS]"
    by simp
  have n: "nd_tbl ?w' (router_lladdr, 2)
       = Some (simple_update (new_neigh (router_lladdr, 2)) (Some [0x02, 0, 0, 0, 0, 0x99])
                 NUD_STALE RA_NEIGH_FLAGS)"
    by simp
  have ne: "?w' \<noteq> world_no_ra"
  proof
    assume "?w' = world_no_ra"
    then have "trace ?w' = trace world_no_ra" by (rule arg_cong)
    then show False unfolding t by simp
  qed
  show ?thesis
    unfolding ra_no_accept_result option.sel using t n ne by simp
qed

lemma ra_cc_accepted: "ra_accepted host_env (ra_pkt\<lparr>skb_dev := ccmni0\<rparr>) world0"
  by (simp add: ra_accepted_def ra_passes_validation_def host_idev_def host_cnf_def)

theorem ndisc_router_discovery_ccmni_witness:
  "take 2 (dev_name (skb_dev (ra_pkt\<lparr>skb_dev := ccmni0\<rparr>))) = ''cc''
   \<and> defrtr_cfg world0 3 = Some 1
   \<and> (\<exists>w'. ndisc_router_discovery host_env (ra_pkt\<lparr>skb_dev := ccmni0\<rparr>) world0 = Some w'
         \<and> dflt_routers w' = dflt_routers world0
         \<and> defrtr_cfg w' 3 = Some 0
         \<and> (\<exists>w''. ndisc_router_discovery host_env (ra_pkt\<lparr>skb_dev := ccmni0\<rparr>) w' = Some w''
               \<and> defrtr_cfg w'' 3 = Some 0))"
proof -
  let ?p = "ra_pkt\<lparr>skb_dev := ccmni0\<rparr>"
  have cc: "take 2 (dev_name (skb_dev ?p)) = ''cc''" by simp
  have i: "ifindex (skb_dev ?p) = 3" by simp
  have c0: "defrtr_cfg world0 3 = Some 1"
    by (simp add: defrtr_cfg_def host_idev_def host_cnf_def)
  from ndisc_router_discovery_ccmni[OF cc, of host_env world0]
  obtain w' where w': "ndisc_router_discovery host_env ?p world0 = Some w'"
    "dflt_routers w' = dflt_routers world0"
    "ra_accepted host_env ?p world0 \<longrightarrow> defrtr_cfg w' (ifindex (skb_dev ?p)) = Some 0"
    and later: "\<And>E2 skb2. \<exists>w''. ndisc_router_discovery E2 skb2 w' = Some w''
                 \<and> (defrtr_cfg w' (ifindex (skb_dev ?p)) = Some 0
                      \<longrightarrow> defrtr_cfg w'' (ifindex (skb_dev ?p)) = Some 0)"
    by blast
  have c1: "defrtr_cfg w' 3 = Some 0" using w'(3) ra_cc_accepted unfolding i by blast
  from later[of host_env ?p] c1 obtain w'' where
    "ndisc_router_discovery host_env ?p w' = Some w''" "defrtr_cfg w'' 3 = Some 0"
    unfolding i by blast
  with cc c0 w'(1,2) c1 show ?thesis by blast
qed

lemma opt_addr_data_sllao_cc:
  "ndisc_opt_addr_data host_env [1, 1, 0x02, 0, 0, 0, 0, 0x99] 0 ccmni0
     = Some [0x02, 0, 0, 0, 0, 0x99]"
  by (simp add: ndisc_opt_addr_data_def u8_at_def NDISC_OPT_SPACE_def)

lemma ra_cc_no_accept_result:
  "ndisc_router_discovery host_env (ra_pkt\<lparr>skb_dev := ccmni0\<rparr>) world_no_ra =
     Some (log (Neigh_update (router_lladdr, 3) (Some [0x02, 0, 0, 0, 0, 0x99]) NUD_STALE RA_NEIGH_FLAGS)
            (world_no_ra\<lparr>nd_tbl := (nd_tbl world_no_ra)((router_lladdr, 3) \<mapsto>
               simple_update (new_neigh (router_lladdr, 3)) (Some [0x02, 0, 0, 0, 0, 0x99])
                 NUD_STALE RA_NEIGH_FLAGS)\<rparr>))"
  by (simp add: ndisc_router_discovery_def Let_def skb_len_def ra_skip_linkparms_def
      ra_neigh_def dev_key_def neigh_lookup_creat_def neigh_update_def RA_NEIGH_FLAGS_def
      ra_options_def host_idev_def host_cnf_def ndopts_zero_def opt_addr_data_sllao_cc)

text \<open>
  On the cellular interface with \<open>accept_ra\<close> off, a Router Advertisement is processed as
  far as the update of the sender's neighbour entry, and \<open>accept_ra_defrtr\<close> stays 1.
\<close>

theorem ndisc_router_discovery_ccmni_no_accept_counterexample:
  "take 2 (dev_name (skb_dev (ra_pkt\<lparr>skb_dev := ccmni0\<rparr>))) = ''cc''
   \<and> defrtr_cfg world_no_ra 3 = Some 1
   \<and> ndisc_router_discovery host_env (ra_pkt\<lparr>skb_dev := ccmni0\<rparr>) world_no_ra \<noteq> None
   \<and> trace (the (ndisc_router_discovery host_env (ra_pkt\<lparr>skb_dev := ccmni0\<rparr>) world_no_ra))
       = [Neigh_update (router_lladdr, 3) (Some [0x02, 0, 0, 0, 0, 0x99]) NUD_STALE RA_NEIGH_FLAGS]
   \<and> defrtr_cfg (the (ndisc_router_discovery host_env (ra_pkt\<lparr>skb_dev := ccmni0\<rparr>) world_no_ra)) 3
       = Some 1"
  unfolding ra_cc_no_accept_result option.sel
  by (simp add: defrtr_cfg_def host_idev_def host_cnf_def)

lemma new_neigh_fields [simp]:
  "primary_key (new_neigh k) = fst k" "neigh_dev (new_neigh (a, 2)) = eth0"
  "probes (new_neigh k) = 0" "ucast_probes (parms (new_neigh k)) = 3"
  "app_probes (parms (new_neigh k)) = 0" "nud_state (new_neigh k) = NUD_NONE"
  by (simp_all add: new_neigh_def)

theorem ndisc_solicit_probe_kind_witness:
  "sint (probes (new_neigh (router_lladdr, 2)))
     < sint (ucast_probes (parms (new_neigh (router_lladdr, 2))))
   \<and> ndisc_solicit host_env (new_neigh (router_lladdr, 2)) None world0
       = ndisc_send_ns host_env eth0 router_lladdr router_lladdr None world0
   \<and> ndisc_solicit host_env
        ((new_neigh (router_lladdr, 2))
           \<lparr>probes := 3, parms := (parms (new_neigh (router_lladdr, 2)))\<lparr>app_probes := 2\<rparr>\<rparr>)
        None world0 = world0
   \<and> ndisc_solicit host_env ((new_neigh (router_lladdr, 2))\<lparr>probes := 3\<rparr>)
        (Some (ns_probe\<lparr>saddr := our_lladdr\<rparr>)) world0
       = ndisc_send_ns host_env eth0 router_lladdr (addrconf_addr_solict_mult router_lladdr)
           (Some our_lladdr) world0
   \<and> (\<exists>p. Dst_output p \<in> set (trace (ndisc_send_ns host_env eth0 router_lladdr
                                       (addrconf_addr_solict_mult router_lladdr)
                                       (Some our_lladdr) world0))
          \<and> icmp6_type p = NDISC_NEIGHBOUR_SOLICITATION
          \<and> daddr p = addrconf_addr_solict_mult router_lladdr
          \<and> take 16 (body p) = router_lladdr \<and> saddr p = our_lladdr)"
proof -
  let ?n = "new_neigh (router_lladdr, 2)"
  let ?n2 = "?n\<lparr>probes := 3, parms := (parms ?n)\<lparr>app_probes := 2\<rparr>\<rparr>"
  let ?n3 = "?n\<lparr>probes := 3\<rparr>"
  let ?trig = "Some (ns_probe\<lparr>saddr := our_lladdr\<rparr>)"
  have sa1: "None = (case None of None \<Rightarrow> None
                     | Some s \<Rightarrow> if ipv6_chk_addr host_env (saddr s) (Some (ifindex (neigh_dev ?n)))
                                 then Some (saddr s) else None)"
    and sa2: "None = (case None of None \<Rightarrow> None
                     | Some s \<Rightarrow> if ipv6_chk_addr host_env (saddr s) (Some (ifindex (neigh_dev ?n2)))
                                 then Some (saddr s) else None)"
    by simp_all
  have sa3: "Some our_lladdr = (case ?trig of None \<Rightarrow> None
                     | Some s \<Rightarrow> if ipv6_chk_addr host_env (saddr s) (Some (ifindex (neigh_dev ?n3)))
                                 then Some (saddr s) else None)"
    by simp
  have dev: "eth0 = neigh_dev ?n" "eth0 = neigh_dev ?n2" "eth0 = neigh_dev ?n3" by simp_all
  have tg: "router_lladdr = primary_key ?n" "router_lladdr = primary_key ?n2"
    "router_lladdr = primary_key ?n3" by simp_all
  have f1: "- (2 ^ 31) \<le> sint (probes ?n) - sint (ucast_probes (parms ?n))"
    "sint (probes ?n) - sint (ucast_probes (parms ?n)) < 2 ^ 31"
    "sint (ucast_probes (parms ?n)) \<le> sint (probes ?n) \<longrightarrow>
       sint (probes ?n) - sint (ucast_probes (parms ?n)) - sint (app_probes (parms ?n)) < 2 ^ 31"
    by simp_all
  have f2: "- (2 ^ 31) \<le> sint (probes ?n2) - sint (ucast_probes (parms ?n2))"
    "sint (probes ?n2) - sint (ucast_probes (parms ?n2)) < 2 ^ 31"
    "sint (ucast_probes (parms ?n2)) \<le> sint (probes ?n2) \<longrightarrow>
       sint (probes ?n2) - sint (ucast_probes (parms ?n2)) - sint (app_probes (parms ?n2)) < 2 ^ 31"
    by simp_all
  have f3: "- (2 ^ 31) \<le> sint (probes ?n3) - sint (ucast_probes (parms ?n3))"
    "sint (probes ?n3) - sint (ucast_probes (parms ?n3)) < 2 ^ 31"
    "sint (ucast_probes (parms ?n3)) \<le> sint (probes ?n3) \<longrightarrow>
       sint (probes ?n3) - sint (ucast_probes (parms ?n3)) - sint (app_probes (parms ?n3)) < 2 ^ 31"
    by simp_all
  have c1: "sint (probes ?n) < sint (ucast_probes (parms ?n))" by simp
  have c2: "sint (ucast_probes (parms ?n2)) \<le> sint (probes ?n2)
            \<and> sint (probes ?n2) < sint (ucast_probes (parms ?n2)) + sint (app_probes (parms ?n2))"
    by simp
  have c3: "sint (ucast_probes (parms ?n3)) \<le> sint (probes ?n3)
            \<and> sint (ucast_probes (parms ?n3)) + sint (app_probes (parms ?n3)) \<le> sint (probes ?n3)"
    by simp
  have c4: "alloc_skb_ok host_env \<and> icmp6_dst_alloc_ok host_env
              \<and> (Some our_lladdr \<noteq> None
                  \<or> ipv6_get_lladdr host_env (ifindex eth0) {IFA_F_TENTATIVE, IFA_F_OPTIMISTIC} \<noteq> None)"
    by simp
  have r1: "ndisc_solicit host_env ?n None world0
       = ndisc_send_ns host_env eth0 router_lladdr router_lladdr None world0"
    using c1 ndisc_solicit_probe_kind[OF sa1 dev(1) tg(1) f1, of world0] by blast
  have r2: "ndisc_solicit host_env ?n2 None world0 = world0"
    using c2 ndisc_solicit_probe_kind[OF sa2 dev(2) tg(2) f2, of world0] by simp
  have r3: "ndisc_solicit host_env ?n3 ?trig world0
       = ndisc_send_ns host_env eth0 router_lladdr (addrconf_addr_solict_mult router_lladdr)
           (Some our_lladdr) world0"
    using c3 ndisc_solicit_probe_kind[OF sa3 dev(3) tg(3) f3, of world0] by blast
  have r4: "\<exists>p. Dst_output p \<in> set (trace (ndisc_send_ns host_env eth0 router_lladdr
                                       (addrconf_addr_solict_mult router_lladdr)
                                       (Some our_lladdr) world0))
          \<and> icmp6_type p = NDISC_NEIGHBOUR_SOLICITATION
          \<and> daddr p = addrconf_addr_solict_mult router_lladdr
          \<and> take 16 (body p) = router_lladdr \<and> saddr p = our_lladdr"
    using c4 ndisc_solicit_probe_kind[OF sa3 dev(3) tg(3) f3, of world0] by auto
  from c1 r1 r2 r3 r4 show ?thesis by blast
qed

text \<open>
  With \<open>ucast_probes\<close> at the least 32-bit \<open>int\<close>, the first subtraction overflows: the
  probe count 0 is not below the limit, nor below the sum of the two limits, and the
  solicitation still goes to the target's own address, not to the multicast address.
\<close>

theorem ndisc_solicit_overflow_counterexample:
  "\<not> sint (probes (neigh_min_ucast)) < sint (ucast_probes (parms neigh_min_ucast))
   \<and> \<not> sint (probes (neigh_min_ucast))
         < sint (ucast_probes (parms neigh_min_ucast)) + sint (app_probes (parms neigh_min_ucast))
   \<and> ndisc_solicit host_env neigh_min_ucast None world0
       = ndisc_send_ns host_env eth0 router_lladdr router_lladdr None world0
   \<and> ndisc_solicit host_env neigh_min_ucast None world0
       \<noteq> ndisc_send_ns host_env eth0 router_lladdr (addrconf_addr_solict_mult router_lladdr)
            None world0"
proof -
  let ?uni = "ndisc_send_ns host_env eth0 router_lladdr router_lladdr None world0"
  let ?mult = "ndisc_send_ns host_env eth0 router_lladdr (addrconf_addr_solict_mult router_lladdr)
                 None world0"
  have v: "sint (probes neigh_min_ucast) = 0"
    "sint (ucast_probes (parms neigh_min_ucast)) = - 2147483648"
    "sint (app_probes (parms neigh_min_ucast)) = 0"
    by (simp_all add: neigh_min_ucast_def)
  have sol: "ndisc_solicit host_env neigh_min_ucast None world0 = ?uni"
    by (simp add: ndisc_solicit_def Let_def neigh_min_ucast_def)
  have s: "(case None of
              None \<Rightarrow> ipv6_get_lladdr host_env (ifindex eth0) {IFA_F_TENTATIVE, IFA_F_OPTIMISTIC}
            | Some a \<Rightarrow> Some a) = Some our_lladdr"
    by simp
  from ndisc_send_ns_out[where E = host_env and sa = None and dev = eth0 and s = our_lladdr
        and target = router_lladdr and da = router_lladdr and w = world0, OF _ _ s]
  obtain p where p: "Dst_output p \<in> set (trace ?uni)" "daddr p = router_lladdr"
    by auto
  have ne: "router_lladdr \<noteq> addrconf_addr_solict_mult router_lladdr"
    by (simp add: router_lladdr_def addrconf_addr_solict_mult_def)
  have "?uni \<noteq> ?mult"
  proof
    assume eq: "?uni = ?mult"
    from p(1) have "p \<in> emitted_by world0 ?uni" by (simp add: emitted_by_def)
    then have "p \<in> emitted_by world0 ?mult" using eq by simp
    from ndisc_send_ns_emits[OF this] have "daddr p = addrconf_addr_solict_mult router_lladdr"
      by simp
    with p(2) ne show False by simp
  qed
  with v sol show ?thesis by simp
qed

lemma ndisc_send_skb_emitted:
  assumes "icmp6_dst_alloc_ok E" and "trace w0 = []"
  shows "\<exists>p. p \<in> emitted_by w0 (ndisc_send_skb E skb da sa w)"
proof -
  from ndisc_send_skb_out[OF assms(1), of skb da sa w] obtain p where
    "Dst_output p \<in> set (trace (ndisc_send_skb E skb da sa w))" by blast
  then have "p \<in> emitted_by w0 (ndisc_send_skb E skb da sa w)"
    using assms(2) by (simp add: emitted_by_def)
  then show ?thesis ..
qed

lemma host_alloc_skb: "\<exists>skb. ndisc_alloc_skb host_env dev = Some skb"
  by (simp add: ndisc_alloc_skb_def)

lemma host_sends_ns:
  "\<exists>p. p \<in> emitted_by world0 (ndisc_send_ns host_env eth0 router_lladdr router_lladdr None world0)"
proof -
  obtain skb0 where a: "ndisc_alloc_skb host_env eth0 = Some skb0" using host_alloc_skb by blast
  have "\<exists>skb. ndisc_send_ns host_env eth0 router_lladdr router_lladdr None world0
           = ndisc_send_skb host_env skb router_lladdr our_lladdr world0"
    by (simp add: ndisc_send_ns_def a Let_def) blast
  then show ?thesis using ndisc_send_skb_emitted[of host_env world0] by auto
qed

lemma host_sends_na:
  "\<exists>p. p \<in> emitted_by world0
          (ndisc_send_na host_env eth0 router_lladdr our_lladdr False True True True world0)"
proof -
  obtain skb0 where a: "ndisc_alloc_skb host_env eth0 = Some skb0" using host_alloc_skb by blast
  have i: "ipv6_get_ifaddr world0 our_lladdr eth0
             = Some (\<lparr>ifa_addr = our_lladdr, ifa_flags = {}\<rparr>, host_idev)"
    by (simp add: ipv6_get_ifaddr_def host_idev_def)
  have "\<exists>skb. ndisc_send_na host_env eth0 router_lladdr our_lladdr False True True True world0
           = ndisc_send_skb host_env skb router_lladdr our_lladdr world0"
    by (simp add: ndisc_send_na_def a i Let_def) blast
  then show ?thesis using ndisc_send_skb_emitted[of host_env world0] by auto
qed

lemma host_sends_rs:
  "\<exists>p. p \<in> emitted_by world0 (ndisc_send_rs host_env eth0 our_lladdr router_lladdr world0)"
proof -
  obtain skb0 where a: "ndisc_alloc_skb host_env eth0 = Some skb0" using host_alloc_skb by blast
  have "\<exists>skb. ndisc_send_rs host_env eth0 our_lladdr router_lladdr world0
           = ndisc_send_skb host_env skb router_lladdr our_lladdr world0"
    by (simp add: ndisc_send_rs_def a Let_def) blast
  then show ?thesis using ndisc_send_skb_emitted[of host_env world0] by auto
qed

lemma host_sends_redirect:
  "\<exists>p. p \<in> emitted_by world0
          (ndisc_send_redirect host_env (ns_probe\<lparr>daddr := global_addr\<rparr>) (replicate 48 0)
             router_lladdr world0)"
proof -
  obtain skb0 where a: "ndisc_alloc_skb host_env eth0 = Some skb0" using host_alloc_skb by blast
  have t: "redirect_target_lladdr host_env eth0 router_lladdr world0
        = Some (world0\<lparr>nd_tbl := (nd_tbl world0)((router_lladdr, 2) \<mapsto> new_neigh (router_lladdr, 2))\<rparr>,
                None, 0)"
    by (simp add: redirect_target_lladdr_def neigh_lookup_creat_def dev_key_def NUD_VALID_def)
  have p: "skb_dev (ns_probe\<lparr>daddr := global_addr\<rparr>) = eth0" by (simp add: ns_probe_def)
  have "\<exists>skb da sa w. ndisc_send_redirect host_env (ns_probe\<lparr>daddr := global_addr\<rparr>)
             (replicate 48 0) router_lladdr world0
           = ndisc_send_skb host_env skb da sa w"
    unfolding ndisc_send_redirect_def Let_def p
    by (simp add: t a) blast
  then show ?thesis using ndisc_send_skb_emitted[of host_env world0] by auto
qed

lemma host_sends_probe:
  "\<exists>p. p \<in> emitted_by world0 (ndisc_solicit host_env (new_neigh (router_lladdr, 2)) None world0)"
proof -
  have "ndisc_solicit host_env (new_neigh (router_lladdr, 2)) None world0
          = ndisc_send_ns host_env eth0 router_lladdr router_lladdr None world0"
    by (simp add: ndisc_solicit_def Let_def)
  then show ?thesis using host_sends_ns by simp
qed

theorem ndisc_emitted_hop_limit_and_code_witness:
  "ndisc_net_init host_env (world0\<lparr>ndisc_sk := \<lparr>np_hop_limit = 64, np_mc_loop = 1\<rparr>\<rparr>) = (0, world0)
   \<and> (\<exists>p. p \<in> emitted_by world0 (ndisc_send_ns host_env eth0 router_lladdr router_lladdr None world0)
          \<and> hop_limit p = 255 \<and> icmp6_code p = 0 \<and> icmp6_type p = NDISC_NEIGHBOUR_SOLICITATION)
   \<and> (\<exists>p. p \<in> emitted_by world0
                 (ndisc_send_na host_env eth0 router_lladdr our_lladdr False True True True world0)
          \<and> hop_limit p = 255 \<and> icmp6_code p = 0 \<and> icmp6_type p = NDISC_NEIGHBOUR_ADVERTISEMENT)
   \<and> (\<exists>p. p \<in> emitted_by world0 (ndisc_send_rs host_env eth0 our_lladdr router_lladdr world0)
          \<and> hop_limit p = 255 \<and> icmp6_code p = 0 \<and> icmp6_type p = NDISC_ROUTER_SOLICITATION)
   \<and> (\<exists>p. p \<in> emitted_by world0
                 (ndisc_send_redirect host_env (ns_probe\<lparr>daddr := global_addr\<rparr>) (replicate 48 0)
                    router_lladdr world0)
          \<and> hop_limit p = 255 \<and> icmp6_code p = 0 \<and> icmp6_type p = NDISC_REDIRECT)
   \<and> (\<exists>p. p \<in> emitted_by world0
                 (ndisc_solicit host_env (new_neigh (router_lladdr, 2)) None world0)
          \<and> hop_limit p = 255 \<and> icmp6_code p = 0 \<and> icmp6_type p = NDISC_NEIGHBOUR_SOLICITATION)"
proof -
  have init: "ndisc_net_init host_env (world0\<lparr>ndisc_sk := \<lparr>np_hop_limit = 64, np_mc_loop = 1\<rparr>\<rparr>)
                = (0, world0)"
    by (simp add: ndisc_net_init_def world0_def)
  note t = ndisc_emitted_hop_limit_and_code[OF init refl,
      where dev = eth0 and solicit = router_lladdr and da = router_lladdr and sa = None
        and solicited_addr = our_lladdr and r = False and s = True and ov = True and inc = True
        and sa' = our_lladdr and skb = "ns_probe\<lparr>daddr := global_addr\<rparr>"
        and orig = "replicate 48 0" and target = router_lladdr
        and neigh = "new_neigh (router_lladdr, 2)" and trigger = None]
  have a: "\<exists>p. p \<in> emitted_by world0 (ndisc_send_ns host_env eth0 router_lladdr router_lladdr None world0)
          \<and> hop_limit p = 255 \<and> icmp6_code p = 0 \<and> icmp6_type p = NDISC_NEIGHBOUR_SOLICITATION"
    using t host_sends_ns by blast
  have b: "\<exists>p. p \<in> emitted_by world0
                 (ndisc_send_na host_env eth0 router_lladdr our_lladdr False True True True world0)
          \<and> hop_limit p = 255 \<and> icmp6_code p = 0 \<and> icmp6_type p = NDISC_NEIGHBOUR_ADVERTISEMENT"
    using t host_sends_na by blast
  have c: "\<exists>p. p \<in> emitted_by world0 (ndisc_send_rs host_env eth0 our_lladdr router_lladdr world0)
          \<and> hop_limit p = 255 \<and> icmp6_code p = 0 \<and> icmp6_type p = NDISC_ROUTER_SOLICITATION"
    using t host_sends_rs by blast
  have d: "\<exists>p. p \<in> emitted_by world0
                 (ndisc_send_redirect host_env (ns_probe\<lparr>daddr := global_addr\<rparr>) (replicate 48 0)
                    router_lladdr world0)
          \<and> hop_limit p = 255 \<and> icmp6_code p = 0 \<and> icmp6_type p = NDISC_REDIRECT"
    using t host_sends_redirect by blast
  have e: "\<exists>p. p \<in> emitted_by world0
                 (ndisc_solicit host_env (new_neigh (router_lladdr, 2)) None world0)
          \<and> hop_limit p = 255 \<and> icmp6_code p = 0 \<and> icmp6_type p = NDISC_NEIGHBOUR_SOLICITATION"
    using t host_sends_probe by blast
  from init a b c d e show ?thesis by blast
qed

end
